theory Spec2Isabelle
  imports Main
begin

section \<open>Errors, time and configuration\<close>

text \<open>
  Go errors are values. \<open>Error msg\<close> is \<open>errors.New(msg)\<close> (or a library error with
  that text) and \<open>Wrap msg e\<close> is \<open>fmt.Errorf("msg: %w", e)\<close>. The two errors of the
  go-redis client that the code tells apart are \<open>RedisNil\<close> (\<open>redis.Nil\<close>: the key is
  absent) and \<open>RedisDown\<close> (any other failure of the call). \<open>ValidationErrors fs\<close> is
  the error of the request validator: the fields that failed, each with the tag it failed.
\<close>

datatype error =
    Error string
  | Wrap string error
  | RedisNil
  | RedisDown
  | ValidationErrors "(string \<times> string) list"

text \<open>
  \<open>time.Time\<close> and \<open>time.Duration\<close> are counted in nanoseconds. A \<open>jwt.NumericDate\<close>
  is a time truncated to the second (\<open>jwt.TimePrecision\<close>).
\<close>

type_synonym Time = int
type_synonym Duration = int

definition Second :: Duration where
  "Second = 1000000000"

definition Minute :: Duration where
  "Minute = 60 * Second"

definition Hour :: Duration where
  "Hour = 60 * Minute"

definition NewNumericDate :: "Time \<Rightarrow> Time" where
  "NewNumericDate t = t - t mod Second"

text \<open>config/config.go: \<open>JWTConfig\<close> and the part of \<open>GetConfig\<close> that fills it. The
  argument of \<open>GetConfig\<close> is \<open>os.Getenv\<close>.\<close>

record JWTConfig =
  SecretKey :: string
  AccessTokenTTL :: Duration
  RefreshTokenTTL :: Duration

definition GetConfig :: "(string \<Rightarrow> string) \<Rightarrow> JWTConfig" where
  "GetConfig getenv =
     \<lparr>SecretKey = getenv ''JWT_SECRET_KEY'',
      AccessTokenTTL = 15 * Minute,
      RefreshTokenTTL = 7 * 24 * Hour\<rparr>"

section \<open>Data\<close>

text \<open>utils/jwt.go: the token kinds and the claim set. A registered claim is a pointer,
  absent (\<open>None\<close>) when the token does not carry it.\<close>

type_synonym TokenType = string

definition AccessToken :: TokenType where
  "AccessToken = ''access''"

definition RefreshToken :: TokenType where
  "RefreshToken = ''refresh''"

record Claims =
  UserID :: string
  Type :: TokenType
  ExpiresAt :: "Time option"
  IssuedAt :: "Time option"
  NotBefore :: "Time option"

text \<open>The signing methods of golang-jwt: the HMAC family (HS256, HS384, HS512) is one Go
  type, \<open>*jwt.SigningMethodHMAC\<close>; every other algorithm (RSA, ECDSA, none) is another.
  \<open>Token\<close> is \<open>jwt.Token\<close>.\<close>

datatype SigningMethod = SigningMethodHMAC string | SigningMethodOther string

definition SigningMethodHS256 :: SigningMethod where
  "SigningMethodHS256 = SigningMethodHMAC ''HS256''"

record Token =
  Method :: SigningMethod
  TokenClaims :: Claims
  Valid :: bool

text \<open>models/user.go: the user record. \<open>ZeroTime\<close> is the zero \<open>time.Time\<close>
  (1 January of year 1).\<close>

record User =
  ID :: string
  Username :: string
  Password :: string
  Email :: string
  OpenID :: string
  CreatedAt :: Time
  UpdatedAt :: Time

definition ZeroTime :: Time where
  "ZeroTime = - 62135596800 * Second"

text \<open>utils/wechat.go: the answer of the code2session API.\<close>

record Code2SessionResponse =
  SessionOpenID :: string
  SessionKey :: string
  UnionID :: string
  ErrCode :: int
  ErrMsg :: string

text \<open>handlers/auth.go: the request bodies. The field names carry a suffix where the
  source uses one name in several structs.\<close>

record RegisterRequest =
  RegUsername :: string
  RegPassword :: string
  RegEmail :: string

record LoginRequest =
  LoginUsername :: string
  LoginPassword :: string

record RefreshRequest =
  ReqRefreshToken :: string

record WeChatLoginRequest =
  Code :: string

text \<open>A JSON response body is the list of its members. A member that the source builds
  from an error's text keeps the error itself: \<open>JError e\<close> is \<open>err.Error()\<close> and
  \<open>JSprintf p e\<close> is \<open>fmt.Sprintf(p + "%v", err)\<close>.\<close>

datatype jval =
    JNull
  | JString string
  | JNumber int
  | JTime Time
  | JError error
  | JSprintf string error

type_synonym json = "(string \<times> jval) list"

record response =
  status :: nat
  body :: json

section \<open>The libraries and services outside the repository\<close>

text \<open>
  Everything outside the repository that the code calls is a field of \<open>env\<close>:
  \<^item> golang-jwt: encoding and signing a claim set (\<open>SignedString\<close> of a token made by
    \<open>NewWithClaims\<close>), decoding a token string without verifying it, and checking the
    signature of a token string under a key;
  \<^item> bcrypt: \<open>GenerateFromPassword\<close>, and \<open>CompareHashAndPassword\<close>, which returns
    \<open>None\<close> (nil) on a match;
  \<^item> encoding/json on a user record, as the user store calls it;
  \<^item> the validator's test of the \<open>email\<close> tag;
  \<^item> the WeChat API: the HTTP call of \<open>Code2Session\<close> with the reading and the
    decoding of its answer;
  \<^item> the backend behind the reverse proxy, by request path.
  A theorem that needs a law of one of these states it as a hypothesis.
\<close>

record env =
  SignedString :: "SigningMethod \<Rightarrow> string \<Rightarrow> Claims \<Rightarrow> error + string"
  ParseUnverified :: "string \<Rightarrow> error + Token"
  Verify :: "SigningMethod \<Rightarrow> string \<Rightarrow> string \<Rightarrow> bool"
  GenerateFromPassword :: "string \<Rightarrow> error + string"
  CompareHashAndPassword :: "string \<Rightarrow> string \<Rightarrow> error option"
  Marshal :: "User \<Rightarrow> error + string"
  Unmarshal :: "string \<Rightarrow> error + User"
  IsEmail :: "string \<Rightarrow> bool"
  WeChatAPI :: "string \<Rightarrow> error + Code2SessionResponse"
  Backend :: "string \<Rightarrow> response"

section \<open>Tokens (utils/jwt.go)\<close>

text \<open>The registered-claims validator of golang-jwt v5 with its default options: the
  token is expired unless \<open>now < exp\<close>, and not yet valid unless \<open>nbf \<le> now\<close>; an absent
  claim is not checked, and \<open>iat\<close> is not checked.\<close>

definition Validate :: "Time \<Rightarrow> Claims \<Rightarrow> error + unit" where
  "Validate now c =
     (if (case ExpiresAt c of None \<Rightarrow> False | Some e \<Rightarrow> \<not> now < e)
        then Inl (Error ''token is expired'')
      else if (case NotBefore c of None \<Rightarrow> False | Some n \<Rightarrow> now < n)
        then Inl (Error ''token is not valid yet'')
      else Inr ())"

text \<open>\<open>jwt.ParseWithClaims\<close>: decode, ask the key function for the key, verify the
  signature, validate the registered claims, and only then mark the token valid.\<close>

definition ParseWithClaims ::
  "env \<Rightarrow> Time \<Rightarrow> string \<Rightarrow> (Token \<Rightarrow> error + string) \<Rightarrow> error + Token" where
  "ParseWithClaims env now tokenString keyFunc =
     (case ParseUnverified env tokenString of
        Inl err \<Rightarrow> Inl err
      | Inr token \<Rightarrow>
          (case keyFunc token of
             Inl err \<Rightarrow> Inl (Wrap ''error while executing keyfunc'' err)
           | Inr key \<Rightarrow>
               if \<not> Verify env (Method token) tokenString key
                 then Inl (Error ''signature is invalid'')
               else (case Validate now (TokenClaims token) of
                       Inl err \<Rightarrow> Inl err
                     | Inr _ \<Rightarrow> Inr (token\<lparr>Valid := True\<rparr>))))"

definition generateToken ::
  "env \<Rightarrow> JWTConfig \<Rightarrow> Time \<Rightarrow> string \<Rightarrow> TokenType \<Rightarrow> Duration \<Rightarrow> error + string" where
  "generateToken env cfg now userID tokenType ttl =
     (let claims = \<lparr>UserID = userID, Type = tokenType,
                     ExpiresAt = Some (NewNumericDate (now + ttl)),
                     IssuedAt = Some (NewNumericDate now),
                     NotBefore = Some (NewNumericDate now)\<rparr>
      in SignedString env SigningMethodHS256 (SecretKey cfg) claims)"

definition GenerateAccessToken ::
  "env \<Rightarrow> JWTConfig \<Rightarrow> Time \<Rightarrow> string \<Rightarrow> error + string" where
  "GenerateAccessToken env cfg now userID =
     generateToken env cfg now userID AccessToken (AccessTokenTTL cfg)"

definition GenerateRefreshToken ::
  "env \<Rightarrow> JWTConfig \<Rightarrow> Time \<Rightarrow> string \<Rightarrow> error + string" where
  "GenerateRefreshToken env cfg now userID =
     generateToken env cfg now userID RefreshToken (RefreshTokenTTL cfg)"

definition keyFunc :: "JWTConfig \<Rightarrow> Token \<Rightarrow> error + string" where
  "keyFunc cfg token =
     (case Method token of
        SigningMethodHMAC _ \<Rightarrow> Inr (SecretKey cfg)
      | SigningMethodOther _ \<Rightarrow> Inl (Error ''unexpected signing method''))"

definition ValidateToken ::
  "env \<Rightarrow> JWTConfig \<Rightarrow> Time \<Rightarrow> string \<Rightarrow> error + Claims" where
  "ValidateToken env cfg now tokenString =
     (case ParseWithClaims env now tokenString (keyFunc cfg) of
        Inl err \<Rightarrow> Inl (Wrap ''invalid token'' err)
      | Inr token \<Rightarrow>
          if \<not> Valid token then Inl (Error ''invalid token claims'')
          else Inr (TokenClaims token))"

definition ValidateAccessToken ::
  "env \<Rightarrow> JWTConfig \<Rightarrow> Time \<Rightarrow> string \<Rightarrow> error + Claims" where
  "ValidateAccessToken env cfg now tokenString =
     (case ValidateToken env cfg now tokenString of
        Inl err \<Rightarrow> Inl err
      | Inr claims \<Rightarrow>
          if Type claims \<noteq> AccessToken then Inl (Error ''token is not an access token'')
          else Inr claims)"

definition ValidateRefreshToken ::
  "env \<Rightarrow> JWTConfig \<Rightarrow> Time \<Rightarrow> string \<Rightarrow> error + Claims" where
  "ValidateRefreshToken env cfg now tokenString =
     (case ValidateToken env cfg now tokenString of
        Inl err \<Rightarrow> Inl err
      | Inr claims \<Rightarrow>
          if Type claims \<noteq> RefreshToken then Inl (Error ''token is not a refresh token'')
          else Inr claims)"

text \<open>The law of the JWT library used below: a token string that \<open>SignedString\<close> produced
  decodes to the method and the claims that went in, and its signature verifies under
  the key that signed it.\<close>

definition jwt_roundtrip :: "env \<Rightarrow> bool" where
  "jwt_roundtrip env \<longleftrightarrow>
     (\<forall>m k c t. SignedString env m k c = Inr t \<longrightarrow>
        ParseUnverified env t = Inr \<lparr>Method = m, TokenClaims = c, Valid = False\<rparr> \<and>
        Verify env m t k)"

section \<open>The Redis client\<close>

text \<open>
  The store maps a key to its value and the instant at which the key expires (\<open>None\<close>:
  never). A call of the client can fail for reasons outside the program (the network,
  the server): \<open>faults\<close> lists, for the calls still to come, whether each one fails; a
  call past the end of the list succeeds. A call that fails leaves the store as it is.
  Every time a handler reads the clock, or Redis reads its own, it is the instant \<open>now\<close>
  of the request.
\<close>

record entry =
  val :: string
  expire_at :: "Time option"

record redis =
  kv :: "string \<Rightarrow> entry option"
  faults :: "bool list"

definition roundtrip :: "redis \<Rightarrow> bool \<times> redis" where
  "roundtrip r = (case faults r of [] \<Rightarrow> (False, r) | f # fs \<Rightarrow> (f, r\<lparr>faults := fs\<rparr>))"

definition live :: "redis \<Rightarrow> Time \<Rightarrow> string \<Rightarrow> string option" where
  "live r now k =
     (case kv r k of
        None \<Rightarrow> None
      | Some e \<Rightarrow>
          (case expire_at e of
             None \<Rightarrow> Some (val e)
           | Some t \<Rightarrow> if now < t then Some (val e) else None))"

definition redis_Get :: "Time \<Rightarrow> string \<Rightarrow> redis \<Rightarrow> (error + string) \<times> redis" where
  "redis_Get now k r =
     (case roundtrip r of
        (True, r') \<Rightarrow> (Inl RedisDown, r')
      | (False, r') \<Rightarrow>
          (case live r' now k of None \<Rightarrow> (Inl RedisNil, r') | Some v \<Rightarrow> (Inr v, r')))"

text \<open>\<open>Set(key, value, expiration).Err()\<close>: an expiration of zero means no expiry.\<close>

definition redis_Set :: "Time \<Rightarrow> string \<Rightarrow> string \<Rightarrow> Duration \<Rightarrow> redis \<Rightarrow> error option \<times> redis" where
  "redis_Set now k v expiration r =
     (case roundtrip r of
        (True, r') \<Rightarrow> (Some RedisDown, r')
      | (False, r') \<Rightarrow>
          (None, r'\<lparr>kv := (kv r')(k \<mapsto>
             \<lparr>val = v,
              expire_at = (if expiration = 0 then None else Some (now + expiration))\<rparr>)\<rparr>))"

text \<open>\<open>Del(key).Err()\<close>: deleting an absent key is not an error.\<close>

definition redis_Del :: "Time \<Rightarrow> string \<Rightarrow> redis \<Rightarrow> error option \<times> redis" where
  "redis_Del now k r =
     (case roundtrip r of
        (True, r') \<Rightarrow> (Some RedisDown, r')
      | (False, r') \<Rightarrow> (None, r'\<lparr>kv := (kv r')(k := None)\<rparr>))"

definition redis_Exists :: "Time \<Rightarrow> string \<Rightarrow> redis \<Rightarrow> (error + int) \<times> redis" where
  "redis_Exists now k r =
     (case roundtrip r of
        (True, r') \<Rightarrow> (Inl RedisDown, r')
      | (False, r') \<Rightarrow> (Inr (case live r' now k of None \<Rightarrow> 0 | Some _ \<Rightarrow> 1), r'))"

section \<open>The user store (models/user.go)\<close>

text \<open>\<open>Create\<close> stamps the record it is given; the stamped record is returned with
  success, as the caller sees it through the pointer.\<close>

definition Create :: "env \<Rightarrow> Time \<Rightarrow> User \<Rightarrow> redis \<Rightarrow> (error + User) \<times> redis" where
  "Create env now user0 r =
     (if ID user0 = [] then (Inl (Error ''user ID cannot be empty''), r)
      else
        let user = user0\<lparr>CreatedAt := now, UpdatedAt := now\<rparr> in
        (case Marshal env user of
           Inl err \<Rightarrow> (Inl (Wrap ''failed to marshal user'' err), r)
         | Inr userJSON \<Rightarrow>
             (case redis_Set now (''user:'' @ ID user) userJSON 0 r of
                (Some err, r1) \<Rightarrow> (Inl (Wrap ''failed to store user'' err), r1)
              | (None, r1) \<Rightarrow>
                  (case redis_Set now (''username:'' @ Username user) (ID user) 0 r1 of
                     (Some err, r2) \<Rightarrow> (Inl (Wrap ''failed to create username index'' err), r2)
                   | (None, r2) \<Rightarrow> (Inr user, r2)))))"

definition GetByID :: "env \<Rightarrow> Time \<Rightarrow> string \<Rightarrow> redis \<Rightarrow> (error + User) \<times> redis" where
  "GetByID env now id' r =
     (case redis_Get now (''user:'' @ id') r of
        (Inl err, r1) \<Rightarrow>
          (if err = RedisNil then (Inl (Error ''user not found''), r1)
           else (Inl (Wrap ''failed to get user'' err), r1))
      | (Inr userJSON, r1) \<Rightarrow>
          (case Unmarshal env userJSON of
             Inl err \<Rightarrow> (Inl (Wrap ''failed to unmarshal user'' err), r1)
           | Inr user \<Rightarrow> (Inr user, r1)))"

definition GetByUsername :: "env \<Rightarrow> Time \<Rightarrow> string \<Rightarrow> redis \<Rightarrow> (error + User) \<times> redis" where
  "GetByUsername env now username r =
     (case redis_Get now (''username:'' @ username) r of
        (Inl err, r1) \<Rightarrow>
          (if err = RedisNil then (Inl (Error ''user not found''), r1)
           else (Inl (Wrap ''failed to get user ID'' err), r1))
      | (Inr id', r1) \<Rightarrow> GetByID env now id' r1)"

definition CreateWeChatUser :: "env \<Rightarrow> Time \<Rightarrow> string \<Rightarrow> redis \<Rightarrow> (error + User) \<times> redis" where
  "CreateWeChatUser env now openID r =
     (if openID = [] then (Inl (Error ''OpenID cannot be empty''), r)
      else
        let openIDKey = ''openid:'' @ openID in
        (case redis_Exists now openIDKey r of
           (Inl err, r1) \<Rightarrow> (Inl (Wrap ''failed to check if OpenID exists'' err), r1)
         | (Inr exists, r1) \<Rightarrow>
             if exists > 0 then
               (case redis_Get now openIDKey r1 of
                  (Inl err, r2) \<Rightarrow> (Inl (Wrap ''failed to get user ID'' err), r2)
                | (Inr id', r2) \<Rightarrow> GetByID env now id' r2)
             else
               let id' = ''wx_'' @ openID;
                   user = \<lparr>ID = id', Username = id', Password = [], Email = [],
                           OpenID = openID, CreatedAt = now, UpdatedAt = now\<rparr>
               in
               (case Marshal env user of
                  Inl err \<Rightarrow> (Inl (Wrap ''failed to marshal user'' err), r1)
                | Inr userJSON \<Rightarrow>
                    (case redis_Set now (''user:'' @ ID user) userJSON 0 r1 of
                       (Some err, r2) \<Rightarrow> (Inl (Wrap ''failed to store user'' err), r2)
                     | (None, r2) \<Rightarrow>
                         (case redis_Set now (''username:'' @ Username user) (ID user) 0 r2 of
                            (Some err, r3) \<Rightarrow>
                              (Inl (Wrap ''failed to create username index'' err), r3)
                          | (None, r3) \<Rightarrow>
                              (case redis_Set now openIDKey (ID user) 0 r3 of
                                 (Some err, r4) \<Rightarrow>
                                   (Inl (Wrap ''failed to create OpenID index'' err), r4)
                               | (None, r4) \<Rightarrow> (Inr user, r4)))))))"

section \<open>The WeChat exchange (utils/wechat.go)\<close>

definition Code2Session :: "env \<Rightarrow> string \<Rightarrow> error + Code2SessionResponse" where
  "Code2Session env code =
     (case WeChatAPI env code of
        Inl err \<Rightarrow> Inl err
      | Inr sessionResp \<Rightarrow>
          if ErrCode sessionResp \<noteq> 0 then Inl (Error ''WeChat API error'')
          else Inr sessionResp)"

section \<open>The authentication middleware (middleware/auth.go)\<close>

text \<open>\<open>strings.Split(s, sep)\<close> for a separator of one character: the pieces between the
  separators, empty pieces included; the result is never empty.\<close>

fun Split :: "string \<Rightarrow> char \<Rightarrow> string list" where
  "Split [] sep = [[]]"
| "Split (c # cs) sep =
     (if c = sep then [] # Split cs sep
      else (c # hd (Split cs sep)) # tl (Split cs sep))"

abbreviation StatusOK :: nat where "StatusOK \<equiv> 200"
abbreviation StatusCreated :: nat where "StatusCreated \<equiv> 201"
abbreviation StatusBadRequest :: nat where "StatusBadRequest \<equiv> 400"
abbreviation StatusUnauthorized :: nat where "StatusUnauthorized \<equiv> 401"
abbreviation StatusConflict :: nat where "StatusConflict \<equiv> 409"
abbreviation StatusInternalServerError :: nat where "StatusInternalServerError \<equiv> 500"

definition JSON :: "nat \<Rightarrow> json \<Rightarrow> response" where
  "JSON code obj = \<lparr>status = code, body = obj\<rparr>"

text \<open>The part of \<open>gin.Context\<close> that the code uses is the key-value store of the request
  (\<open>c.Set\<close>, \<open>c.Get\<close>). \<open>AuthRequired\<close> either aborts the chain with a response
  (\<open>AbortWithStatusJSON\<close>, \<open>Inl\<close>) or passes the context on to the next handler
  (\<open>c.Next()\<close>, \<open>Inr\<close>). Its argument is the \<open>Authorization\<close> header, empty when the
  request has none.\<close>

type_synonym Context = "string \<Rightarrow> string option"

definition AuthRequired :: "env \<Rightarrow> JWTConfig \<Rightarrow> Time \<Rightarrow> string \<Rightarrow> response + Context" where
  "AuthRequired env cfg now authHeader =
     (if authHeader = [] then
        Inl (JSON StatusUnauthorized [(''error'', JString ''Authorization header is required'')])
      else
        let parts = Split authHeader CHR '' '' in
        if length parts \<noteq> 2 \<or> parts ! 0 \<noteq> ''Bearer'' then
          Inl (JSON StatusUnauthorized
                 [(''error'', JString ''Authorization header format must be Bearer {token}'')])
        else
          let tokenString = parts ! 1 in
          (case ValidateAccessToken env cfg now tokenString of
             Inl err \<Rightarrow>
               Inl (JSON StatusUnauthorized [(''error'', JString ''Invalid or expired token'')])
           | Inr claims \<Rightarrow> Inr (Map.empty(''userID'' \<mapsto> UserID claims))))"

section \<open>The handlers (handlers/auth.go)\<close>

text \<open>
  \<open>ShouldBindJSON\<close>: the handler is given the result of decoding the body into the
  request struct (an error when the body is not JSON of that shape; a member the body
  lacks is the empty string), and the \<open>binding\<close> tags of the struct are checked here.
  For a string, \<open>required\<close> fails on the empty string and \<open>min\<close>, \<open>max\<close> bound the
  number of runes; a decoded string is valid UTF-8, where the runes are the bytes that
  are not continuation bytes. Of the tags of one field the first that fails is reported.
\<close>

definition RuneCountInString :: "string \<Rightarrow> nat" where
  "RuneCountInString s = length (filter (\<lambda>c. (of_char c :: nat) div 64 \<noteq> 2) s)"

definition validate_RegisterRequest :: "env \<Rightarrow> RegisterRequest \<Rightarrow> (string \<times> string) list" where
  "validate_RegisterRequest env req =
     (if RegUsername req = [] then [(''Username'', ''required'')]
      else if RuneCountInString (RegUsername req) < 3 then [(''Username'', ''min'')]
      else if RuneCountInString (RegUsername req) > 30 then [(''Username'', ''max'')]
      else []) @
     (if RegPassword req = [] then [(''Password'', ''required'')]
      else if RuneCountInString (RegPassword req) < 6 then [(''Password'', ''min'')]
      else []) @
     (if RegEmail req = [] then [(''Email'', ''required'')]
      else if \<not> IsEmail env (RegEmail req) then [(''Email'', ''email'')]
      else [])"

definition validate_LoginRequest :: "LoginRequest \<Rightarrow> (string \<times> string) list" where
  "validate_LoginRequest req =
     (if LoginUsername req = [] then [(''Username'', ''required'')] else []) @
     (if LoginPassword req = [] then [(''Password'', ''required'')] else [])"

definition validate_RefreshRequest :: "RefreshRequest \<Rightarrow> (string \<times> string) list" where
  "validate_RefreshRequest req =
     (if ReqRefreshToken req = [] then [(''RefreshToken'', ''required'')] else [])"

definition validate_WeChatLoginRequest :: "WeChatLoginRequest \<Rightarrow> (string \<times> string) list" where
  "validate_WeChatLoginRequest req =
     (if Code req = [] then [(''Code'', ''required'')] else [])"

definition ShouldBindJSON :: "('a \<Rightarrow> (string \<times> string) list) \<Rightarrow> error + 'a \<Rightarrow> error + 'a" where
  "ShouldBindJSON validate decoded =
     (case decoded of
        Inl err \<Rightarrow> Inl err
      | Inr req \<Rightarrow> (case validate req of [] \<Rightarrow> Inr req | f # fs \<Rightarrow> Inl (ValidationErrors (f # fs))))"

text \<open>The JSON of a user record, by the tags of the struct: \<open>password\<close> and \<open>open_id\<close>
  are \<open>omitempty\<close>, left out when the string is empty and only then.\<close>

definition UserJSON :: "User \<Rightarrow> json" where
  "UserJSON user =
     [(''id'', JString (ID user)), (''username'', JString (Username user))] @
     (if Password user = [] then [] else [(''password'', JString (Password user))]) @
     [(''email'', JString (Email user))] @
     (if OpenID user = [] then [] else [(''open_id'', JString (OpenID user))]) @
     [(''created_at'', JTime (CreatedAt user)), (''updated_at'', JTime (UpdatedAt user))]"

definition TokenResponse :: "string \<Rightarrow> string \<Rightarrow> int \<Rightarrow> json" where
  "TokenResponse accessToken refreshToken expiresIn =
     [(''access_token'', JString accessToken),
      (''refresh_token'', JString refreshToken),
      (''expires_in'', JNumber expiresIn)]"

definition Register ::
  "env \<Rightarrow> Time \<Rightarrow> error + RegisterRequest \<Rightarrow> redis \<Rightarrow> response \<times> redis" where
  "Register env now decoded r =
     (case ShouldBindJSON (validate_RegisterRequest env) decoded of
        Inl err \<Rightarrow> (JSON StatusBadRequest [(''error'', JError err)], r)
      | Inr req \<Rightarrow>
          (case GetByUsername env now (RegUsername req) r of
             (Inr _, r1) \<Rightarrow>
               (JSON StatusConflict [(''error'', JString ''username already exists'')], r1)
           | (Inl _, r1) \<Rightarrow>
               (case GenerateFromPassword env (RegPassword req) of
                  Inl err \<Rightarrow>
                    (JSON StatusInternalServerError
                       [(''error'', JString ''failed to hash password'')], r1)
                | Inr hashedPassword \<Rightarrow>
                    let user = \<lparr>ID = RegUsername req, Username = RegUsername req,
                                 Password = hashedPassword, Email = RegEmail req,
                                 OpenID = [], CreatedAt = ZeroTime, UpdatedAt = ZeroTime\<rparr>
                    in
                    (case Create env now user r1 of
                       (Inl err, r2) \<Rightarrow>
                         (JSON StatusInternalServerError
                            [(''error'', JString ''failed to create user'')], r2)
                     | (Inr user', r2) \<Rightarrow>
                         (JSON StatusCreated
                            [(''message'', JString ''user registered successfully''),
                             (''user_id'', JString (ID user'))], r2)))))"

text \<open>\<open>Login\<close> and \<open>WeChatLogin\<close> end with the same statements, from "Generate tokens" to
  the response; they are written once, as \<open>issueTokens\<close>. (\<open>WeChatLogin\<close> also prints
  the response on the standard output, which is not modelled.)\<close>

definition issueTokens :: "env \<Rightarrow> JWTConfig \<Rightarrow> Time \<Rightarrow> User \<Rightarrow> redis \<Rightarrow> response \<times> redis" where
  "issueTokens env cfg now user r =
     (case GenerateAccessToken env cfg now (ID user) of
        Inl err \<Rightarrow>
          (JSON StatusInternalServerError
             [(''error'', JString ''failed to generate access token'')], r)
      | Inr accessToken \<Rightarrow>
          (case GenerateRefreshToken env cfg now (ID user) of
             Inl err \<Rightarrow>
               (JSON StatusInternalServerError
                  [(''error'', JString ''failed to generate refresh token'')], r)
           | Inr refreshToken \<Rightarrow>
               let refreshTokenKey = ''refresh_token:'' @ refreshToken in
               (case redis_Set now refreshTokenKey (ID user) (7 * 24 * Hour) r of
                  (Some err, r1) \<Rightarrow>
                    (JSON StatusInternalServerError
                       [(''error'', JString ''failed to store refresh token'')], r1)
                | (None, r1) \<Rightarrow>
                    (JSON StatusOK (TokenResponse accessToken refreshToken (15 * 60)), r1))))"

definition Login ::
  "env \<Rightarrow> JWTConfig \<Rightarrow> Time \<Rightarrow> error + LoginRequest \<Rightarrow> redis \<Rightarrow> response \<times> redis" where
  "Login env cfg now decoded r =
     (case ShouldBindJSON validate_LoginRequest decoded of
        Inl err \<Rightarrow> (JSON StatusBadRequest [(''error'', JError err)], r)
      | Inr req \<Rightarrow>
          (case GetByUsername env now (LoginUsername req) r of
             (Inl err, r1) \<Rightarrow>
               (JSON StatusUnauthorized
                  [(''error'', JString ''invalid username or password'')], r1)
           | (Inr user, r1) \<Rightarrow>
               (case CompareHashAndPassword env (Password user) (LoginPassword req) of
                  Some err \<Rightarrow>
                    (JSON StatusUnauthorized
                       [(''error'', JString ''invalid username or password'')], r1)
                | None \<Rightarrow> issueTokens env cfg now user r1)))"

definition RefreshToken_handler ::
  "env \<Rightarrow> JWTConfig \<Rightarrow> Time \<Rightarrow> error + RefreshRequest \<Rightarrow> redis \<Rightarrow> response \<times> redis" where
  "RefreshToken_handler env cfg now decoded r =
     (case ShouldBindJSON validate_RefreshRequest decoded of
        Inl err \<Rightarrow> (JSON StatusBadRequest [(''error'', JError err)], r)
      | Inr req \<Rightarrow>
          (case ValidateRefreshToken env cfg now (ReqRefreshToken req) of
             Inl err \<Rightarrow>
               (JSON StatusUnauthorized [(''error'', JString ''invalid refresh token'')], r)
           | Inr claims \<Rightarrow>
               let refreshTokenKey = ''refresh_token:'' @ ReqRefreshToken req in
               (case redis_Get now refreshTokenKey r of
                  (Inl err, r1) \<Rightarrow>
                    (JSON StatusUnauthorized
                       [(''error'', JString ''refresh token has been revoked'')], r1)
                | (Inr userID, r1) \<Rightarrow>
                    if userID \<noteq> UserID claims then
                      (JSON StatusUnauthorized
                         [(''error'', JString ''invalid refresh token'')], r1)
                    else
                      (case GenerateAccessToken env cfg now (UserID claims) of
                         Inl err \<Rightarrow>
                           (JSON StatusInternalServerError
                              [(''error'', JString ''failed to generate access token'')], r1)
                       | Inr accessToken \<Rightarrow>
                           (JSON StatusOK
                              [(''access_token'', JString accessToken),
                               (''expires_in'', JNumber (15 * 60))], r1)))))"

definition Logout :: "Time \<Rightarrow> error + RefreshRequest \<Rightarrow> redis \<Rightarrow> response \<times> redis" where
  "Logout now decoded r =
     (case ShouldBindJSON validate_RefreshRequest decoded of
        Inl err \<Rightarrow> (JSON StatusBadRequest [(''error'', JError err)], r)
      | Inr req \<Rightarrow>
          let refreshTokenKey = ''refresh_token:'' @ ReqRefreshToken req in
          (case redis_Del now refreshTokenKey r of
             (Some err, r1) \<Rightarrow>
               (JSON StatusInternalServerError [(''error'', JString ''failed to logout'')], r1)
           | (None, r1) \<Rightarrow>
               (JSON StatusOK [(''message'', JString ''logged out successfully'')], r1)))"

definition Me :: "env \<Rightarrow> Time \<Rightarrow> Context \<Rightarrow> redis \<Rightarrow> response \<times> redis" where
  "Me env now c r =
     (case c ''userID'' of
        None \<Rightarrow> (JSON StatusUnauthorized [(''error'', JString ''not authenticated'')], r)
      | Some userID \<Rightarrow>
          (case GetByID env now userID r of
             (Inl err, r1) \<Rightarrow>
               (JSON StatusInternalServerError [(''error'', JString ''failed to get user'')], r1)
           | (Inr user, r1) \<Rightarrow> (JSON StatusOK (UserJSON user), r1)))"

definition WeChatLogin ::
  "env \<Rightarrow> JWTConfig \<Rightarrow> Time \<Rightarrow> error + WeChatLoginRequest \<Rightarrow> redis \<Rightarrow> response \<times> redis" where
  "WeChatLogin env cfg now decoded r =
     (case ShouldBindJSON validate_WeChatLoginRequest decoded of
        Inl err \<Rightarrow> (JSON StatusBadRequest [(''error'', JError err)], r)
      | Inr req \<Rightarrow>
          (case Code2Session env (Code req) of
             Inl err \<Rightarrow>
               (JSON StatusInternalServerError
                  [(''error'', JSprintf ''failed to exchange code: '' err)], r)
           | Inr sessionInfo \<Rightarrow>
               (case CreateWeChatUser env now (SessionOpenID sessionInfo) r of
                  (Inl err, r1) \<Rightarrow>
                    (JSON StatusInternalServerError
                       [(''error'', JSprintf ''failed to create user: '' err)], r1)
                | (Inr user, r1) \<Rightarrow> issueTokens env cfg now user r1)))"

section \<open>The routes (main.go)\<close>

text \<open>A request is its route with what the handler reads of it: the decoded body of a
  public route, the \<open>Authorization\<close> header of a protected one (and the path of a
  proxied one). \<open>protected\<close> is the route group that runs \<open>AuthRequired\<close> first.\<close>

datatype request =
    GetHealth
  | PostRegister "error + RegisterRequest"
  | PostLogin "error + LoginRequest"
  | PostRefresh "error + RefreshRequest"
  | PostLogout "error + RefreshRequest"
  | PostWeChatLogin "error + WeChatLoginRequest"
  | GetMe string
  | GetApiProtected string
  | GetProxied string string

definition protected ::
  "env \<Rightarrow> JWTConfig \<Rightarrow> Time \<Rightarrow> string \<Rightarrow> (Context \<Rightarrow> redis \<Rightarrow> response \<times> redis) \<Rightarrow>
   redis \<Rightarrow> response \<times> redis" where
  "protected env cfg now authHeader handler r =
     (case AuthRequired env cfg now authHeader of
        Inl resp \<Rightarrow> (resp, r)
      | Inr c \<Rightarrow> handler c r)"

definition apiProtected :: "Context \<Rightarrow> redis \<Rightarrow> response \<times> redis" where
  "apiProtected c r =
     (JSON StatusOK
        [(''message'', JString ''This is a protected endpoint''),
         (''user_id'', (case c ''userID'' of None \<Rightarrow> JNull | Some userID \<Rightarrow> JString userID))],
      r)"

definition serve :: "env \<Rightarrow> JWTConfig \<Rightarrow> Time \<Rightarrow> request \<Rightarrow> redis \<Rightarrow> response \<times> redis" where
  "serve env cfg now req r =
     (case req of
        GetHealth \<Rightarrow> (JSON StatusOK [(''status'', JString ''ok'')], r)
      | PostRegister decoded \<Rightarrow> Register env now decoded r
      | PostLogin decoded \<Rightarrow> Login env cfg now decoded r
      | PostRefresh decoded \<Rightarrow> RefreshToken_handler env cfg now decoded r
      | PostLogout decoded \<Rightarrow> Logout now decoded r
      | PostWeChatLogin decoded \<Rightarrow> WeChatLogin env cfg now decoded r
      | GetMe authHeader \<Rightarrow> protected env cfg now authHeader (Me env now) r
      | GetApiProtected authHeader \<Rightarrow> protected env cfg now authHeader apiProtected r
      | GetProxied path authHeader \<Rightarrow>
          protected env cfg now authHeader (\<lambda>c r'. (Backend env path, r')) r)"

text \<open>The server as \<open>main\<close> builds it: the JWT manager is given the configuration of
  \<open>GetConfig\<close>.\<close>

definition main_serve ::
  "(string \<Rightarrow> string) \<Rightarrow> env \<Rightarrow> Time \<Rightarrow> request \<Rightarrow> redis \<Rightarrow> response \<times> redis" where
  "main_serve getenv env now req r = serve env (GetConfig getenv) now req r"

section \<open>A concrete environment\<close>

text \<open>
  A small instance of \<open>env\<close>, on which the theorems below are run. Its JWT library
  knows the tokens of two users issued at instant 0 under the key \<open>k\<close> (and decodes one
  forged token, \<open>F.alice\<close>, whose signature verifies under no key); its JSON codec knows
  the records of the same two users; its bcrypt hashes a password by prefixing it; its
  WeChat API resolves the codes \<open>c1\<close> and \<open>c2\<close> to the same OpenID.
\<close>

definition demo_getenv :: "string \<Rightarrow> string" where
  "demo_getenv name = (if name = ''JWT_SECRET_KEY'' then ''k'' else [])"

definition demo_claims :: "string \<Rightarrow> TokenType \<Rightarrow> Time \<Rightarrow> Claims" where
  "demo_claims uid ty exp =
     \<lparr>UserID = uid, Type = ty, ExpiresAt = Some exp, IssuedAt = Some 0, NotBefore = Some 0\<rparr>"

definition demo_tokens :: "(string \<times> Claims) list" where
  "demo_tokens =
     [(''A.alice'', demo_claims ''alice'' ''access'' 900000000000),
      (''R.alice'', demo_claims ''alice'' ''refresh'' 604800000000000),
      (''A.wx_o1'', demo_claims ''wx_o1'' ''access'' 900000000000),
      (''R.wx_o1'', demo_claims ''wx_o1'' ''refresh'' 604800000000000)]"

definition demo_SignedString :: "SigningMethod \<Rightarrow> string \<Rightarrow> Claims \<Rightarrow> error + string" where
  "demo_SignedString m k c =
     (if m = SigningMethodHS256 \<and> k = ''k'' then
        (case filter (\<lambda>p. snd p = c) demo_tokens of
           [] \<Rightarrow> Inl (Error ''unsupported claims'')
         | p # _ \<Rightarrow> Inr (fst p))
      else Inl (Error ''unsupported key''))"

definition demo_ParseUnverified :: "string \<Rightarrow> error + Token" where
  "demo_ParseUnverified t =
     (case map_of (demo_tokens @ [(''F.alice'', demo_claims ''alice'' ''access'' 900000000000)]) t of
        None \<Rightarrow> Inl (Error ''token is malformed'')
      | Some c \<Rightarrow> Inr \<lparr>Method = SigningMethodHS256, TokenClaims = c, Valid = False\<rparr>)"

definition demo_Verify :: "SigningMethod \<Rightarrow> string \<Rightarrow> string \<Rightarrow> bool" where
  "demo_Verify m t k \<longleftrightarrow> m = SigningMethodHS256 \<and> k = ''k'' \<and> t \<in> set (map fst demo_tokens)"

definition demo_alice :: User where
  "demo_alice =
     \<lparr>ID = ''alice'', Username = ''alice'', Password = ''h:secret1'', Email = ''a@x.com'',
      OpenID = [], CreatedAt = 0, UpdatedAt = 0\<rparr>"

definition demo_wx :: User where
  "demo_wx =
     \<lparr>ID = ''wx_o1'', Username = ''wx_o1'', Password = [], Email = [],
      OpenID = ''o1'', CreatedAt = 0, UpdatedAt = 0\<rparr>"

definition demo_users :: "(string \<times> User) list" where
  "demo_users = [(''{alice}'', demo_alice), (''{wx_o1}'', demo_wx)]"

definition demo_Marshal :: "User \<Rightarrow> error + string" where
  "demo_Marshal u =
     (case filter (\<lambda>p. snd p = u) demo_users of
        [] \<Rightarrow> Inl (Error ''unsupported value'')
      | p # _ \<Rightarrow> Inr (fst p))"

definition demo_Unmarshal :: "string \<Rightarrow> error + User" where
  "demo_Unmarshal s =
     (case map_of demo_users s of
        None \<Rightarrow> Inl (Error ''invalid character'')
      | Some u \<Rightarrow> Inr u)"

definition demo_WeChatAPI :: "string \<Rightarrow> error + Code2SessionResponse" where
  "demo_WeChatAPI code =
     (if code = ''c1'' \<or> code = ''c2'' then
        Inr \<lparr>SessionOpenID = ''o1'', SessionKey = ''sk'', UnionID = [], ErrCode = 0, ErrMsg = []\<rparr>
      else Inl (Error ''failed to make request to WeChat API''))"

definition demo_env :: env where
  "demo_env =
     \<lparr>SignedString = demo_SignedString,
      ParseUnverified = demo_ParseUnverified,
      Verify = demo_Verify,
      GenerateFromPassword = (\<lambda>pw. Inr (''h:'' @ pw)),
      CompareHashAndPassword =
        (\<lambda>h pw. if h = ''h:'' @ pw then None
                 else Some (Error ''hashedPassword is not the hash of the given password'')),
      Marshal = demo_Marshal,
      Unmarshal = demo_Unmarshal,
      IsEmail = (\<lambda>s. CHR ''@'' \<in> set s),
      WeChatAPI = demo_WeChatAPI,
      Backend = (\<lambda>path. JSON StatusOK [])\<rparr>"

definition demo_cfg :: JWTConfig where
  "demo_cfg = GetConfig demo_getenv"

definition demo_empty :: redis where
  "demo_empty = \<lparr>kv = Map.empty, faults = []\<rparr>"

text \<open>The store after \<open>alice\<close> has registered at instant 0.\<close>

definition demo_store :: redis where
  "demo_store =
     \<lparr>kv = [''user:alice'' \<mapsto> \<lparr>val = ''{alice}'', expire_at = None\<rparr>,
            ''username:alice'' \<mapsto> \<lparr>val = ''alice'', expire_at = None\<rparr>],
      faults = []\<rparr>"

section \<open>Notions of the specification\<close>

text \<open>The unauthorized outcome of a protected route: the middleware aborts the chain
  with status 401, so that the response and the store are the same whatever handler
  stands behind it.\<close>

definition rejected :: "env \<Rightarrow> JWTConfig \<Rightarrow> Time \<Rightarrow> string \<Rightarrow> bool" where
  "rejected env cfg now authHeader \<longleftrightarrow>
     (\<exists>resp. AuthRequired env cfg now authHeader = Inl resp \<and>
        status resp = StatusUnauthorized \<and>
        (\<forall>handler r. protected env cfg now authHeader handler r = (resp, r)))"

text \<open>The store after \<open>alice\<close> has logged in at instant 0; the store after a first
  WeChat login with the OpenID \<open>o1\<close> at instant 0, before and after the ledger entry.\<close>

definition demo_store_alice_in :: redis where
  "demo_store_alice_in =
     demo_store\<lparr>kv := (kv demo_store)(''refresh_token:R.alice'' \<mapsto>
       \<lparr>val = ''alice'', expire_at = Some 604800000000000\<rparr>)\<rparr>"

definition demo_wx_store :: redis where
  "demo_wx_store =
     \<lparr>kv = [''user:wx_o1'' \<mapsto> \<lparr>val = ''{wx_o1}'', expire_at = None\<rparr>,
            ''username:wx_o1'' \<mapsto> \<lparr>val = ''wx_o1'', expire_at = None\<rparr>,
            ''openid:o1'' \<mapsto> \<lparr>val = ''wx_o1'', expire_at = None\<rparr>],
      faults = []\<rparr>"

definition demo_wx_store_in :: redis where
  "demo_wx_store_in =
     demo_wx_store\<lparr>kv := (kv demo_wx_store)(''refresh_token:R.wx_o1'' \<mapsto>
       \<lparr>val = ''wx_o1'', expire_at = Some 604800000000000\<rparr>)\<rparr>"

text \<open>A refresh token \<open>T\<close> is usable when (a) it decodes to a token of an HMAC method
  whose signature verifies under the configured key, which is not expired, not used
  before its not-before date, and of kind refresh, (b) the ledger, asked for the key
  made of the exact value of \<open>T\<close>, answers with an entry, and (c) the identity stored in
  that entry is the subject that \<open>T\<close> claims. A response is unauthorized when its status
  is 401 and its body carries no access token.\<close>

definition usable :: "env \<Rightarrow> JWTConfig \<Rightarrow> Time \<Rightarrow> redis \<Rightarrow> string \<Rightarrow> bool" where
  "usable env cfg now r T \<longleftrightarrow>
     (\<exists>token.
        ParseUnverified env T = Inr token \<and>
        (\<exists>alg. Method token = SigningMethodHMAC alg) \<and>
        Verify env (Method token) T (SecretKey cfg) \<and>
        (case ExpiresAt (TokenClaims token) of None \<Rightarrow> True | Some e \<Rightarrow> now < e) \<and>
        (case NotBefore (TokenClaims token) of None \<Rightarrow> True | Some n \<Rightarrow> n \<le> now) \<and>
        Type (TokenClaims token) = RefreshToken \<and>
        fst (redis_Get now (''refresh_token:'' @ T) r) = Inr (UserID (TokenClaims token)))"

definition unauthorized :: "response \<Rightarrow> bool" where
  "unauthorized resp \<longleftrightarrow>
     status resp = StatusUnauthorized \<and> (\<forall>v. (''access_token'', v) \<notin> set (body resp))"

text \<open>The server handles the requests of a list one after the other, each at its own
  instant.\<close>

fun run :: "env \<Rightarrow> JWTConfig \<Rightarrow> (Time \<times> request) list \<Rightarrow> redis \<Rightarrow> redis" where
  "run env cfg [] r = r"
| "run env cfg ((now, req) # reqs) r = run env cfg reqs (snd (serve env cfg now req r))"

text \<open>The law of the JSON codec used below: a record that \<open>Marshal\<close> encoded decodes to
  itself.\<close>

definition json_roundtrip :: "env \<Rightarrow> bool" where
  "json_roundtrip env \<longleftrightarrow> (\<forall>u s. Marshal env u = Inr s \<longrightarrow> Unmarshal env s = Inr u)"

text \<open>The invariant of the user store: a record that decodes from the value under
  \<open>user:k\<close> has the id \<open>k\<close>, and the entries of the OpenID index do not expire. It holds
  of the empty store and every request keeps it (\<open>store_inv_empty\<close>, \<open>store_inv_serve\<close>
  below). \<open>grows\<close> is what one request can do to the user records and to the OpenID
  index: a key \<open>user:k\<close> is left alone or set, without expiry, to the JSON of a record
  with the id \<open>k\<close>; a key of the OpenID index is left alone or, if it was absent or
  expired, set without expiry.\<close>

definition store_inv :: "env \<Rightarrow> redis \<Rightarrow> bool" where
  "store_inv env r \<longleftrightarrow>
     (\<forall>k e u. kv r (''user:'' @ k) = Some e \<and> Unmarshal env (val e) = Inr u \<longrightarrow> ID u = k) \<and>
     (\<forall>x e. kv r (''openid:'' @ x) = Some e \<longrightarrow> expire_at e = None)"

definition grows :: "env \<Rightarrow> redis \<Rightarrow> redis \<Rightarrow> bool" where
  "grows env r r' \<longleftrightarrow>
     (\<forall>k. kv r' (''user:'' @ k) = kv r (''user:'' @ k) \<or>
          (\<exists>u userJSON. Marshal env u = Inr userJSON \<and> ID u = k \<and>
             kv r' (''user:'' @ k) = Some \<lparr>val = userJSON, expire_at = None\<rparr>)) \<and>
     (\<forall>x. kv r' (''openid:'' @ x) = kv r (''openid:'' @ x) \<or>
          ((\<exists>now. live r now (''openid:'' @ x) = None) \<and>
           (\<exists>v. kv r' (''openid:'' @ x) = Some \<lparr>val = v, expire_at = None\<rparr>)))"

section \<open>Token validation\<close>

lemma NewNumericDate_le: "NewNumericDate t \<le> t"
  by (simp add: NewNumericDate_def Second_def)

lemma ValidateToken_Inr:
  "ValidateToken env cfg now t = Inr c \<longleftrightarrow>
     (\<exists>tok. ParseUnverified env t = Inr tok \<and> TokenClaims tok = c \<and>
        (\<exists>n. Method tok = SigningMethodHMAC n) \<and>
        Verify env (Method tok) t (SecretKey cfg) \<and>
        Validate now c = Inr ())"
  unfolding ValidateToken_def ParseWithClaims_def keyFunc_def
  by (auto split: sum.splits SigningMethod.splits if_splits)

lemma Validate_Inr:
  "Validate now c = Inr () \<longleftrightarrow>
     (case ExpiresAt c of None \<Rightarrow> True | Some e \<Rightarrow> now < e) \<and>
     (case NotBefore c of None \<Rightarrow> True | Some n \<Rightarrow> n \<le> now)"
  unfolding Validate_def by (auto split: option.splits)

lemma generateToken_parse:
  assumes "jwt_roundtrip env" and "generateToken env cfg now uid ty ttl = Inr t"
  shows "ParseUnverified env t =
           Inr \<lparr>Method = SigningMethodHS256,
                TokenClaims = \<lparr>UserID = uid, Type = ty,
                               ExpiresAt = Some (NewNumericDate (now + ttl)),
                               IssuedAt = Some (NewNumericDate now),
                               NotBefore = Some (NewNumericDate now)\<rparr>,
                Valid = False\<rparr> \<and>
         Verify env SigningMethodHS256 t (SecretKey cfg)"
  using assms unfolding jwt_roundtrip_def generateToken_def Let_def by blast

lemma ValidateToken_generated:
  assumes "jwt_roundtrip env" and "generateToken env cfg now uid ty ttl = Inr t"
    and "ValidateToken env cfg' now' t = Inr c"
  shows "Type c = ty \<and> UserID c = uid"
  using generateToken_parse[OF assms(1,2)] assms(3)
  by (auto simp: ValidateToken_Inr)

lemma ValidateToken_fresh:
  assumes "jwt_roundtrip env" and "generateToken env cfg now uid ty ttl = Inr t"
    and "now \<le> now'" and "now' < NewNumericDate (now + ttl)"
  shows "ValidateToken env cfg now' t =
           Inr \<lparr>UserID = uid, Type = ty,
                ExpiresAt = Some (NewNumericDate (now + ttl)),
                IssuedAt = Some (NewNumericDate now),
                NotBefore = Some (NewNumericDate now)\<rparr>"
proof -
  have "NewNumericDate now \<le> now'"
    using NewNumericDate_le[of now] assms(3) by linarith
  with generateToken_parse[OF assms(1,2)] assms(4) show ?thesis
    by (simp add: ValidateToken_Inr Validate_Inr SigningMethodHS256_def)
qed

lemma demo_roundtrip: "jwt_roundtrip demo_env"
  unfolding jwt_roundtrip_def demo_env_def
  by (auto simp: demo_SignedString_def demo_ParseUnverified_def demo_Verify_def demo_tokens_def
      demo_claims_def split: if_splits)

lemma demo_access: "GenerateAccessToken demo_env demo_cfg 0 ''alice'' = Inr ''A.alice''"
  by (simp add: GenerateAccessToken_def generateToken_def demo_env_def demo_cfg_def GetConfig_def
      demo_getenv_def demo_SignedString_def demo_tokens_def demo_claims_def AccessToken_def
      NewNumericDate_def Second_def Minute_def)

lemma demo_refresh: "GenerateRefreshToken demo_env demo_cfg 0 ''alice'' = Inr ''R.alice''"
  by (simp add: GenerateRefreshToken_def generateToken_def demo_env_def demo_cfg_def GetConfig_def
      demo_getenv_def demo_SignedString_def demo_tokens_def demo_claims_def RefreshToken_def
      NewNumericDate_def Second_def Minute_def Hour_def)

lemma demo_access_ttl: "NewNumericDate (AccessTokenTTL demo_cfg) = 900000000000"
  by (simp add: demo_cfg_def GetConfig_def NewNumericDate_def Second_def Minute_def)

lemma demo_refresh_ttl: "NewNumericDate (RefreshTokenTTL demo_cfg) = 604800000000000"
  by (simp add: demo_cfg_def GetConfig_def NewNumericDate_def Second_def Minute_def Hour_def)

section \<open>Kind isolation and the round trip\<close>

text \<open>
  Claim C3 (kind isolation). A token that \<open>GenerateAccessToken\<close> issued never passes
  \<open>ValidateRefreshToken\<close>, and a token that \<open>GenerateRefreshToken\<close> issued never passes
  \<open>ValidateAccessToken\<close>, whatever the configuration and the instant of the validation.
  In particular, while the token is unexpired and validated under the configuration
  that signed it (so that its signature and its dates are accepted), the validation
  fails with the error of the wrong kind. The JWT library is assumed to decode a signed
  token to the claims that were signed.
\<close>

theorem kind_isolation:
  assumes "jwt_roundtrip env"
  shows "(GenerateAccessToken env cfg now userID = Inr t \<longrightarrow>
            (\<exists>err. ValidateRefreshToken env cfg' now' t = Inl err)) \<and>
         (GenerateRefreshToken env cfg now userID = Inr t \<longrightarrow>
            (\<exists>err. ValidateAccessToken env cfg' now' t = Inl err)) \<and>
         (GenerateAccessToken env cfg now userID = Inr t \<and>
            now \<le> now' \<and> now' < NewNumericDate (now + AccessTokenTTL cfg) \<longrightarrow>
            ValidateRefreshToken env cfg now' t = Inl (Error ''token is not a refresh token'')) \<and>
         (GenerateRefreshToken env cfg now userID = Inr t \<and>
            now \<le> now' \<and> now' < NewNumericDate (now + RefreshTokenTTL cfg) \<longrightarrow>
            ValidateAccessToken env cfg now' t = Inl (Error ''token is not an access token''))"
proof (intro conjI impI)
  assume g: "GenerateAccessToken env cfg now userID = Inr t"
  show "\<exists>err. ValidateRefreshToken env cfg' now' t = Inl err"
  proof (cases "ValidateToken env cfg' now' t")
    case (Inl e)
    then show ?thesis by (simp add: ValidateRefreshToken_def)
  next
    case (Inr c)
    from g have "generateToken env cfg now userID AccessToken (AccessTokenTTL cfg) = Inr t"
      by (simp add: GenerateAccessToken_def)
    from ValidateToken_generated[OF assms this Inr] have "Type c = AccessToken" by simp
    then show ?thesis using Inr
      by (simp add: ValidateRefreshToken_def AccessToken_def RefreshToken_def)
  qed
next
  assume g: "GenerateRefreshToken env cfg now userID = Inr t"
  show "\<exists>err. ValidateAccessToken env cfg' now' t = Inl err"
  proof (cases "ValidateToken env cfg' now' t")
    case (Inl e)
    then show ?thesis by (simp add: ValidateAccessToken_def)
  next
    case (Inr c)
    from g have "generateToken env cfg now userID RefreshToken (RefreshTokenTTL cfg) = Inr t"
      by (simp add: GenerateRefreshToken_def)
    from ValidateToken_generated[OF assms this Inr] have "Type c = RefreshToken" by simp
    then show ?thesis using Inr
      by (simp add: ValidateAccessToken_def AccessToken_def RefreshToken_def)
  qed
next
  assume a: "GenerateAccessToken env cfg now userID = Inr t \<and>
             now \<le> now' \<and> now' < NewNumericDate (now + AccessTokenTTL cfg)"
  then have "generateToken env cfg now userID AccessToken (AccessTokenTTL cfg) = Inr t"
    by (simp add: GenerateAccessToken_def)
  from ValidateToken_fresh[OF assms this] a
  show "ValidateRefreshToken env cfg now' t = Inl (Error ''token is not a refresh token'')"
    by (simp add: ValidateRefreshToken_def AccessToken_def RefreshToken_def)
next
  assume a: "GenerateRefreshToken env cfg now userID = Inr t \<and>
             now \<le> now' \<and> now' < NewNumericDate (now + RefreshTokenTTL cfg)"
  then have "generateToken env cfg now userID RefreshToken (RefreshTokenTTL cfg) = Inr t"
    by (simp add: GenerateRefreshToken_def)
  from ValidateToken_fresh[OF assms this] a
  show "ValidateAccessToken env cfg now' t = Inl (Error ''token is not an access token'')"
    by (simp add: ValidateAccessToken_def AccessToken_def RefreshToken_def)
qed

theorem kind_isolation_witness:
  "jwt_roundtrip demo_env \<and>
   GenerateAccessToken demo_env demo_cfg 0 ''alice'' = Inr ''A.alice'' \<and>
   GenerateRefreshToken demo_env demo_cfg 0 ''alice'' = Inr ''R.alice'' \<and>
   (\<exists>err. ValidateRefreshToken demo_env demo_cfg 5 ''A.alice'' = Inl err) \<and>
   (\<exists>err. ValidateAccessToken demo_env demo_cfg 5 ''R.alice'' = Inl err) \<and>
   (0::int) \<le> 5 \<and> 5 < NewNumericDate (0 + AccessTokenTTL demo_cfg) \<and>
   5 < NewNumericDate (0 + RefreshTokenTTL demo_cfg) \<and>
   ValidateRefreshToken demo_env demo_cfg 5 ''A.alice'' =
     Inl (Error ''token is not a refresh token'') \<and>
   ValidateAccessToken demo_env demo_cfg 5 ''R.alice'' =
     Inl (Error ''token is not an access token'')"
  using kind_isolation[OF demo_roundtrip, where cfg = demo_cfg and now = 0
      and userID = "''alice''" and t = "''A.alice''" and cfg' = demo_cfg and now' = 5]
    kind_isolation[OF demo_roundtrip, where cfg = demo_cfg and now = 0
      and userID = "''alice''" and t = "''R.alice''" and cfg' = demo_cfg and now' = 5]
    demo_roundtrip demo_access demo_refresh demo_access_ttl demo_refresh_ttl
  by simp

text \<open>
  Claim C4 (round trip). If \<open>GenerateAccessToken\<close> issues a token for the identity \<open>I\<close>
  at the instant \<open>now\<close>, then at every instant from \<open>now\<close> up to the expiry that was
  signed, \<open>ValidateToken\<close> under the same configuration succeeds, and so does
  \<open>ValidateAccessToken\<close>; the claims returned have the subject \<open>I\<close> and the kind
  access. The JWT library is assumed to decode a signed token to the claims that were
  signed and to verify its signature under the key that signed it.
\<close>

theorem access_token_roundtrip:
  assumes "jwt_roundtrip env"
    and "GenerateAccessToken env cfg now I = Inr t"
    and "now \<le> now'" and "now' < NewNumericDate (now + AccessTokenTTL cfg)"
  shows "\<exists>c. ValidateToken env cfg now' t = Inr c \<and>
             ValidateAccessToken env cfg now' t = Inr c \<and>
             UserID c = I \<and> Type c = AccessToken"
proof -
  from assms(2) have g: "generateToken env cfg now I AccessToken (AccessTokenTTL cfg) = Inr t"
    by (simp add: GenerateAccessToken_def)
  define c0 where "c0 = \<lparr>UserID = I, Type = AccessToken,
      ExpiresAt = Some (NewNumericDate (now + AccessTokenTTL cfg)),
      IssuedAt = Some (NewNumericDate now), NotBefore = Some (NewNumericDate now)\<rparr>"
  from ValidateToken_fresh[OF assms(1) g assms(3,4)]
  have v: "ValidateToken env cfg now' t = Inr c0"
    by (simp add: c0_def)
  then have "ValidateAccessToken env cfg now' t = Inr c0"
    by (simp add: ValidateAccessToken_def c0_def)
  with v show ?thesis by (simp add: c0_def)
qed

theorem access_token_roundtrip_witness:
  "jwt_roundtrip demo_env \<and>
   GenerateAccessToken demo_env demo_cfg 0 ''alice'' = Inr ''A.alice'' \<and>
   (0::int) \<le> 5 \<and> 5 < NewNumericDate (0 + AccessTokenTTL demo_cfg) \<and>
   (\<exists>c. ValidateToken demo_env demo_cfg 5 ''A.alice'' = Inr c \<and>
        ValidateAccessToken demo_env demo_cfg 5 ''A.alice'' = Inr c \<and>
        UserID c = ''alice'' \<and> Type c = AccessToken)"
proof -
  have lt: "5 < NewNumericDate (0 + AccessTokenTTL demo_cfg)"
    by (simp add: demo_access_ttl)
  have le: "(0::int) \<le> 5" by simp
  from access_token_roundtrip[OF demo_roundtrip demo_access le lt] demo_roundtrip demo_access lt
  show ?thesis by simp
qed

section \<open>The store and the binding of requests\<close>

lemma ShouldBindJSON_Inr:
  "ShouldBindJSON validate (Inr req) = (if validate req = [] then Inr req else Inl (ValidationErrors (validate req)))"
  by (simp add: ShouldBindJSON_def split: list.splits)

lemma ShouldBindJSON_eq_Inr:
  "ShouldBindJSON validate decoded = Inr req \<longleftrightarrow> decoded = Inr req \<and> validate req = []"
  by (auto simp: ShouldBindJSON_def split: list.splits sum.splits)

lemma roundtrip_kv: "roundtrip r = (f, r') \<Longrightarrow> kv r' = kv r"
  by (auto simp: roundtrip_def split: list.splits)

lemma redis_Get_kv: "redis_Get now k r = (x, r') \<Longrightarrow> kv r' = kv r"
  by (auto simp: redis_Get_def split: prod.splits bool.splits option.splits dest: roundtrip_kv)

lemma redis_Exists_kv: "redis_Exists now k r = (x, r') \<Longrightarrow> kv r' = kv r"
  by (auto simp: redis_Exists_def split: prod.splits bool.splits option.splits dest: roundtrip_kv)

lemma GetByID_kv: "GetByID env now i r = (x, r') \<Longrightarrow> kv r' = kv r"
  by (auto simp: GetByID_def split: prod.splits sum.splits if_splits dest: redis_Get_kv)

lemma GetByUsername_kv:
  assumes "GetByUsername env now u r = (x, r')"
  shows "kv r' = kv r"
proof (cases "redis_Get now (''username:'' @ u) r")
  case (Pair a r1)
  then have k1: "kv r1 = kv r" by (rule redis_Get_kv)
  show ?thesis
  proof (cases a)
    case (Inl e)
    with assms Pair k1 show ?thesis
      by (auto simp: GetByUsername_def split: if_splits)
  next
    case (Inr i)
    with assms Pair have "GetByID env now i r1 = (x, r')"
      by (simp add: GetByUsername_def)
    from GetByID_kv[OF this] k1 show ?thesis by simp
  qed
qed

lemmas redis_defs = redis_Get_def redis_Set_def redis_Del_def redis_Exists_def roundtrip_def live_def

lemma demo_GetByUsername_alice:
  "GetByUsername demo_env now ''alice'' demo_store = (Inr demo_alice, demo_store)"
  by (simp add: GetByUsername_def GetByID_def redis_defs demo_store_def demo_env_def
      demo_Unmarshal_def demo_users_def)

lemma demo_GetByUsername_bob:
  "GetByUsername demo_env now ''bob'' demo_store = (Inl (Error ''user not found''), demo_store)"
  by (simp add: GetByUsername_def GetByID_def redis_defs demo_store_def demo_env_def
      demo_Unmarshal_def demo_users_def)

section \<open>Login failures\<close>

text \<open>
  Claim C5 (no username enumeration). Take two login requests that both pass the
  binding of the body. In the first the user is found and bcrypt rejects the password;
  in the second the lookup of the user fails (the username does not exist, or the store
  fails). The two responses are equal: status 401 and the one generic message. Neither
  request writes to the store.
\<close>

theorem login_failures_indistinguishable:
  assumes "ShouldBindJSON validate_LoginRequest decoded1 = Inr req1"
    and "ShouldBindJSON validate_LoginRequest decoded2 = Inr req2"
    and "fst (GetByUsername env now1 (LoginUsername req1) r1) = Inr user"
    and "CompareHashAndPassword env (Password user) (LoginPassword req1) = Some err1"
    and "fst (GetByUsername env now2 (LoginUsername req2) r2) = Inl err2"
  shows "fst (Login env cfg now1 decoded1 r1) = fst (Login env cfg now2 decoded2 r2) \<and>
         fst (Login env cfg now1 decoded1 r1) =
           JSON StatusUnauthorized [(''error'', JString ''invalid username or password'')] \<and>
         kv (snd (Login env cfg now1 decoded1 r1)) = kv r1 \<and>
         kv (snd (Login env cfg now2 decoded2 r2)) = kv r2"
proof -
  obtain r1' where g1: "GetByUsername env now1 (LoginUsername req1) r1 = (Inr user, r1')"
    using assms(3) by (cases "GetByUsername env now1 (LoginUsername req1) r1") auto
  obtain r2' where g2: "GetByUsername env now2 (LoginUsername req2) r2 = (Inl err2, r2')"
    using assms(5) by (cases "GetByUsername env now2 (LoginUsername req2) r2") auto
  have l1: "Login env cfg now1 decoded1 r1 =
      (JSON StatusUnauthorized [(''error'', JString ''invalid username or password'')], r1')"
    using assms(1,4) g1 by (simp add: Login_def)
  have l2: "Login env cfg now2 decoded2 r2 =
      (JSON StatusUnauthorized [(''error'', JString ''invalid username or password'')], r2')"
    using assms(2) g2 by (simp add: Login_def)
  from l1 l2 GetByUsername_kv[OF g1] GetByUsername_kv[OF g2] show ?thesis by simp
qed


theorem login_failures_indistinguishable_witness:
  "ShouldBindJSON validate_LoginRequest
       (Inr \<lparr>LoginUsername = ''alice'', LoginPassword = ''wrong''\<rparr>) =
     Inr \<lparr>LoginUsername = ''alice'', LoginPassword = ''wrong''\<rparr> \<and>
   ShouldBindJSON validate_LoginRequest
       (Inr \<lparr>LoginUsername = ''bob'', LoginPassword = ''secret1''\<rparr>) =
     Inr \<lparr>LoginUsername = ''bob'', LoginPassword = ''secret1''\<rparr> \<and>
   fst (GetByUsername demo_env 0 ''alice'' demo_store) = Inr demo_alice \<and>
   CompareHashAndPassword demo_env (Password demo_alice) ''wrong'' =
     Some (Error ''hashedPassword is not the hash of the given password'') \<and>
   fst (GetByUsername demo_env 0 ''bob'' demo_store) = Inl (Error ''user not found'') \<and>
   fst (Login demo_env demo_cfg 0
          (Inr \<lparr>LoginUsername = ''alice'', LoginPassword = ''wrong''\<rparr>) demo_store) =
   fst (Login demo_env demo_cfg 0
          (Inr \<lparr>LoginUsername = ''bob'', LoginPassword = ''secret1''\<rparr>) demo_store) \<and>
   fst (Login demo_env demo_cfg 0
          (Inr \<lparr>LoginUsername = ''alice'', LoginPassword = ''wrong''\<rparr>) demo_store) =
     JSON StatusUnauthorized [(''error'', JString ''invalid username or password'')]"
proof -
  let ?q1 = "\<lparr>LoginUsername = ''alice'', LoginPassword = ''wrong''\<rparr>"
  let ?q2 = "\<lparr>LoginUsername = ''bob'', LoginPassword = ''secret1''\<rparr>"
  have b1: "ShouldBindJSON validate_LoginRequest (Inr ?q1) = Inr ?q1"
    by (simp add: ShouldBindJSON_def validate_LoginRequest_def)
  have b2: "ShouldBindJSON validate_LoginRequest (Inr ?q2) = Inr ?q2"
    by (simp add: ShouldBindJSON_def validate_LoginRequest_def)
  have u1: "fst (GetByUsername demo_env 0 (LoginUsername ?q1) demo_store) = Inr demo_alice"
    by (simp add: demo_GetByUsername_alice)
  have c1: "CompareHashAndPassword demo_env (Password demo_alice) (LoginPassword ?q1) =
      Some (Error ''hashedPassword is not the hash of the given password'')"
    by (simp add: demo_env_def demo_alice_def)
  have u2: "fst (GetByUsername demo_env 0 (LoginUsername ?q2) demo_store) =
      Inl (Error ''user not found'')"
    by (simp add: demo_GetByUsername_bob)
  from login_failures_indistinguishable[OF b1 b2 u1 c1 u2, of demo_cfg] b1 b2 u1 c1 u2
  show ?thesis by auto
qed

section \<open>The Authorization header\<close>

lemma Split_nonempty: "Split s sep \<noteq> []"
  by (induction s) auto

lemma Split_single: "Split s sep = [x] \<Longrightarrow> x = s"
proof (induction s arbitrary: x)
  case Nil
  then show ?case by simp
next
  case (Cons c cs)
  show ?case
  proof (cases "c = sep")
    case True
    with Cons.prems show ?thesis by (simp add: Split_nonempty)
  next
    case False
    with Cons.prems have x: "x = c # hd (Split cs sep)" and t: "tl (Split cs sep) = []" by auto
    from t Split_nonempty[of cs sep] have "Split cs sep = [hd (Split cs sep)]"
      by (cases "Split cs sep") auto
    from Cons.IH[OF this] x show ?thesis by simp
  qed
qed

lemma Split_no_sep: "sep \<notin> set s \<Longrightarrow> Split s sep = [s]"
  by (induction s) auto

lemma Split_two: "Split s sep = [x, y] \<Longrightarrow> s = x @ sep # y"
proof (induction s arbitrary: x)
  case Nil
  then show ?case by simp
next
  case (Cons c cs)
  show ?case
  proof (cases "c = sep")
    case True
    with Cons.prems have "x = []" and "Split cs sep = [y]" by auto
    with Split_single[of cs sep y] True show ?thesis by simp
  next
    case False
    with Cons.prems have x: "x = c # hd (Split cs sep)" and t: "tl (Split cs sep) = [y]" by auto
    from t Split_nonempty[of cs sep] have "Split cs sep = [hd (Split cs sep), y]"
      by (cases "Split cs sep") auto
    from Cons.IH[OF this] x show ?thesis by simp
  qed
qed

lemma Split_Bearer: "Split (''Bearer '' @ tok) CHR '' '' = ''Bearer'' # Split tok CHR '' ''"
  by simp

lemma AuthRequired_Inl_rejected:
  "AuthRequired env cfg now h = Inl resp \<Longrightarrow> rejected env cfg now h"
  unfolding rejected_def protected_def
  by (auto simp: AuthRequired_def Let_def JSON_def split: if_splits sum.splits)

lemma AuthRequired_Bearer_invalid:
  assumes "ValidateAccessToken env cfg now tok = Inl err"
  shows "\<exists>resp. AuthRequired env cfg now (''Bearer '' @ tok) = Inl resp"
proof (cases "length (Split tok CHR '' '') = 1")
  case True
  then have "Split tok CHR '' '' = [hd (Split tok CHR '' '')]"
    by (cases "Split tok CHR '' ''") auto
  then have "Split tok CHR '' '' = [tok]" using Split_single by metis
  with assms show ?thesis
    by (simp add: AuthRequired_def)
next
  case False
  then show ?thesis
    by (simp add: AuthRequired_def)
qed

lemma ValidateAccessToken_Inr:
  "ValidateAccessToken env cfg now t = Inr c \<longleftrightarrow>
     ValidateToken env cfg now t = Inr c \<and> Type c = AccessToken"
  by (auto simp: ValidateAccessToken_def split: sum.splits)

lemma not_Inr_Inl: "(\<forall>c. x \<noteq> Inr c) \<Longrightarrow> \<exists>e. x = Inl e"
  by (cases x) auto

lemma demo_Parse_forged:
  "ParseUnverified demo_env ''F.alice'' =
     Inr \<lparr>Method = SigningMethodHS256,
          TokenClaims = demo_claims ''alice'' ''access'' 900000000000, Valid = False\<rparr>"
  by (simp add: demo_env_def demo_ParseUnverified_def demo_tokens_def)

lemma demo_Parse_access:
  "ParseUnverified demo_env ''A.alice'' =
     Inr \<lparr>Method = SigningMethodHS256,
          TokenClaims = demo_claims ''alice'' ''access'' 900000000000, Valid = False\<rparr>"
  by (simp add: demo_env_def demo_ParseUnverified_def demo_tokens_def)

lemma demo_Parse_refresh:
  "ParseUnverified demo_env ''R.alice'' =
     Inr \<lparr>Method = SigningMethodHS256,
          TokenClaims = demo_claims ''alice'' ''refresh'' 604800000000000, Valid = False\<rparr>"
  by (simp add: demo_env_def demo_ParseUnverified_def demo_tokens_def)

lemma demo_Verify_forged: "\<not> Verify demo_env SigningMethodHS256 ''F.alice'' (SecretKey demo_cfg)"
  by (simp add: demo_env_def demo_Verify_def demo_tokens_def)

section \<open>Rejection by the middleware\<close>

text \<open>
  The failures of authentication do not all have the same outcome: \<open>AuthRequired\<close>
  answers a missing header, a malformed header and a token whose signature does not
  verify with status 401 each, and with three different bodies, so that the response
  tells which of the three checks failed.
\<close>

theorem auth_failures_counterexample:
  "AuthRequired demo_env demo_cfg 0 [] =
     Inl (JSON StatusUnauthorized [(''error'', JString ''Authorization header is required'')]) \<and>
   AuthRequired demo_env demo_cfg 0 ''Token abc'' =
     Inl (JSON StatusUnauthorized
            [(''error'', JString ''Authorization header format must be Bearer {token}'')]) \<and>
   AuthRequired demo_env demo_cfg 0 ''Bearer F.alice'' =
     Inl (JSON StatusUnauthorized [(''error'', JString ''Invalid or expired token'')]) \<and>
   AuthRequired demo_env demo_cfg 0 [] \<noteq> AuthRequired demo_env demo_cfg 0 ''Token abc'' \<and>
   AuthRequired demo_env demo_cfg 0 [] \<noteq> AuthRequired demo_env demo_cfg 0 ''Bearer F.alice'' \<and>
   AuthRequired demo_env demo_cfg 0 ''Token abc'' \<noteq>
     AuthRequired demo_env demo_cfg 0 ''Bearer F.alice''"
proof -
  have m: "AuthRequired demo_env demo_cfg 0 [] =
     Inl (JSON StatusUnauthorized [(''error'', JString ''Authorization header is required'')])"
    by (simp add: AuthRequired_def)
  have f: "AuthRequired demo_env demo_cfg 0 ''Token abc'' =
     Inl (JSON StatusUnauthorized
            [(''error'', JString ''Authorization header format must be Bearer {token}'')])"
    by (simp add: AuthRequired_def)
  have "ValidateAccessToken demo_env demo_cfg 0 ''F.alice'' =
      Inl (Wrap ''invalid token'' (Error ''signature is invalid''))"
    using demo_Parse_forged demo_Verify_forged
    by (simp add: ValidateAccessToken_def ValidateToken_def ParseWithClaims_def keyFunc_def
        SigningMethodHS256_def)
  then have t: "AuthRequired demo_env demo_cfg 0 ''Bearer F.alice'' =
     Inl (JSON StatusUnauthorized [(''error'', JString ''Invalid or expired token'')])"
    by (simp add: AuthRequired_def)
  show ?thesis unfolding m f t by (simp add: JSON_def)
qed

text \<open>
  Claim C6, as amended (rejection by the middleware). On a protected route each failure
  of authentication is rejected: the middleware answers with status 401 and aborts the
  chain, so that no protected handler runs and the store is untouched. This holds when
  the \<open>Authorization\<close> header is missing, when it is malformed (not two pieces separated
  by one space, or the first is not \<open>Bearer\<close>), when the signature of the token does not
  verify, when the token is expired, and when the token is not of kind access; more
  generally whenever \<open>AuthRequired\<close> aborts. The failures of the token itself give one
  and the same response, with the message \<open>Invalid or expired token\<close>; a missing header
  and a malformed header each have a message of their own, and these three responses
  are the only ones with which \<open>AuthRequired\<close> aborts. A request is either rejected or
  carries \<open>Bearer\<close> and a token that \<open>ValidateAccessToken\<close> accepts, whose subject
  becomes the principal.
\<close>

theorem auth_failures_uniform:
  "(authHeader = [] \<longrightarrow> rejected env cfg now authHeader) \<and>
   (length (Split authHeader CHR '' '') \<noteq> 2 \<or> Split authHeader CHR '' '' ! 0 \<noteq> ''Bearer''
      \<longrightarrow> rejected env cfg now authHeader) \<and>
   (authHeader = ''Bearer '' @ tok \<and> ParseUnverified env tok = Inr token \<and>
      \<not> Verify env (Method token) tok (SecretKey cfg)
      \<longrightarrow> rejected env cfg now authHeader) \<and>
   (authHeader = ''Bearer '' @ tok \<and> ParseUnverified env tok = Inr token \<and>
      ExpiresAt (TokenClaims token) = Some e \<and> e \<le> now
      \<longrightarrow> rejected env cfg now authHeader) \<and>
   (authHeader = ''Bearer '' @ tok \<and> ParseUnverified env tok = Inr token \<and>
      Type (TokenClaims token) \<noteq> AccessToken
      \<longrightarrow> rejected env cfg now authHeader) \<and>
   (authHeader = ''Bearer '' @ tok \<and> CHR '' '' \<notin> set tok \<and>
      ValidateAccessToken env cfg now tok = Inl err
      \<longrightarrow> AuthRequired env cfg now authHeader =
            Inl (JSON StatusUnauthorized [(''error'', JString ''Invalid or expired token'')])) \<and>
   (AuthRequired env cfg now authHeader = Inl resp \<longrightarrow> rejected env cfg now authHeader) \<and>
   (rejected env cfg now authHeader \<or>
      (\<exists>tok claims. authHeader = ''Bearer '' @ tok \<and>
         ValidateAccessToken env cfg now tok = Inr claims \<and>
         AuthRequired env cfg now authHeader = Inr (Map.empty(''userID'' \<mapsto> UserID claims)))) \<and>
   (authHeader = [] \<longrightarrow>
      AuthRequired env cfg now authHeader =
        Inl (JSON StatusUnauthorized
               [(''error'', JString ''Authorization header is required'')])) \<and>
   (authHeader \<noteq> [] \<and>
    (length (Split authHeader CHR '' '') \<noteq> 2 \<or> Split authHeader CHR '' '' ! 0 \<noteq> ''Bearer'')
      \<longrightarrow> AuthRequired env cfg now authHeader =
            Inl (JSON StatusUnauthorized
                   [(''error'', JString ''Authorization header format must be Bearer {token}'')])) \<and>
   (AuthRequired env cfg now authHeader = Inl resp \<longrightarrow>
      resp = JSON StatusUnauthorized [(''error'', JString ''Authorization header is required'')] \<or>
      resp = JSON StatusUnauthorized
               [(''error'', JString ''Authorization header format must be Bearer {token}'')] \<or>
      resp = JSON StatusUnauthorized [(''error'', JString ''Invalid or expired token'')])"
proof (intro conjI impI)
  assume "authHeader = []"
  then show "rejected env cfg now authHeader"
    by (auto intro: AuthRequired_Inl_rejected simp: AuthRequired_def)
next
  assume "length (Split authHeader CHR '' '') \<noteq> 2 \<or> Split authHeader CHR '' '' ! 0 \<noteq> ''Bearer''"
  then have "\<exists>resp. AuthRequired env cfg now authHeader = Inl resp"
    by (auto simp: AuthRequired_def Let_def)
  then show "rejected env cfg now authHeader"
    by (auto intro: AuthRequired_Inl_rejected)
next
  assume a: "authHeader = ''Bearer '' @ tok \<and> ParseUnverified env tok = Inr token \<and>
      \<not> Verify env (Method token) tok (SecretKey cfg)"
  then have "\<forall>c. ValidateAccessToken env cfg now tok \<noteq> Inr c"
    by (auto simp: ValidateAccessToken_Inr ValidateToken_Inr)
  from not_Inr_Inl[OF this] AuthRequired_Bearer_invalid a
  show "rejected env cfg now authHeader"
    by (metis AuthRequired_Inl_rejected)
next
  assume a: "authHeader = ''Bearer '' @ tok \<and> ParseUnverified env tok = Inr token \<and>
      ExpiresAt (TokenClaims token) = Some e \<and> e \<le> now"
  then have "\<forall>c. ValidateAccessToken env cfg now tok \<noteq> Inr c"
    by (auto simp: ValidateAccessToken_Inr ValidateToken_Inr Validate_Inr)
  from not_Inr_Inl[OF this] AuthRequired_Bearer_invalid a
  show "rejected env cfg now authHeader"
    by (metis AuthRequired_Inl_rejected)
next
  assume a: "authHeader = ''Bearer '' @ tok \<and> ParseUnverified env tok = Inr token \<and>
      Type (TokenClaims token) \<noteq> AccessToken"
  then have "\<forall>c. ValidateAccessToken env cfg now tok \<noteq> Inr c"
    by (auto simp: ValidateAccessToken_Inr ValidateToken_Inr)
  from not_Inr_Inl[OF this] AuthRequired_Bearer_invalid a
  show "rejected env cfg now authHeader"
    by (metis AuthRequired_Inl_rejected)
next
  assume a: "authHeader = ''Bearer '' @ tok \<and> CHR '' '' \<notin> set tok \<and>
      ValidateAccessToken env cfg now tok = Inl err"
  then have "Split tok CHR '' '' = [tok]" by (simp add: Split_no_sep)
  with a show "AuthRequired env cfg now authHeader =
      Inl (JSON StatusUnauthorized [(''error'', JString ''Invalid or expired token'')])"
    by (simp add: AuthRequired_def)
next
  assume "AuthRequired env cfg now authHeader = Inl resp"
  then show "rejected env cfg now authHeader" by (rule AuthRequired_Inl_rejected)
next
  show "rejected env cfg now authHeader \<or>
      (\<exists>tok claims. authHeader = ''Bearer '' @ tok \<and>
         ValidateAccessToken env cfg now tok = Inr claims \<and>
         AuthRequired env cfg now authHeader = Inr (Map.empty(''userID'' \<mapsto> UserID claims)))"
  proof (cases "AuthRequired env cfg now authHeader")
    case (Inl resp)
    then show ?thesis by (auto intro: AuthRequired_Inl_rejected)
  next
    case (Inr c)
    then have p: "length (Split authHeader CHR '' '') = 2"
      and b: "Split authHeader CHR '' '' ! 0 = ''Bearer''"
      by (auto simp: AuthRequired_def Let_def split: if_splits)
    from p obtain x y where xy: "Split authHeader CHR '' '' = [x, y]"
      by (cases "Split authHeader CHR '' ''" rule: list.exhaust; simp)
        (metis length_0_conv length_Suc_conv)
    with b have x: "x = ''Bearer''" by simp
    from Split_two[OF xy] x have h: "authHeader = ''Bearer '' @ y" by simp
    from Inr xy x obtain claims where "ValidateAccessToken env cfg now y = Inr claims"
      and "c = Map.empty(''userID'' \<mapsto> UserID claims)"
      by (auto simp: AuthRequired_def Let_def split: if_splits sum.splits)
    with h Inr show ?thesis by blast
  qed
next
  assume "authHeader = []"
  then show "AuthRequired env cfg now authHeader =
      Inl (JSON StatusUnauthorized [(''error'', JString ''Authorization header is required'')])"
    by (simp add: AuthRequired_def)
next
  assume "authHeader \<noteq> [] \<and>
    (length (Split authHeader CHR '' '') \<noteq> 2 \<or> Split authHeader CHR '' '' ! 0 \<noteq> ''Bearer'')"
  then show "AuthRequired env cfg now authHeader =
      Inl (JSON StatusUnauthorized
             [(''error'', JString ''Authorization header format must be Bearer {token}'')])"
    by (auto simp: AuthRequired_def Let_def)
next
  assume "AuthRequired env cfg now authHeader = Inl resp"
  then show "resp = JSON StatusUnauthorized
        [(''error'', JString ''Authorization header is required'')] \<or>
      resp = JSON StatusUnauthorized
        [(''error'', JString ''Authorization header format must be Bearer {token}'')] \<or>
      resp = JSON StatusUnauthorized [(''error'', JString ''Invalid or expired token'')]"
    by (auto simp: AuthRequired_def Let_def split: if_splits sum.splits)
qed


theorem auth_failures_uniform_witness:
  "rejected demo_env demo_cfg 0 [] \<and>
   Split ''Token abc'' CHR '' '' ! 0 \<noteq> ''Bearer'' \<and>
   rejected demo_env demo_cfg 0 ''Token abc'' \<and>
   ParseUnverified demo_env ''F.alice'' =
     Inr \<lparr>Method = SigningMethodHS256,
          TokenClaims = demo_claims ''alice'' ''access'' 900000000000, Valid = False\<rparr> \<and>
   \<not> Verify demo_env SigningMethodHS256 ''F.alice'' (SecretKey demo_cfg) \<and>
   rejected demo_env demo_cfg 0 ''Bearer F.alice'' \<and>
   ParseUnverified demo_env ''A.alice'' =
     Inr \<lparr>Method = SigningMethodHS256,
          TokenClaims = demo_claims ''alice'' ''access'' 900000000000, Valid = False\<rparr> \<and>
   ExpiresAt (demo_claims ''alice'' ''access'' 900000000000) = Some 900000000000 \<and>
   rejected demo_env demo_cfg 900000000000 ''Bearer A.alice'' \<and>
   ParseUnverified demo_env ''R.alice'' =
     Inr \<lparr>Method = SigningMethodHS256,
          TokenClaims = demo_claims ''alice'' ''refresh'' 604800000000000, Valid = False\<rparr> \<and>
   Type (demo_claims ''alice'' ''refresh'' 604800000000000) \<noteq> AccessToken \<and>
   rejected demo_env demo_cfg 0 ''Bearer R.alice'' \<and>
   ValidateAccessToken demo_env demo_cfg 5 ''R.alice'' =
     Inl (Error ''token is not an access token'') \<and>
   AuthRequired demo_env demo_cfg 5 ''Bearer R.alice'' =
     Inl (JSON StatusUnauthorized [(''error'', JString ''Invalid or expired token'')]) \<and>
   AuthRequired demo_env demo_cfg 0 [] =
     Inl (JSON StatusUnauthorized [(''error'', JString ''Authorization header is required'')]) \<and>
   AuthRequired demo_env demo_cfg 0 ''Token abc'' =
     Inl (JSON StatusUnauthorized
            [(''error'', JString ''Authorization header format must be Bearer {token}'')])"
proof -
  have w1: "rejected demo_env demo_cfg 0 []"
    by (rule auth_failures_uniform[THEN conjunct1, THEN mp]) simp
  have m: "Split ''Token abc'' CHR '' '' ! 0 \<noteq> ''Bearer''" by simp
  have w2: "rejected demo_env demo_cfg 0 ''Token abc''"
    by (rule auth_failures_uniform[THEN conjunct2, THEN conjunct1, THEN mp]) simp
  have w3: "rejected demo_env demo_cfg 0 ''Bearer F.alice''"
    by (rule auth_failures_uniform[where tok = "''F.alice''"
          and token = "\<lparr>Method = SigningMethodHS256,
            TokenClaims = demo_claims ''alice'' ''access'' 900000000000, Valid = False\<rparr>",
          THEN conjunct2, THEN conjunct2, THEN conjunct1, THEN mp])
      (simp add: demo_Parse_forged demo_Verify_forged)
  have x: "ExpiresAt (demo_claims ''alice'' ''access'' 900000000000) = Some 900000000000"
    by (simp add: demo_claims_def)
  have w4: "rejected demo_env demo_cfg 900000000000 ''Bearer A.alice''"
    by (rule auth_failures_uniform[where tok = "''A.alice''" and e = 900000000000
          and token = "\<lparr>Method = SigningMethodHS256,
            TokenClaims = demo_claims ''alice'' ''access'' 900000000000, Valid = False\<rparr>",
          THEN conjunct2, THEN conjunct2, THEN conjunct2, THEN conjunct1, THEN mp])
      (simp add: demo_Parse_access x)
  have k: "Type (demo_claims ''alice'' ''refresh'' 604800000000000) \<noteq> AccessToken"
    by (simp add: demo_claims_def AccessToken_def)
  have w5: "rejected demo_env demo_cfg 0 ''Bearer R.alice''"
    by (rule auth_failures_uniform[where tok = "''R.alice''"
          and token = "\<lparr>Method = SigningMethodHS256,
            TokenClaims = demo_claims ''alice'' ''refresh'' 604800000000000, Valid = False\<rparr>",
          THEN conjunct2, THEN conjunct2, THEN conjunct2, THEN conjunct2, THEN conjunct1, THEN mp])
      (simp add: demo_Parse_refresh k)
  have v: "ValidateAccessToken demo_env demo_cfg 5 ''R.alice'' =
      Inl (Error ''token is not an access token'')"
    using demo_Parse_refresh
    by (simp add: ValidateAccessToken_def ValidateToken_def ParseWithClaims_def keyFunc_def
        SigningMethodHS256_def demo_claims_def Validate_def AccessToken_def
        demo_env_def demo_Verify_def demo_tokens_def demo_cfg_def GetConfig_def demo_getenv_def)
  have w6: "AuthRequired demo_env demo_cfg 5 ''Bearer R.alice'' =
      Inl (JSON StatusUnauthorized [(''error'', JString ''Invalid or expired token'')])"
    by (rule auth_failures_uniform[where tok = "''R.alice''",
          THEN conjunct2, THEN conjunct2, THEN conjunct2, THEN conjunct2, THEN conjunct2,
          THEN conjunct1, THEN mp])
      (simp add: v)
  have w7: "AuthRequired demo_env demo_cfg 0 [] =
      Inl (JSON StatusUnauthorized [(''error'', JString ''Authorization header is required'')])"
    by (rule auth_failures_uniform[THEN conjunct2, THEN conjunct2, THEN conjunct2,
          THEN conjunct2, THEN conjunct2, THEN conjunct2, THEN conjunct2, THEN conjunct2,
          THEN conjunct1, THEN mp])
      simp
  have w8: "AuthRequired demo_env demo_cfg 0 ''Token abc'' =
      Inl (JSON StatusUnauthorized
             [(''error'', JString ''Authorization header format must be Bearer {token}'')])"
    by (rule auth_failures_uniform[THEN conjunct2, THEN conjunct2, THEN conjunct2,
          THEN conjunct2, THEN conjunct2, THEN conjunct2, THEN conjunct2, THEN conjunct2,
          THEN conjunct2, THEN conjunct1, THEN mp])
      simp
  from w1 m w2 w3 w4 w5 v w6 w7 w8 demo_Parse_forged demo_Verify_forged demo_Parse_access x
    demo_Parse_refresh k
  show ?thesis by blast
qed

section \<open>Logout\<close>

lemma Logout_bound:
  assumes "ShouldBindJSON validate_RefreshRequest decoded = Inr req" and "roundtrip r = (f, r')"
  shows "Logout now decoded r =
           (if f then (JSON StatusInternalServerError [(''error'', JString ''failed to logout'')], r')
            else (JSON StatusOK [(''message'', JString ''logged out successfully'')],
                  r'\<lparr>kv := (kv r)(''refresh_token:'' @ ReqRefreshToken req := None)\<rparr>))"
  using assms roundtrip_kv[OF assms(2)]
  by (simp add: Logout_def redis_Del_def)

text \<open>
  Claim C7 (logout). For every request that presents a string as its refresh token (the
  body binds, so the string is not empty), \<open>Logout\<close> makes one call to the store, the
  deletion of the ledger key of that string. It reads no token and calls no validation:
  the handler has neither the JWT library nor the configuration among its arguments.
  If the call fails, the answer is 500 and the store is as before; otherwise the answer
  is 200 and the key is absent, whether or not it was there. So the answer is 200
  exactly when the store does not fail, and a second logout of the same string, if the
  store answers it, reports the same success and leaves the same store.
\<close>

theorem logout_idempotent:
  assumes "ShouldBindJSON validate_RefreshRequest decoded = Inr req"
    and "roundtrip r = (f, r')"
  shows "(f \<longrightarrow> Logout now decoded r =
            (JSON StatusInternalServerError [(''error'', JString ''failed to logout'')], r')) \<and>
         (\<not> f \<longrightarrow> Logout now decoded r =
            (JSON StatusOK [(''message'', JString ''logged out successfully'')],
             r'\<lparr>kv := (kv r)(''refresh_token:'' @ ReqRefreshToken req := None)\<rparr>)) \<and>
         (status (fst (Logout now decoded r)) = StatusOK \<longleftrightarrow> \<not> f) \<and>
         (\<not> f \<and> roundtrip (snd (Logout now decoded r)) = (False, r'') \<longrightarrow>
            Logout now' decoded (snd (Logout now decoded r)) =
              (JSON StatusOK [(''message'', JString ''logged out successfully'')],
               r''\<lparr>kv := (kv r)(''refresh_token:'' @ ReqRefreshToken req := None)\<rparr>))"
proof (intro conjI impI)
  assume f
  with Logout_bound[OF assms, of now] show "Logout now decoded r =
      (JSON StatusInternalServerError [(''error'', JString ''failed to logout'')], r')"
    by simp
next
  assume "\<not> f"
  with Logout_bound[OF assms, of now] show "Logout now decoded r =
      (JSON StatusOK [(''message'', JString ''logged out successfully'')],
       r'\<lparr>kv := (kv r)(''refresh_token:'' @ ReqRefreshToken req := None)\<rparr>)"
    by simp
next
  from Logout_bound[OF assms, of now]
  show "(status (fst (Logout now decoded r)) = StatusOK) = (\<not> f)"
    by (simp add: JSON_def)
next
  assume a: "\<not> f \<and> roundtrip (snd (Logout now decoded r)) = (False, r'')"
  then have s: "snd (Logout now decoded r) =
      r'\<lparr>kv := (kv r)(''refresh_token:'' @ ReqRefreshToken req := None)\<rparr>"
    using Logout_bound[OF assms, of now] by simp
  from a have rt: "roundtrip (snd (Logout now decoded r)) = (False, r'')" by simp
  from Logout_bound[OF assms(1) rt, of now'] s
  show "Logout now' decoded (snd (Logout now decoded r)) =
      (JSON StatusOK [(''message'', JString ''logged out successfully'')],
       r''\<lparr>kv := (kv r)(''refresh_token:'' @ ReqRefreshToken req := None)\<rparr>)"
    by simp
qed

theorem logout_idempotent_witness:
  "ShouldBindJSON validate_RefreshRequest (Inr \<lparr>ReqRefreshToken = ''never issued''\<rparr>) =
     Inr \<lparr>ReqRefreshToken = ''never issued''\<rparr> \<and>
   roundtrip demo_empty = (False, demo_empty) \<and>
   roundtrip (demo_empty\<lparr>faults := [True]\<rparr>) = (True, demo_empty) \<and>
   Logout 0 (Inr \<lparr>ReqRefreshToken = ''never issued''\<rparr>) (demo_empty\<lparr>faults := [True]\<rparr>) =
     (JSON StatusInternalServerError [(''error'', JString ''failed to logout'')], demo_empty) \<and>
   Logout 0 (Inr \<lparr>ReqRefreshToken = ''never issued''\<rparr>) demo_empty =
     (JSON StatusOK [(''message'', JString ''logged out successfully'')], demo_empty) \<and>
   Logout 1 (Inr \<lparr>ReqRefreshToken = ''never issued''\<rparr>)
     (snd (Logout 0 (Inr \<lparr>ReqRefreshToken = ''never issued''\<rparr>) demo_empty)) =
     (JSON StatusOK [(''message'', JString ''logged out successfully'')], demo_empty)"
proof -
  let ?d = "Inr \<lparr>ReqRefreshToken = ''never issued''\<rparr> :: error + RefreshRequest"
  have b: "ShouldBindJSON validate_RefreshRequest ?d = Inr \<lparr>ReqRefreshToken = ''never issued''\<rparr>"
    by (simp add: ShouldBindJSON_def validate_RefreshRequest_def)
  have r0: "roundtrip demo_empty = (False, demo_empty)"
    by (simp add: roundtrip_def demo_empty_def)
  have r1: "roundtrip (demo_empty\<lparr>faults := [True]\<rparr>) = (True, demo_empty)"
    by (simp add: roundtrip_def demo_empty_def)
  have e: "demo_empty\<lparr>kv := (kv demo_empty)(''refresh_token:never issued'' := None)\<rparr> = demo_empty"
    by (simp add: demo_empty_def)
  note t0 = logout_idempotent[OF b r0, where now = 0 and now' = 1 and r'' = demo_empty]
  note t1 = logout_idempotent[OF b r1, where now = 0 and now' = 1 and r'' = demo_empty]
  have l1: "Logout 0 ?d (demo_empty\<lparr>faults := [True]\<rparr>) =
      (JSON StatusInternalServerError [(''error'', JString ''failed to logout'')], demo_empty)"
    using t1[THEN conjunct1] by simp
  have l0: "Logout 0 ?d demo_empty =
      (JSON StatusOK [(''message'', JString ''logged out successfully'')], demo_empty)"
    using t0[THEN conjunct2, THEN conjunct1] e by simp
  have l2: "Logout 1 ?d (snd (Logout 0 ?d demo_empty)) =
      (JSON StatusOK [(''message'', JString ''logged out successfully'')], demo_empty)"
    using t0[THEN conjunct2, THEN conjunct2, THEN conjunct2] l0 r0 e by simp
  from b r0 r1 l1 l0 l2 show ?thesis by blast
qed

section \<open>Registration\<close>

lemma redis_Set_None:
  "redis_Set now k v ttl r = (None, r') \<Longrightarrow>
     kv r' = (kv r)(k \<mapsto> \<lparr>val = v, expire_at = (if ttl = 0 then None else Some (now + ttl))\<rparr>)"
  by (auto simp: redis_Set_def split: prod.splits bool.splits dest: roundtrip_kv)

lemma redis_Set_Some: "redis_Set now k v ttl r = (Some e, r') \<Longrightarrow> kv r' = kv r"
  by (auto simp: redis_Set_def split: prod.splits bool.splits dest: roundtrip_kv)

lemma Create_Inr:
  assumes "Create env now u r = (Inr u', r')"
  shows "u' = u\<lparr>CreatedAt := now, UpdatedAt := now\<rparr> \<and>
         (\<exists>userJSON. Marshal env u' = Inr userJSON \<and>
            kv r' = (kv r)(''user:'' @ ID u \<mapsto> \<lparr>val = userJSON, expire_at = None\<rparr>,
                           ''username:'' @ Username u \<mapsto> \<lparr>val = ID u, expire_at = None\<rparr>))"
proof -
  let ?u = "u\<lparr>CreatedAt := now, UpdatedAt := now\<rparr>"
  from assms obtain js where m: "Marshal env ?u = Inr js"
    by (cases "Marshal env ?u") (auto simp: Create_def Let_def split: if_splits)
  obtain e1 r1 where s1: "redis_Set now (''user:'' @ ID u) js 0 r = (e1, r1)"
    by (cases "redis_Set now (''user:'' @ ID u) js 0 r") auto
  obtain e2 r2 where s2: "redis_Set now (''username:'' @ Username u) (ID u) 0 r1 = (e2, r2)"
    by (cases "redis_Set now (''username:'' @ Username u) (ID u) 0 r1") auto
  from assms m s1 s2 have "e1 = None" "e2 = None" "r' = r2" "u' = ?u"
    by (auto simp: Create_def Let_def split: if_splits option.splits)
  with redis_Set_None[of now _ _ 0 r r1] redis_Set_None[of now _ _ 0 r1 r2] s1 s2 m
  show ?thesis by auto
qed

lemma demo_Register_alice:
  "Register demo_env 0
     (Inr \<lparr>RegUsername = ''alice'', RegPassword = ''secret1'', RegEmail = ''a@x.com''\<rparr>) demo_empty =
   (JSON StatusCreated [(''message'', JString ''user registered successfully''),
                        (''user_id'', JString ''alice'')], demo_store)"
  by (simp add: Register_def ShouldBindJSON_def validate_RegisterRequest_def RuneCountInString_def
      GetByUsername_def GetByID_def Create_def redis_defs demo_env_def demo_empty_def demo_store_def
      demo_Marshal_def demo_users_def demo_alice_def demo_wx_def)

text \<open>
  Claim C10 (the primary id of a registered user is the username). Whenever \<open>Register\<close>
  answers 201, the body bound to a request, the \<open>user_id\<close> of the response is the
  username of that request, verbatim, and the store then holds, without expiry, under
  \<open>user:\<close> followed by the username the JSON of a record whose \<open>ID\<close> and \<open>Username\<close>
  are both the username, and under \<open>username:\<close> followed by the username the username
  itself as the id.
\<close>

theorem register_id_is_username:
  assumes "Register env now decoded r = (resp, r')" and "status resp = StatusCreated"
  shows "\<exists>req hashedPassword userJSON.
           decoded = Inr req \<and>
           body resp = [(''message'', JString ''user registered successfully''),
                        (''user_id'', JString (RegUsername req))] \<and>
           GenerateFromPassword env (RegPassword req) = Inr hashedPassword \<and>
           Marshal env \<lparr>ID = RegUsername req, Username = RegUsername req,
                         Password = hashedPassword, Email = RegEmail req, OpenID = [],
                         CreatedAt = now, UpdatedAt = now\<rparr> = Inr userJSON \<and>
           kv r' (''user:'' @ RegUsername req) = Some \<lparr>val = userJSON, expire_at = None\<rparr> \<and>
           kv r' (''username:'' @ RegUsername req) =
             Some \<lparr>val = RegUsername req, expire_at = None\<rparr>"
proof -
  from assms obtain req where b: "ShouldBindJSON (validate_RegisterRequest env) decoded = Inr req"
    by (cases "ShouldBindJSON (validate_RegisterRequest env) decoded")
      (auto simp: Register_def JSON_def)
  then have d: "decoded = Inr req" by (simp add: ShouldBindJSON_eq_Inr)
  obtain g r1 where g: "GetByUsername env now (RegUsername req) r = (g, r1)"
    by (cases "GetByUsername env now (RegUsername req) r") auto
  from assms b g obtain h where h: "GenerateFromPassword env (RegPassword req) = Inr h"
    by (cases "GenerateFromPassword env (RegPassword req)")
      (auto simp: Register_def JSON_def split: sum.splits)
  let ?u = "\<lparr>ID = RegUsername req, Username = RegUsername req, Password = h,
             Email = RegEmail req, OpenID = [], CreatedAt = ZeroTime, UpdatedAt = ZeroTime\<rparr>"
  obtain c r2 where c: "Create env now ?u r1 = (c, r2)"
    by (cases "Create env now ?u r1") auto
  from assms b g h c obtain u' where u': "c = Inr u'" and r': "r' = r2"
    and resp: "resp = JSON StatusCreated [(''message'', JString ''user registered successfully''),
                        (''user_id'', JString (ID u'))]"
    by (cases c; cases g) (auto simp: Register_def JSON_def Let_def)
  from Create_Inr[OF c[unfolded u']] obtain js where
    "u' = ?u\<lparr>CreatedAt := now, UpdatedAt := now\<rparr>" and "Marshal env u' = Inr js"
    and "kv r2 = (kv r1)(''user:'' @ ID ?u \<mapsto> \<lparr>val = js, expire_at = None\<rparr>,
                       ''username:'' @ Username ?u \<mapsto> \<lparr>val = ID ?u, expire_at = None\<rparr>)"
    by blast
  with d h resp r' show ?thesis
    by (auto simp: JSON_def)
qed

theorem register_id_is_username_witness:
  "Register demo_env 0
     (Inr \<lparr>RegUsername = ''alice'', RegPassword = ''secret1'', RegEmail = ''a@x.com''\<rparr>) demo_empty =
   (JSON StatusCreated [(''message'', JString ''user registered successfully''),
                        (''user_id'', JString ''alice'')], demo_store) \<and>
   status (JSON StatusCreated [(''message'', JString ''user registered successfully''),
                        (''user_id'', JString ''alice'')]) = StatusCreated \<and>
   (\<exists>userJSON.
      body (JSON StatusCreated [(''message'', JString ''user registered successfully''),
                        (''user_id'', JString ''alice'')]) =
        [(''message'', JString ''user registered successfully''), (''user_id'', JString ''alice'')] \<and>
      Marshal demo_env \<lparr>ID = ''alice'', Username = ''alice'', Password = ''h:secret1'',
          Email = ''a@x.com'', OpenID = [], CreatedAt = 0, UpdatedAt = 0\<rparr> = Inr userJSON \<and>
      kv demo_store ''user:alice'' = Some \<lparr>val = userJSON, expire_at = None\<rparr> \<and>
      kv demo_store ''username:alice'' = Some \<lparr>val = ''alice'', expire_at = None\<rparr>)"
proof -
  have s: "status (JSON StatusCreated [(''message'', JString ''user registered successfully''),
                        (''user_id'', JString ''alice'')]) = StatusCreated"
    by (simp add: JSON_def)
  from register_id_is_username[OF demo_Register_alice s] demo_Register_alice s
  show ?thesis
    by (auto simp: demo_env_def)
qed

section \<open>Issuing tokens\<close>

lemma issueTokens_OK:
  assumes "issueTokens env cfg now user r = (resp, r')" and "status resp = StatusOK"
  shows "\<exists>accessToken refreshToken.
           GenerateAccessToken env cfg now (ID user) = Inr accessToken \<and>
           GenerateRefreshToken env cfg now (ID user) = Inr refreshToken \<and>
           resp = JSON StatusOK (TokenResponse accessToken refreshToken (15 * 60)) \<and>
           kv r' = (kv r)(''refresh_token:'' @ refreshToken \<mapsto>
                     \<lparr>val = ID user, expire_at = Some (now + 7 * 24 * Hour)\<rparr>)"
proof -
  from assms obtain a where a: "GenerateAccessToken env cfg now (ID user) = Inr a"
    by (cases "GenerateAccessToken env cfg now (ID user)") (auto simp: issueTokens_def JSON_def)
  from assms a obtain t where t: "GenerateRefreshToken env cfg now (ID user) = Inr t"
    by (cases "GenerateRefreshToken env cfg now (ID user)") (auto simp: issueTokens_def JSON_def)
  obtain e r1 where s: "redis_Set now (''refresh_token:'' @ t) (ID user) (7 * 24 * Hour) r = (e, r1)"
    by (cases "redis_Set now (''refresh_token:'' @ t) (ID user) (7 * 24 * Hour) r") auto
  from assms a t s have "e = None" "r' = r1"
    "resp = JSON StatusOK (TokenResponse a t (15 * 60))"
    by (auto simp: issueTokens_def JSON_def Let_def split: option.splits)
  moreover have "7 * 24 * Hour \<noteq> 0" by (simp add: Hour_def Minute_def Second_def)
  ultimately show ?thesis
    using a t s redis_Set_None[of now "''refresh_token:'' @ t" "ID user" "7 * 24 * Hour" r r1]
    by auto
qed

lemma Login_OK:
  assumes "Login env cfg now decoded r = (resp, r')" and "status resp = StatusOK"
  shows "\<exists>req user r1. decoded = Inr req \<and> validate_LoginRequest req = [] \<and>
           GetByUsername env now (LoginUsername req) r = (Inr user, r1) \<and>
           CompareHashAndPassword env (Password user) (LoginPassword req) = None \<and>
           issueTokens env cfg now user r1 = (resp, r')"
proof -
  from assms obtain req where b: "ShouldBindJSON validate_LoginRequest decoded = Inr req"
    by (cases "ShouldBindJSON validate_LoginRequest decoded") (auto simp: Login_def JSON_def)
  obtain g r1 where g: "GetByUsername env now (LoginUsername req) r = (g, r1)"
    by (cases "GetByUsername env now (LoginUsername req) r") auto
  from assms b g obtain user where u: "g = Inr user"
    by (cases g) (auto simp: Login_def JSON_def)
  from assms b g u have "CompareHashAndPassword env (Password user) (LoginPassword req) = None"
    and "issueTokens env cfg now user r1 = (resp, r')"
    by (auto simp: Login_def JSON_def split: option.splits)
  with b g u show ?thesis by (auto simp: ShouldBindJSON_eq_Inr)
qed

lemma WeChatLogin_OK:
  assumes "WeChatLogin env cfg now decoded r = (resp, r')" and "status resp = StatusOK"
  shows "\<exists>req sessionInfo user r1. decoded = Inr req \<and>
           Code2Session env (Code req) = Inr sessionInfo \<and>
           CreateWeChatUser env now (SessionOpenID sessionInfo) r = (Inr user, r1) \<and>
           issueTokens env cfg now user r1 = (resp, r')"
proof -
  from assms obtain req where b: "ShouldBindJSON validate_WeChatLoginRequest decoded = Inr req"
    by (cases "ShouldBindJSON validate_WeChatLoginRequest decoded")
      (auto simp: WeChatLogin_def JSON_def)
  from assms b obtain si where si: "Code2Session env (Code req) = Inr si"
    by (cases "Code2Session env (Code req)") (auto simp: WeChatLogin_def JSON_def)
  obtain g r1 where g: "CreateWeChatUser env now (SessionOpenID si) r = (g, r1)"
    by (cases "CreateWeChatUser env now (SessionOpenID si) r") auto
  from assms b si g obtain user where u: "g = Inr user"
    by (cases g) (auto simp: WeChatLogin_def JSON_def)
  from assms b si g u have "issueTokens env cfg now user r1 = (resp, r')"
    by (auto simp: WeChatLogin_def)
  with b si g u show ?thesis by (auto simp: ShouldBindJSON_eq_Inr)
qed

lemma GetConfig_ttls:
  "RefreshTokenTTL (GetConfig getenv) = 7 * 24 * Hour"
  "AccessTokenTTL (GetConfig getenv) div Second = 15 * 60"
  by (simp_all add: GetConfig_def Minute_def Second_def)

lemma issueTokens_GetConfig:
  assumes "issueTokens env (GetConfig getenv) now user r = (resp, r')" and "status resp = StatusOK"
  shows "\<exists>accessToken refreshToken.
           SignedString env SigningMethodHS256 (SecretKey (GetConfig getenv))
             \<lparr>UserID = ID user, Type = RefreshToken,
              ExpiresAt = Some (NewNumericDate (now + RefreshTokenTTL (GetConfig getenv))),
              IssuedAt = Some (NewNumericDate now),
              NotBefore = Some (NewNumericDate now)\<rparr> = Inr refreshToken \<and>
           body resp = TokenResponse accessToken refreshToken
                         (AccessTokenTTL (GetConfig getenv) div Second) \<and>
           kv r' (''refresh_token:'' @ refreshToken) =
             Some \<lparr>val = ID user,
                   expire_at = Some (now + RefreshTokenTTL (GetConfig getenv))\<rparr>"
proof -
  from issueTokens_OK[OF assms] obtain a t where
    "GenerateRefreshToken env (GetConfig getenv) now (ID user) = Inr t"
    "resp = JSON StatusOK (TokenResponse a t (15 * 60))"
    "kv r' = (kv r)(''refresh_token:'' @ t \<mapsto>
                     \<lparr>val = ID user, expire_at = Some (now + 7 * 24 * Hour)\<rparr>)"
    by blast
  then show ?thesis
    by (auto simp: GetConfig_ttls GenerateRefreshToken_def generateToken_def JSON_def)
qed

lemmas demo_jwt_defs = GenerateAccessToken_def GenerateRefreshToken_def generateToken_def
  demo_env_def demo_cfg_def GetConfig_def demo_getenv_def demo_SignedString_def demo_tokens_def
  demo_claims_def AccessToken_def RefreshToken_def NewNumericDate_def Second_def Minute_def Hour_def

lemma demo_issue_alice:
  "issueTokens demo_env demo_cfg 0 demo_alice demo_store =
     (JSON StatusOK (TokenResponse ''A.alice'' ''R.alice'' 900), demo_store_alice_in)"
  by (simp add: issueTokens_def demo_jwt_defs redis_defs demo_alice_def demo_store_def
      demo_store_alice_in_def)

lemma demo_issue_wx:
  "issueTokens demo_env demo_cfg 0 demo_wx demo_wx_store =
     (JSON StatusOK (TokenResponse ''A.wx_o1'' ''R.wx_o1'' 900), demo_wx_store_in)"
  by (simp add: issueTokens_def demo_jwt_defs redis_defs demo_wx_def demo_wx_store_def
      demo_wx_store_in_def)

lemma demo_Login_alice:
  "Login demo_env demo_cfg 0 (Inr \<lparr>LoginUsername = ''alice'', LoginPassword = ''secret1''\<rparr>)
     demo_store =
   (JSON StatusOK (TokenResponse ''A.alice'' ''R.alice'' 900), demo_store_alice_in)"
  using demo_GetByUsername_alice[of 0] demo_issue_alice
  by (simp add: Login_def ShouldBindJSON_def validate_LoginRequest_def)
    (simp add: demo_env_def demo_alice_def)

lemma demo_Create_wx:
  "CreateWeChatUser demo_env 0 ''o1'' demo_empty = (Inr demo_wx, demo_wx_store)"
  by (simp add: CreateWeChatUser_def Let_def redis_defs demo_env_def demo_empty_def
      demo_wx_store_def demo_Marshal_def demo_users_def demo_alice_def demo_wx_def)

lemma demo_Code2Session:
  "Code2Session demo_env ''c1'' =
     Inr \<lparr>SessionOpenID = ''o1'', SessionKey = ''sk'', UnionID = [], ErrCode = 0, ErrMsg = []\<rparr>"
  "Code2Session demo_env ''c2'' =
     Inr \<lparr>SessionOpenID = ''o1'', SessionKey = ''sk'', UnionID = [], ErrCode = 0, ErrMsg = []\<rparr>"
  by (simp_all add: Code2Session_def demo_env_def demo_WeChatAPI_def)

lemma demo_WeChatLogin_first:
  "WeChatLogin demo_env demo_cfg 0 (Inr \<lparr>Code = ''c1''\<rparr>) demo_empty =
   (JSON StatusOK (TokenResponse ''A.wx_o1'' ''R.wx_o1'' 900), demo_wx_store_in)"
  using demo_Create_wx demo_issue_wx
  by (simp add: WeChatLogin_def ShouldBindJSON_def validate_WeChatLoginRequest_def demo_Code2Session)

text \<open>
  Claim C9 (the expiry of the ledger entry). In the server as \<open>main\<close> builds it, with the
  configuration of \<open>GetConfig\<close> under any environment variables, every login and every
  WeChat login that answers 200 has signed a refresh token whose expires-at claim is the
  instant of the request plus the configured refresh-token TTL (truncated to the
  second), has recorded under the ledger key of that token the id of the user with an
  expiry of the same instant plus the same TTL, and answers with an \<open>expires_in\<close> that is
  the configured access-token TTL in seconds. (The handlers write the two durations as
  literals, 7 * 24 hours and 15 * 60 seconds, as \<open>issueTokens_OK\<close> shows for every
  configuration; they are the durations of \<open>GetConfig\<close>.)
\<close>

theorem ledger_ttl_is_refresh_ttl:
  "(main_serve getenv env now (PostLogin decoded) r = (resp, r') \<and> status resp = StatusOK \<longrightarrow>
      (\<exists>userID accessToken refreshToken.
         SignedString env SigningMethodHS256 (SecretKey (GetConfig getenv))
           \<lparr>UserID = userID, Type = RefreshToken,
            ExpiresAt = Some (NewNumericDate (now + RefreshTokenTTL (GetConfig getenv))),
            IssuedAt = Some (NewNumericDate now),
            NotBefore = Some (NewNumericDate now)\<rparr> = Inr refreshToken \<and>
         body resp = TokenResponse accessToken refreshToken
                       (AccessTokenTTL (GetConfig getenv) div Second) \<and>
         kv r' (''refresh_token:'' @ refreshToken) =
           Some \<lparr>val = userID,
                 expire_at = Some (now + RefreshTokenTTL (GetConfig getenv))\<rparr>)) \<and>
   (main_serve getenv env now (PostWeChatLogin decoded') r = (resp, r') \<and>
    status resp = StatusOK \<longrightarrow>
      (\<exists>userID accessToken refreshToken.
         SignedString env SigningMethodHS256 (SecretKey (GetConfig getenv))
           \<lparr>UserID = userID, Type = RefreshToken,
            ExpiresAt = Some (NewNumericDate (now + RefreshTokenTTL (GetConfig getenv))),
            IssuedAt = Some (NewNumericDate now),
            NotBefore = Some (NewNumericDate now)\<rparr> = Inr refreshToken \<and>
         body resp = TokenResponse accessToken refreshToken
                       (AccessTokenTTL (GetConfig getenv) div Second) \<and>
         kv r' (''refresh_token:'' @ refreshToken) =
           Some \<lparr>val = userID,
                 expire_at = Some (now + RefreshTokenTTL (GetConfig getenv))\<rparr>))"
proof (intro conjI impI)
  assume "main_serve getenv env now (PostLogin decoded) r = (resp, r') \<and> status resp = StatusOK"
  then have "Login env (GetConfig getenv) now decoded r = (resp, r')" and s: "status resp = StatusOK"
    by (simp_all add: main_serve_def serve_def)
  from Login_OK[OF this] obtain user r1 where
    "issueTokens env (GetConfig getenv) now user r1 = (resp, r')" by blast
  from issueTokens_GetConfig[OF this s] show
    "\<exists>userID accessToken refreshToken.
         SignedString env SigningMethodHS256 (SecretKey (GetConfig getenv))
           \<lparr>UserID = userID, Type = RefreshToken,
            ExpiresAt = Some (NewNumericDate (now + RefreshTokenTTL (GetConfig getenv))),
            IssuedAt = Some (NewNumericDate now),
            NotBefore = Some (NewNumericDate now)\<rparr> = Inr refreshToken \<and>
         body resp = TokenResponse accessToken refreshToken
                       (AccessTokenTTL (GetConfig getenv) div Second) \<and>
         kv r' (''refresh_token:'' @ refreshToken) =
           Some \<lparr>val = userID,
                 expire_at = Some (now + RefreshTokenTTL (GetConfig getenv))\<rparr>"
    by blast
next
  assume "main_serve getenv env now (PostWeChatLogin decoded') r = (resp, r') \<and>
    status resp = StatusOK"
  then have "WeChatLogin env (GetConfig getenv) now decoded' r = (resp, r')"
    and s: "status resp = StatusOK"
    by (simp_all add: main_serve_def serve_def)
  from WeChatLogin_OK[OF this] obtain user r1 where
    "issueTokens env (GetConfig getenv) now user r1 = (resp, r')" by blast
  from issueTokens_GetConfig[OF this s] show
    "\<exists>userID accessToken refreshToken.
         SignedString env SigningMethodHS256 (SecretKey (GetConfig getenv))
           \<lparr>UserID = userID, Type = RefreshToken,
            ExpiresAt = Some (NewNumericDate (now + RefreshTokenTTL (GetConfig getenv))),
            IssuedAt = Some (NewNumericDate now),
            NotBefore = Some (NewNumericDate now)\<rparr> = Inr refreshToken \<and>
         body resp = TokenResponse accessToken refreshToken
                       (AccessTokenTTL (GetConfig getenv) div Second) \<and>
         kv r' (''refresh_token:'' @ refreshToken) =
           Some \<lparr>val = userID,
                 expire_at = Some (now + RefreshTokenTTL (GetConfig getenv))\<rparr>"
    by blast
qed

theorem ledger_ttl_is_refresh_ttl_witness:
  "main_serve demo_getenv demo_env 0
     (PostLogin (Inr \<lparr>LoginUsername = ''alice'', LoginPassword = ''secret1''\<rparr>)) demo_store =
     (JSON StatusOK (TokenResponse ''A.alice'' ''R.alice'' 900), demo_store_alice_in) \<and>
   main_serve demo_getenv demo_env 0 (PostWeChatLogin (Inr \<lparr>Code = ''c1''\<rparr>)) demo_empty =
     (JSON StatusOK (TokenResponse ''A.wx_o1'' ''R.wx_o1'' 900), demo_wx_store_in) \<and>
   status (JSON StatusOK (TokenResponse ''A.alice'' ''R.alice'' 900)) = StatusOK \<and>
   status (JSON StatusOK (TokenResponse ''A.wx_o1'' ''R.wx_o1'' 900)) = StatusOK \<and>
   (\<exists>userID accessToken refreshToken.
      SignedString demo_env SigningMethodHS256 (SecretKey (GetConfig demo_getenv))
        \<lparr>UserID = userID, Type = RefreshToken,
         ExpiresAt = Some (NewNumericDate (0 + RefreshTokenTTL (GetConfig demo_getenv))),
         IssuedAt = Some (NewNumericDate 0),
         NotBefore = Some (NewNumericDate 0)\<rparr> = Inr refreshToken \<and>
      body (JSON StatusOK (TokenResponse ''A.alice'' ''R.alice'' 900)) =
        TokenResponse accessToken refreshToken (AccessTokenTTL (GetConfig demo_getenv) div Second) \<and>
      kv demo_store_alice_in (''refresh_token:'' @ refreshToken) =
        Some \<lparr>val = userID, expire_at = Some (0 + RefreshTokenTTL (GetConfig demo_getenv))\<rparr>) \<and>
   (\<exists>userID accessToken refreshToken.
      SignedString demo_env SigningMethodHS256 (SecretKey (GetConfig demo_getenv))
        \<lparr>UserID = userID, Type = RefreshToken,
         ExpiresAt = Some (NewNumericDate (0 + RefreshTokenTTL (GetConfig demo_getenv))),
         IssuedAt = Some (NewNumericDate 0),
         NotBefore = Some (NewNumericDate 0)\<rparr> = Inr refreshToken \<and>
      body (JSON StatusOK (TokenResponse ''A.wx_o1'' ''R.wx_o1'' 900)) =
        TokenResponse accessToken refreshToken (AccessTokenTTL (GetConfig demo_getenv) div Second) \<and>
      kv demo_wx_store_in (''refresh_token:'' @ refreshToken) =
        Some \<lparr>val = userID, expire_at = Some (0 + RefreshTokenTTL (GetConfig demo_getenv))\<rparr>)"
proof -
  have m1: "main_serve demo_getenv demo_env 0
     (PostLogin (Inr \<lparr>LoginUsername = ''alice'', LoginPassword = ''secret1''\<rparr>)) demo_store =
     (JSON StatusOK (TokenResponse ''A.alice'' ''R.alice'' 900), demo_store_alice_in)"
    using demo_Login_alice by (simp add: main_serve_def serve_def demo_cfg_def)
  have m2: "main_serve demo_getenv demo_env 0 (PostWeChatLogin (Inr \<lparr>Code = ''c1''\<rparr>)) demo_empty =
     (JSON StatusOK (TokenResponse ''A.wx_o1'' ''R.wx_o1'' 900), demo_wx_store_in)"
    using demo_WeChatLogin_first by (simp add: main_serve_def serve_def demo_cfg_def)
  have s1: "status (JSON StatusOK (TokenResponse ''A.alice'' ''R.alice'' 900)) = StatusOK"
    and s2: "status (JSON StatusOK (TokenResponse ''A.wx_o1'' ''R.wx_o1'' 900)) = StatusOK"
    by (simp_all add: JSON_def)
  note t1 = ledger_ttl_is_refresh_ttl[THEN conjunct1, THEN mp, OF conjI, OF m1 s1]
  note t2 = ledger_ttl_is_refresh_ttl[THEN conjunct2, THEN mp, OF conjI, OF m2 s2]
  from m1 m2 s1 s2 t1 t2 show ?thesis
    by (intro conjI) assumption+
qed

section \<open>Refresh\<close>

lemma redis_Get_Inr:
  "fst (redis_Get now k r) = Inr v \<longleftrightarrow> \<not> fst (roundtrip r) \<and> live r now k = Some v"
proof -
  obtain f r' where rt: "roundtrip r = (f, r')" by (cases "roundtrip r") auto
  from roundtrip_kv[OF rt] have "live r' now k = live r now k" by (simp add: live_def)
  with rt show ?thesis
    by (cases f) (auto simp: redis_Get_def split: option.splits)
qed

lemma Refresh_cases:
  assumes "ShouldBindJSON validate_RefreshRequest decoded = Inr req"
  shows "fst (RefreshToken_handler env cfg now decoded r) =
     (case ValidateRefreshToken env cfg now (ReqRefreshToken req) of
        Inl err \<Rightarrow> JSON StatusUnauthorized [(''error'', JString ''invalid refresh token'')]
      | Inr claims \<Rightarrow>
          (case fst (redis_Get now (''refresh_token:'' @ ReqRefreshToken req) r) of
             Inl err \<Rightarrow>
               JSON StatusUnauthorized [(''error'', JString ''refresh token has been revoked'')]
           | Inr userID \<Rightarrow>
               if userID \<noteq> UserID claims then
                 JSON StatusUnauthorized [(''error'', JString ''invalid refresh token'')]
               else
                 (case GenerateAccessToken env cfg now (UserID claims) of
                    Inl err \<Rightarrow> JSON StatusInternalServerError
                                 [(''error'', JString ''failed to generate access token'')]
                  | Inr accessToken \<Rightarrow>
                      JSON StatusOK [(''access_token'', JString accessToken),
                                     (''expires_in'', JNumber (15 * 60))])))"
  using assms
  by (simp add: RefreshToken_handler_def Let_def split: sum.splits prod.splits)

lemma Refresh_kv:
  "kv (snd (RefreshToken_handler env cfg now decoded r)) = kv r"
  by (auto simp: RefreshToken_handler_def Let_def split: sum.splits prod.splits dest: redis_Get_kv)

lemma demo_Validate_refresh:
  "ValidateRefreshToken demo_env demo_cfg 5 ''R.alice'' =
     Inr (demo_claims ''alice'' ''refresh'' 604800000000000)"
  using demo_Parse_refresh
  by (simp add: ValidateRefreshToken_def ValidateToken_def ParseWithClaims_def keyFunc_def
      SigningMethodHS256_def demo_claims_def Validate_def RefreshToken_def
      demo_env_def demo_Verify_def demo_tokens_def demo_cfg_def GetConfig_def demo_getenv_def)

lemma demo_access_at_5: "GenerateAccessToken demo_env demo_cfg 5 ''alice'' = Inr ''A.alice''"
  by (simp add: demo_jwt_defs)

lemma ValidateRefreshToken_Inr:
  "ValidateRefreshToken env cfg now T = Inr claims \<longleftrightarrow>
     (\<exists>token. ParseUnverified env T = Inr token \<and> TokenClaims token = claims \<and>
        (\<exists>alg. Method token = SigningMethodHMAC alg) \<and>
        Verify env (Method token) T (SecretKey cfg) \<and>
        (case ExpiresAt claims of None \<Rightarrow> True | Some e \<Rightarrow> now < e) \<and>
        (case NotBefore claims of None \<Rightarrow> True | Some n \<Rightarrow> n \<le> now) \<and>
        Type claims = RefreshToken)"
proof -
  have "ValidateRefreshToken env cfg now T = Inr claims \<longleftrightarrow>
      ValidateToken env cfg now T = Inr claims \<and> Type claims = RefreshToken"
    by (auto simp: ValidateRefreshToken_def split: sum.splits)
  then show ?thesis
    by (auto simp: ValidateToken_Inr Validate_Inr)
qed

lemma usable_Validate:
  "usable env cfg now r T \<longleftrightarrow>
     (\<exists>claims. ValidateRefreshToken env cfg now T = Inr claims \<and>
        fst (redis_Get now (''refresh_token:'' @ T) r) = Inr (UserID claims))"
  unfolding usable_def ValidateRefreshToken_Inr by auto

lemma Refresh_not_usable:
  assumes "ShouldBindJSON validate_RefreshRequest decoded = Inr req"
    and "\<not> usable env cfg now r (ReqRefreshToken req)"
  shows "unauthorized (fst (RefreshToken_handler env cfg now decoded r))"
  using assms(2) unfolding Refresh_cases[OF assms(1)] usable_Validate unauthorized_def
  by (auto simp: JSON_def split: sum.splits)

lemma demo_usable:
  "usable demo_env demo_cfg 5 demo_store_alice_in ''R.alice''"
  "\<not> usable demo_env demo_cfg 5 demo_store ''R.alice''"
  by (simp_all add: usable_Validate demo_Validate_refresh redis_defs demo_store_alice_in_def
      demo_store_def demo_claims_def)

text \<open>
  Claim C1 (refresh). Take a request that presents a refresh token \<open>T\<close> (the body binds,
  so \<open>T\<close> is not empty). Call \<open>T\<close> usable when (a) \<open>T\<close> decodes, its method is of the HMAC
  family, its signature verifies under the configured key, it is not expired and not
  before its not-before date, and its kind is refresh, (b) the ledger answers with an
  entry for the key made of \<open>T\<close> itself, and (c) the identity in that entry is the subject
  of \<open>T\<close>. If the issuer does not fail to sign an access token for the subject that \<open>T\<close>
  decodes to, then \<open>RefreshToken\<close> answers 200 with a new access token if and only if
  \<open>T\<close> is usable. With no assumption on the issuer: an answer 200 with an access token
  means that \<open>T\<close> is usable and that the token is the one that \<open>GenerateAccessToken\<close> issues
  for the subject of \<open>T\<close>; and if \<open>T\<close> is not usable the answer is unauthorized (status
  401, no access token in the body) and the store is unchanged. In particular the
  answer is unauthorized when \<open>T\<close> does not decode, when its method is not of the HMAC
  family, when its signature does not verify under the configured key, when it is
  expired, when it is of another kind than refresh (an access token, for one), when the
  ledger answers with no entry, and when the entry names another identity than the
  subject. When the call to the store does not fail, (b) and (c) say that the store
  holds an unexpired entry under the key of \<open>T\<close> whose value is the subject.
\<close>

theorem refresh_iff_usable:
  assumes "ShouldBindJSON validate_RefreshRequest decoded = Inr req"
  shows "((\<forall>token. ParseUnverified env (ReqRefreshToken req) = Inr token \<longrightarrow>
             (\<exists>t. GenerateAccessToken env cfg now (UserID (TokenClaims token)) = Inr t)) \<longrightarrow>
          ((\<exists>t. fst (RefreshToken_handler env cfg now decoded r) =
                  JSON StatusOK [(''access_token'', JString t),
                                 (''expires_in'', JNumber (15 * 60))]) \<longleftrightarrow>
           usable env cfg now r (ReqRefreshToken req))) \<and>
         (fst (RefreshToken_handler env cfg now decoded r) =
             JSON StatusOK [(''access_token'', JString accessToken),
                            (''expires_in'', JNumber (15 * 60))] \<longrightarrow>
          usable env cfg now r (ReqRefreshToken req) \<and>
          (\<exists>token. ParseUnverified env (ReqRefreshToken req) = Inr token \<and>
             GenerateAccessToken env cfg now (UserID (TokenClaims token)) = Inr accessToken)) \<and>
         (\<not> usable env cfg now r (ReqRefreshToken req) \<longrightarrow>
            unauthorized (fst (RefreshToken_handler env cfg now decoded r)) \<and>
            kv (snd (RefreshToken_handler env cfg now decoded r)) = kv r) \<and>
         (\<not> fst (roundtrip r) \<longrightarrow>
            (usable env cfg now r (ReqRefreshToken req) \<longleftrightarrow>
               (\<exists>token.
                  ParseUnverified env (ReqRefreshToken req) = Inr token \<and>
                  (\<exists>alg. Method token = SigningMethodHMAC alg) \<and>
                  Verify env (Method token) (ReqRefreshToken req) (SecretKey cfg) \<and>
                  (case ExpiresAt (TokenClaims token) of None \<Rightarrow> True | Some e \<Rightarrow> now < e) \<and>
                  (case NotBefore (TokenClaims token) of None \<Rightarrow> True | Some n \<Rightarrow> n \<le> now) \<and>
                  Type (TokenClaims token) = RefreshToken \<and>
                  live r now (''refresh_token:'' @ ReqRefreshToken req) =
                    Some (UserID (TokenClaims token))))) \<and>
         (ParseUnverified env (ReqRefreshToken req) = Inl err \<longrightarrow>
            unauthorized (fst (RefreshToken_handler env cfg now decoded r))) \<and>
         (ParseUnverified env (ReqRefreshToken req) = Inr token \<and>
          Method token = SigningMethodOther alg \<longrightarrow>
            unauthorized (fst (RefreshToken_handler env cfg now decoded r))) \<and>
         (ParseUnverified env (ReqRefreshToken req) = Inr token \<and>
          \<not> Verify env (Method token) (ReqRefreshToken req) (SecretKey cfg) \<longrightarrow>
            unauthorized (fst (RefreshToken_handler env cfg now decoded r))) \<and>
         (ParseUnverified env (ReqRefreshToken req) = Inr token \<and>
          ExpiresAt (TokenClaims token) = Some e \<and> e \<le> now \<longrightarrow>
            unauthorized (fst (RefreshToken_handler env cfg now decoded r))) \<and>
         (ParseUnverified env (ReqRefreshToken req) = Inr token \<and>
          Type (TokenClaims token) \<noteq> RefreshToken \<longrightarrow>
            unauthorized (fst (RefreshToken_handler env cfg now decoded r))) \<and>
         (fst (redis_Get now (''refresh_token:'' @ ReqRefreshToken req) r) = Inl err \<longrightarrow>
            unauthorized (fst (RefreshToken_handler env cfg now decoded r))) \<and>
         (ParseUnverified env (ReqRefreshToken req) = Inr token \<and>
          fst (redis_Get now (''refresh_token:'' @ ReqRefreshToken req) r) = Inr userID \<and>
          userID \<noteq> UserID (TokenClaims token) \<longrightarrow>
            unauthorized (fst (RefreshToken_handler env cfg now decoded r)))"
proof -
  let ?T = "ReqRefreshToken req"
  let ?R = "RefreshToken_handler env cfg now decoded r"
  note no = Refresh_not_usable[OF assms]
  have ok: "usable env cfg now r ?T \<and>
      (\<exists>token. ParseUnverified env ?T = Inr token \<and>
         GenerateAccessToken env cfg now (UserID (TokenClaims token)) = Inr t)"
    if "fst ?R = JSON StatusOK [(''access_token'', JString t),
                                (''expires_in'', JNumber (15 * 60))]" for t
  proof -
    from that have "\<exists>claims. ValidateRefreshToken env cfg now ?T = Inr claims \<and>
        fst (redis_Get now (''refresh_token:'' @ ?T) r) = Inr (UserID claims) \<and>
        GenerateAccessToken env cfg now (UserID claims) = Inr t"
      unfolding Refresh_cases[OF assms]
      by (auto simp: JSON_def split: sum.splits if_splits)
    then show ?thesis
      unfolding usable_Validate by (auto simp: ValidateRefreshToken_Inr)
  qed
  have c1: "(\<exists>t. fst ?R = JSON StatusOK [(''access_token'', JString t),
                                         (''expires_in'', JNumber (15 * 60))]) \<longleftrightarrow>
            usable env cfg now r ?T"
    if i: "\<forall>token. ParseUnverified env ?T = Inr token \<longrightarrow>
             (\<exists>t. GenerateAccessToken env cfg now (UserID (TokenClaims token)) = Inr t)"
  proof
    assume "\<exists>t. fst ?R = JSON StatusOK [(''access_token'', JString t),
                                        (''expires_in'', JNumber (15 * 60))]"
    with ok show "usable env cfg now r ?T" by blast
  next
    assume "usable env cfg now r ?T"
    then obtain claims where v: "ValidateRefreshToken env cfg now ?T = Inr claims"
      and g: "fst (redis_Get now (''refresh_token:'' @ ?T) r) = Inr (UserID claims)"
      unfolding usable_Validate by blast
    from v i obtain t where "GenerateAccessToken env cfg now (UserID claims) = Inr t"
      by (auto simp: ValidateRefreshToken_Inr)
    with v g show "\<exists>t. fst ?R = JSON StatusOK [(''access_token'', JString t),
                                               (''expires_in'', JNumber (15 * 60))]"
      unfolding Refresh_cases[OF assms] by auto
  qed
  have c4: "usable env cfg now r ?T \<longleftrightarrow>
      (\<exists>token.
         ParseUnverified env ?T = Inr token \<and>
         (\<exists>alg. Method token = SigningMethodHMAC alg) \<and>
         Verify env (Method token) ?T (SecretKey cfg) \<and>
         (case ExpiresAt (TokenClaims token) of None \<Rightarrow> True | Some e \<Rightarrow> now < e) \<and>
         (case NotBefore (TokenClaims token) of None \<Rightarrow> True | Some n \<Rightarrow> n \<le> now) \<and>
         Type (TokenClaims token) = RefreshToken \<and>
         live r now (''refresh_token:'' @ ?T) = Some (UserID (TokenClaims token)))"
    if "\<not> fst (roundtrip r)"
    using that by (simp add: usable_def redis_Get_Inr)
  have c5: "unauthorized (fst ?R)" if "ParseUnverified env ?T = Inl err"
    using that by (intro no) (simp add: usable_def)
  have c6: "unauthorized (fst ?R)"
    if "ParseUnverified env ?T = Inr token \<and> Method token = SigningMethodOther alg"
    using that by (intro no) (auto simp: usable_def)
  have c7: "unauthorized (fst ?R)"
    if "ParseUnverified env ?T = Inr token \<and> \<not> Verify env (Method token) ?T (SecretKey cfg)"
    using that by (intro no) (auto simp: usable_def)
  have c8: "unauthorized (fst ?R)"
    if "ParseUnverified env ?T = Inr token \<and> ExpiresAt (TokenClaims token) = Some e \<and> e \<le> now"
    using that by (intro no) (auto simp: usable_def)
  have c9: "unauthorized (fst ?R)"
    if "ParseUnverified env ?T = Inr token \<and> Type (TokenClaims token) \<noteq> RefreshToken"
    using that by (intro no) (auto simp: usable_def)
  have c10: "unauthorized (fst ?R)"
    if "fst (redis_Get now (''refresh_token:'' @ ?T) r) = Inl err"
    using that by (intro no) (auto simp: usable_def)
  have c11: "unauthorized (fst ?R)"
    if "ParseUnverified env ?T = Inr token \<and>
        fst (redis_Get now (''refresh_token:'' @ ?T) r) = Inr userID \<and>
        userID \<noteq> UserID (TokenClaims token)"
    using that by (intro no) (auto simp: usable_def)
  show ?thesis
    apply (intro conjI)
    subgoal using c1 by (rule impI)
    subgoal using ok by (rule impI)
    subgoal using no Refresh_kv[of env cfg now decoded r] by (intro impI conjI)
    subgoal using c4 by (rule impI)
    subgoal using c5 by (rule impI)
    subgoal using c6 by (rule impI)
    subgoal using c7 by (rule impI)
    subgoal using c8 by (rule impI)
    subgoal using c9 by (rule impI)
    subgoal using c10 by (rule impI)
    subgoal using c11 by (rule impI)
    done
qed

lemma demo_bind:
  "T \<noteq> [] \<Longrightarrow> ShouldBindJSON validate_RefreshRequest (Inr \<lparr>ReqRefreshToken = T\<rparr>) =
     Inr \<lparr>ReqRefreshToken = T\<rparr>"
  by (simp add: ShouldBindJSON_def validate_RefreshRequest_def)

theorem refresh_iff_usable_witness:
  "ShouldBindJSON validate_RefreshRequest (Inr \<lparr>ReqRefreshToken = ''R.alice''\<rparr>) =
     Inr \<lparr>ReqRefreshToken = ''R.alice''\<rparr> \<and>
   ParseUnverified demo_env ''R.alice'' =
     Inr \<lparr>Method = SigningMethodHS256,
          TokenClaims = demo_claims ''alice'' ''refresh'' 604800000000000, Valid = False\<rparr> \<and>
   GenerateAccessToken demo_env demo_cfg 5
     (UserID (demo_claims ''alice'' ''refresh'' 604800000000000)) = Inr ''A.alice'' \<and>
   usable demo_env demo_cfg 5 demo_store_alice_in ''R.alice'' \<and>
   fst (RefreshToken_handler demo_env demo_cfg 5 (Inr \<lparr>ReqRefreshToken = ''R.alice''\<rparr>)
          demo_store_alice_in) =
     JSON StatusOK [(''access_token'', JString ''A.alice''), (''expires_in'', JNumber (15 * 60))] \<and>
   \<not> usable demo_env demo_cfg 5 demo_store ''R.alice'' \<and>
   unauthorized (fst (RefreshToken_handler demo_env demo_cfg 5
                        (Inr \<lparr>ReqRefreshToken = ''R.alice''\<rparr>) demo_store)) \<and>
   kv (snd (RefreshToken_handler demo_env demo_cfg 5 (Inr \<lparr>ReqRefreshToken = ''R.alice''\<rparr>)
                  demo_store)) = kv demo_store \<and>
   \<not> fst (roundtrip demo_store_alice_in) \<and>
   live demo_store_alice_in 5 ''refresh_token:R.alice'' = Some ''alice'' \<and>
   ParseUnverified demo_env ''zzz'' = Inl (Error ''token is malformed'') \<and>
   unauthorized (fst (RefreshToken_handler demo_env demo_cfg 5
                        (Inr \<lparr>ReqRefreshToken = ''zzz''\<rparr>) demo_store_alice_in)) \<and>
   \<not> Verify demo_env SigningMethodHS256 ''F.alice'' (SecretKey demo_cfg) \<and>
   unauthorized (fst (RefreshToken_handler demo_env demo_cfg 5
                        (Inr \<lparr>ReqRefreshToken = ''F.alice''\<rparr>) demo_store_alice_in)) \<and>
   ExpiresAt (demo_claims ''alice'' ''refresh'' 604800000000000) = Some 604800000000000 \<and>
   unauthorized (fst (RefreshToken_handler demo_env demo_cfg 604800000000000
                        (Inr \<lparr>ReqRefreshToken = ''R.alice''\<rparr>) demo_store_alice_in)) \<and>
   Type (demo_claims ''alice'' ''access'' 900000000000) \<noteq> RefreshToken \<and>
   unauthorized (fst (RefreshToken_handler demo_env demo_cfg 5
                        (Inr \<lparr>ReqRefreshToken = ''A.alice''\<rparr>) demo_store_alice_in)) \<and>
   fst (redis_Get 5 ''refresh_token:R.alice'' demo_store) = Inl RedisNil \<and>
   fst (redis_Get 5 ''refresh_token:R.alice''
          (demo_store\<lparr>kv := (kv demo_store)(''refresh_token:R.alice'' \<mapsto>
             \<lparr>val = ''bob'', expire_at = None\<rparr>)\<rparr>)) = Inr ''bob'' \<and>
   ''bob'' \<noteq> UserID (demo_claims ''alice'' ''refresh'' 604800000000000) \<and>
   unauthorized (fst (RefreshToken_handler demo_env demo_cfg 5
      (Inr \<lparr>ReqRefreshToken = ''R.alice''\<rparr>)
      (demo_store\<lparr>kv := (kv demo_store)(''refresh_token:R.alice'' \<mapsto>
         \<lparr>val = ''bob'', expire_at = None\<rparr>)\<rparr>))) \<and>
   unauthorized (fst (RefreshToken_handler
      (demo_env\<lparr>ParseUnverified := \<lambda>t. Inr \<lparr>Method = SigningMethodOther ''none'',
         TokenClaims = demo_claims ''alice'' ''refresh'' 604800000000000, Valid = False\<rparr>\<rparr>)
      demo_cfg 5 (Inr \<lparr>ReqRefreshToken = ''R.alice''\<rparr>) demo_store_alice_in))"
proof -
  let ?q = "\<lparr>ReqRefreshToken = ''R.alice''\<rparr>"
  let ?bob = "demo_store\<lparr>kv := (kv demo_store)(''refresh_token:R.alice'' \<mapsto>
      \<lparr>val = ''bob'', expire_at = None\<rparr>)\<rparr>"
  let ?none = "\<lparr>Method = SigningMethodOther ''none'',
      TokenClaims = demo_claims ''alice'' ''refresh'' 604800000000000, Valid = False\<rparr>"
  let ?tok = "\<lparr>Method = SigningMethodHS256,
      TokenClaims = demo_claims ''alice'' ''refresh'' 604800000000000, Valid = False\<rparr>"
  let ?acc = "\<lparr>Method = SigningMethodHS256,
      TokenClaims = demo_claims ''alice'' ''access'' 900000000000, Valid = False\<rparr>"
  have b: "ShouldBindJSON validate_RefreshRequest (Inr ?q) = Inr ?q"
    by (simp add: demo_bind)
  have i: "\<forall>token. ParseUnverified demo_env ''R.alice'' = Inr token \<longrightarrow>
      (\<exists>t. GenerateAccessToken demo_env demo_cfg 5 (UserID (TokenClaims token)) = Inr t)"
    using demo_access_at_5 by (auto simp: demo_Parse_refresh demo_claims_def)
  have u: "usable demo_env demo_cfg 5 demo_store_alice_in ''R.alice''"
    by (rule demo_usable(1))
  have "\<exists>t. fst (RefreshToken_handler demo_env demo_cfg 5 (Inr ?q) demo_store_alice_in) =
      JSON StatusOK [(''access_token'', JString t), (''expires_in'', JNumber (15 * 60))]"
    using refresh_iff_usable[OF b, where env = demo_env and cfg = demo_cfg and now = 5
        and r = demo_store_alice_in, THEN conjunct1] i u by simp
  then obtain t where
    ok: "fst (RefreshToken_handler demo_env demo_cfg 5 (Inr ?q) demo_store_alice_in) =
      JSON StatusOK [(''access_token'', JString t), (''expires_in'', JNumber (15 * 60))]"
    by blast
  have "\<exists>token. ParseUnverified demo_env ''R.alice'' = Inr token \<and>
      GenerateAccessToken demo_env demo_cfg 5 (UserID (TokenClaims token)) = Inr t"
    using refresh_iff_usable[OF b, where env = demo_env and cfg = demo_cfg and now = 5
        and r = demo_store_alice_in and accessToken = t,
        THEN conjunct2, THEN conjunct1, THEN mp, OF ok] by simp
  then have "t = ''A.alice''"
    using demo_access_at_5 by (auto simp: demo_Parse_refresh demo_claims_def)
  with ok have ok': "fst (RefreshToken_handler demo_env demo_cfg 5 (Inr ?q) demo_store_alice_in) =
      JSON StatusOK [(''access_token'', JString ''A.alice''), (''expires_in'', JNumber (15 * 60))]"
    by simp
  have nu: "\<not> usable demo_env demo_cfg 5 demo_store ''R.alice''"
    by (rule demo_usable(2))
  have no: "unauthorized (fst (RefreshToken_handler demo_env demo_cfg 5 (Inr ?q) demo_store)) \<and>
      kv (snd (RefreshToken_handler demo_env demo_cfg 5 (Inr ?q) demo_store)) = kv demo_store"
    using refresh_iff_usable[OF b, where env = demo_env and cfg = demo_cfg and now = 5
        and r = demo_store, THEN conjunct2, THEN conjunct2, THEN conjunct1] nu by simp
  have rt: "\<not> fst (roundtrip demo_store_alice_in)"
    by (simp add: roundtrip_def demo_store_alice_in_def demo_store_def)
  have "\<exists>token. ParseUnverified demo_env ''R.alice'' = Inr token \<and>
      live demo_store_alice_in 5 ''refresh_token:R.alice'' = Some (UserID (TokenClaims token))"
    using refresh_iff_usable[OF b, where env = demo_env and cfg = demo_cfg and now = 5
        and r = demo_store_alice_in,
        THEN conjunct2, THEN conjunct2, THEN conjunct2, THEN conjunct1, THEN mp, OF rt] u
    by auto
  then have lv: "live demo_store_alice_in 5 ''refresh_token:R.alice'' = Some ''alice''"
    by (auto simp: demo_Parse_refresh demo_claims_def)
  have pz: "ParseUnverified demo_env ''zzz'' = Inl (Error ''token is malformed'')"
    by (simp add: demo_env_def demo_ParseUnverified_def demo_tokens_def)
  have z: "unauthorized (fst (RefreshToken_handler demo_env demo_cfg 5
      (Inr \<lparr>ReqRefreshToken = ''zzz''\<rparr>) demo_store_alice_in))"
    by (rule refresh_iff_usable[OF demo_bind, where env = demo_env
          and err = "Error ''token is malformed''",
          THEN conjunct2, THEN conjunct2, THEN conjunct2, THEN conjunct2, THEN conjunct1,
          THEN mp]) (simp_all add: pz)
  have f: "unauthorized (fst (RefreshToken_handler demo_env demo_cfg 5
      (Inr \<lparr>ReqRefreshToken = ''F.alice''\<rparr>) demo_store_alice_in))"
    by (rule refresh_iff_usable[OF demo_bind, where env = demo_env and token = ?acc,
          THEN conjunct2, THEN conjunct2, THEN conjunct2, THEN conjunct2, THEN conjunct2,
          THEN conjunct2, THEN conjunct1, THEN mp])
      (simp_all add: demo_Parse_forged demo_Verify_forged)
  have x: "ExpiresAt (demo_claims ''alice'' ''refresh'' 604800000000000) = Some 604800000000000"
    by (simp add: demo_claims_def)
  have e: "unauthorized (fst (RefreshToken_handler demo_env demo_cfg 604800000000000
      (Inr ?q) demo_store_alice_in))"
    by (rule refresh_iff_usable[OF demo_bind, where env = demo_env and token = ?tok
          and e = 604800000000000,
          THEN conjunct2, THEN conjunct2, THEN conjunct2, THEN conjunct2, THEN conjunct2,
          THEN conjunct2, THEN conjunct2, THEN conjunct1, THEN mp])
      (simp_all add: demo_Parse_refresh x)
  have k: "Type (demo_claims ''alice'' ''access'' 900000000000) \<noteq> RefreshToken"
    by (simp add: demo_claims_def RefreshToken_def)
  have a: "unauthorized (fst (RefreshToken_handler demo_env demo_cfg 5
      (Inr \<lparr>ReqRefreshToken = ''A.alice''\<rparr>) demo_store_alice_in))"
    by (rule refresh_iff_usable[OF demo_bind, where env = demo_env and token = ?acc,
          THEN conjunct2, THEN conjunct2, THEN conjunct2, THEN conjunct2, THEN conjunct2,
          THEN conjunct2, THEN conjunct2, THEN conjunct2, THEN conjunct1, THEN mp])
      (simp_all add: demo_Parse_access k)
  have g: "fst (redis_Get 5 ''refresh_token:R.alice'' demo_store) = Inl RedisNil"
    by (simp add: redis_defs demo_store_def)
  have gb: "fst (redis_Get 5 ''refresh_token:R.alice'' ?bob) = Inr ''bob''"
    by (simp add: redis_defs demo_store_def)
  have nb: "''bob'' \<noteq> UserID (demo_claims ''alice'' ''refresh'' 604800000000000)"
    by (simp add: demo_claims_def)
  have m: "unauthorized (fst (RefreshToken_handler demo_env demo_cfg 5 (Inr ?q) ?bob))"
    by (rule refresh_iff_usable[OF demo_bind, where env = demo_env and token = ?tok
          and userID = "''bob''",
          THEN conjunct2, THEN conjunct2, THEN conjunct2, THEN conjunct2, THEN conjunct2,
          THEN conjunct2, THEN conjunct2, THEN conjunct2, THEN conjunct2, THEN conjunct2,
          THEN mp])
      (simp_all add: demo_Parse_refresh gb nb)
  have n: "unauthorized (fst (RefreshToken_handler
      (demo_env\<lparr>ParseUnverified := \<lambda>t. Inr ?none\<rparr>) demo_cfg 5 (Inr ?q) demo_store_alice_in))"
    by (rule refresh_iff_usable[OF demo_bind, where token = ?none and alg = "''none''",
          THEN conjunct2, THEN conjunct2, THEN conjunct2, THEN conjunct2, THEN conjunct2,
          THEN conjunct1, THEN mp])
      simp_all
  have ga: "GenerateAccessToken demo_env demo_cfg 5
      (UserID (demo_claims ''alice'' ''refresh'' 604800000000000)) = Inr ''A.alice''"
    using demo_access_at_5 by (simp add: demo_claims_def)
  from b demo_Parse_refresh ga u ok' nu no rt lv pz z demo_Verify_forged f x e k a g gb nb m n
  show ?thesis by (intro conjI) simp_all
qed

section \<open>The current user\<close>

lemma rejected_Inl: "rejected env cfg now h \<Longrightarrow> \<exists>resp. AuthRequired env cfg now h = Inl resp \<and> status resp = StatusUnauthorized"
  by (auto simp: rejected_def)

lemma UserJSON_members:
  "map_of (UserJSON user) ''id'' = Some (JString (ID user))"
  "map_of (UserJSON user) ''username'' = Some (JString (Username user))"
  "map_of (UserJSON user) ''email'' = Some (JString (Email user))"
  "map_of (UserJSON user) ''created_at'' = Some (JTime (CreatedAt user))"
  "map_of (UserJSON user) ''updated_at'' = Some (JTime (UpdatedAt user))"
  by (simp_all add: UserJSON_def)

lemma demo_Auth_alice:
  "AuthRequired demo_env demo_cfg 5 ''Bearer A.alice'' = Inr (Map.empty(''userID'' \<mapsto> ''alice''))"
  using demo_Parse_access
  by (simp add: AuthRequired_def ValidateAccessToken_def ValidateToken_def ParseWithClaims_def
      keyFunc_def SigningMethodHS256_def demo_claims_def Validate_def AccessToken_def
      demo_env_def demo_Verify_def demo_tokens_def demo_cfg_def GetConfig_def demo_getenv_def)

lemma demo_GetByID_alice: "GetByID demo_env 5 ''alice'' demo_store = (Inr demo_alice, demo_store)"
  by (simp add: GetByID_def redis_defs demo_store_def demo_env_def demo_Unmarshal_def demo_users_def)

lemma demo_GetByID_down:
  "GetByID demo_env 5 ''alice'' (demo_store\<lparr>faults := [True]\<rparr>) =
     (Inl (Wrap ''failed to get user'' RedisDown), demo_store)"
  by (simp add: GetByID_def redis_defs demo_store_def)

lemma demo_GetByID_absent:
  "GetByID demo_env 5 ''alice'' demo_empty = (Inl (Error ''user not found''), demo_empty)"
  by (simp add: GetByID_def redis_defs demo_empty_def)

text \<open>
  The claim that every failure of \<open>GET /me\<close> is a 401 and that the password never
  appears does not hold of the code. With a valid access token of \<open>alice\<close>, the answer
  is 500 when the call to the store fails and when the store has no record of her; and
  when the store has her record, with the password hash \<open>h:secret1\<close> as \<open>Register\<close>
  stored it, the 200 response has the member \<open>password\<close> with that hash: the tag
  \<open>omitempty\<close> leaves the member out only when the string is empty.
\<close>

theorem me_counterexample:
  "fst (serve demo_env demo_cfg 5 (GetMe ''Bearer A.alice'') (demo_store\<lparr>faults := [True]\<rparr>)) =
     JSON StatusInternalServerError [(''error'', JString ''failed to get user'')] \<and>
   fst (serve demo_env demo_cfg 5 (GetMe ''Bearer A.alice'') demo_empty) =
     JSON StatusInternalServerError [(''error'', JString ''failed to get user'')] \<and>
   live demo_store 5 ''user:alice'' = Some ''{alice}'' \<and>
   Unmarshal demo_env ''{alice}'' = Inr demo_alice \<and>
   Password demo_alice = ''h:secret1'' \<and>
   status (fst (serve demo_env demo_cfg 5 (GetMe ''Bearer A.alice'') demo_store)) = StatusOK \<and>
   map_of (body (fst (serve demo_env demo_cfg 5 (GetMe ''Bearer A.alice'') demo_store))) ''password'' =
     Some (JString ''h:secret1'')"
  using demo_Auth_alice demo_GetByID_alice demo_GetByID_down demo_GetByID_absent
  by (simp add: serve_def protected_def Me_def JSON_def UserJSON_def demo_alice_def
      live_def demo_store_def demo_env_def demo_Unmarshal_def demo_users_def)

text \<open>
  Claim C2, as amended (the outcomes of \<open>GET /me\<close>). A request that the middleware
  rejects gets 401 and changes nothing. A request that authenticates and whose user
  lookup succeeds gets 200, with the id, the username, the email and the two timestamps
  of the record found, and the contents of the store are unchanged. A request that
  authenticates and whose user lookup fails (no record, an undecodable record, or a
  failure of the store) gets 500 with the message \<open>failed to get user\<close>.
\<close>

theorem me_outcomes:
  "(rejected env cfg now authHeader \<longrightarrow>
      status (fst (serve env cfg now (GetMe authHeader) r)) = StatusUnauthorized \<and>
      snd (serve env cfg now (GetMe authHeader) r) = r) \<and>
   (AuthRequired env cfg now authHeader = Inr c \<and> c ''userID'' = Some userID \<and>
    GetByID env now userID r = (Inr user, r1) \<longrightarrow>
      status (fst (serve env cfg now (GetMe authHeader) r)) = StatusOK \<and>
      map_of (body (fst (serve env cfg now (GetMe authHeader) r))) ''id'' =
        Some (JString (ID user)) \<and>
      map_of (body (fst (serve env cfg now (GetMe authHeader) r))) ''username'' =
        Some (JString (Username user)) \<and>
      map_of (body (fst (serve env cfg now (GetMe authHeader) r))) ''email'' =
        Some (JString (Email user)) \<and>
      map_of (body (fst (serve env cfg now (GetMe authHeader) r))) ''created_at'' =
        Some (JTime (CreatedAt user)) \<and>
      map_of (body (fst (serve env cfg now (GetMe authHeader) r))) ''updated_at'' =
        Some (JTime (UpdatedAt user)) \<and>
      kv (snd (serve env cfg now (GetMe authHeader) r)) = kv r) \<and>
   (AuthRequired env cfg now authHeader = Inr c \<and> c ''userID'' = Some userID \<and>
    GetByID env now userID r = (Inl err, r1) \<longrightarrow>
      serve env cfg now (GetMe authHeader) r =
        (JSON StatusInternalServerError [(''error'', JString ''failed to get user'')], r1))"
proof (intro conjI impI)
  assume "rejected env cfg now authHeader"
  then show "status (fst (serve env cfg now (GetMe authHeader) r)) = StatusUnauthorized"
    and "snd (serve env cfg now (GetMe authHeader) r) = r"
    by (auto simp: rejected_def serve_def)
next
  assume a: "AuthRequired env cfg now authHeader = Inr c \<and> c ''userID'' = Some userID \<and>
    GetByID env now userID r = (Inr user, r1)"
  then have s: "serve env cfg now (GetMe authHeader) r = (JSON StatusOK (UserJSON user), r1)"
    by (simp add: serve_def protected_def Me_def)
  from a have k: "kv r1 = kv r" by (auto dest: GetByID_kv)
  from s show "status (fst (serve env cfg now (GetMe authHeader) r)) = StatusOK"
    by (simp add: JSON_def)
  from s show "map_of (body (fst (serve env cfg now (GetMe authHeader) r))) ''id'' =
        Some (JString (ID user))"
    by (simp add: JSON_def UserJSON_members)
  from s show "map_of (body (fst (serve env cfg now (GetMe authHeader) r))) ''username'' =
        Some (JString (Username user))"
    by (simp add: JSON_def UserJSON_members)
  from s show "map_of (body (fst (serve env cfg now (GetMe authHeader) r))) ''email'' =
        Some (JString (Email user))"
    by (simp add: JSON_def UserJSON_members)
  from s show "map_of (body (fst (serve env cfg now (GetMe authHeader) r))) ''created_at'' =
        Some (JTime (CreatedAt user))"
    by (simp add: JSON_def UserJSON_members)
  from s show "map_of (body (fst (serve env cfg now (GetMe authHeader) r))) ''updated_at'' =
        Some (JTime (UpdatedAt user))"
    by (simp add: JSON_def UserJSON_members)
  from s k show "kv (snd (serve env cfg now (GetMe authHeader) r)) = kv r" by simp
next
  assume "AuthRequired env cfg now authHeader = Inr c \<and> c ''userID'' = Some userID \<and>
    GetByID env now userID r = (Inl err, r1)"
  then show "serve env cfg now (GetMe authHeader) r =
        (JSON StatusInternalServerError [(''error'', JString ''failed to get user'')], r1)"
    by (simp add: serve_def protected_def Me_def)
qed

theorem me_outcomes_witness:
  "rejected demo_env demo_cfg 5 [] \<and>
   status (fst (serve demo_env demo_cfg 5 (GetMe []) demo_store)) = StatusUnauthorized \<and>
   AuthRequired demo_env demo_cfg 5 ''Bearer A.alice'' = Inr (Map.empty(''userID'' \<mapsto> ''alice'')) \<and>
   GetByID demo_env 5 ''alice'' demo_store = (Inr demo_alice, demo_store) \<and>
   status (fst (serve demo_env demo_cfg 5 (GetMe ''Bearer A.alice'') demo_store)) = StatusOK \<and>
   map_of (body (fst (serve demo_env demo_cfg 5 (GetMe ''Bearer A.alice'') demo_store))) ''id'' =
     Some (JString ''alice'') \<and>
   GetByID demo_env 5 ''alice'' demo_empty = (Inl (Error ''user not found''), demo_empty) \<and>
   serve demo_env demo_cfg 5 (GetMe ''Bearer A.alice'') demo_empty =
     (JSON StatusInternalServerError [(''error'', JString ''failed to get user'')], demo_empty)"
proof -
  have rj: "rejected demo_env demo_cfg 5 []"
    by (rule AuthRequired_Inl_rejected) (simp add: AuthRequired_def)
  have u: "(Map.empty(''userID'' \<mapsto> ''alice'')) ''userID'' = Some ''alice''" by simp
  note t = me_outcomes[where env = demo_env and cfg = demo_cfg and now = 5]
  have w1: "status (fst (serve demo_env demo_cfg 5 (GetMe []) demo_store)) = StatusUnauthorized"
    using t[where authHeader = "[]" and r = demo_store, THEN conjunct1] rj by simp
  have w2: "status (fst (serve demo_env demo_cfg 5 (GetMe ''Bearer A.alice'') demo_store)) = StatusOK \<and>
     map_of (body (fst (serve demo_env demo_cfg 5 (GetMe ''Bearer A.alice'') demo_store))) ''id'' =
       Some (JString ''alice'')"
    using t[where authHeader = "''Bearer A.alice''" and r = demo_store
        and c = "Map.empty(''userID'' \<mapsto> ''alice'')" and userID = "''alice''"
        and user = demo_alice and ?r1.0 = demo_store, THEN conjunct2, THEN conjunct1]
      demo_Auth_alice demo_GetByID_alice u
    by (simp add: demo_alice_def)
  have w3: "serve demo_env demo_cfg 5 (GetMe ''Bearer A.alice'') demo_empty =
     (JSON StatusInternalServerError [(''error'', JString ''failed to get user'')], demo_empty)"
    using t[where authHeader = "''Bearer A.alice''" and r = demo_empty
        and c = "Map.empty(''userID'' \<mapsto> ''alice'')" and userID = "''alice''"
        and err = "Error ''user not found''" and ?r1.0 = demo_empty, THEN conjunct2, THEN conjunct2]
      demo_Auth_alice demo_GetByID_absent u
    by simp
  from rj w1 demo_Auth_alice demo_GetByID_alice w2 demo_GetByID_absent w3 show ?thesis
    by (intro conjI) (assumption | erule conjunct1 | erule conjunct2)+
qed

section \<open>The store under a sequence of requests\<close>

lemma live_cong: "kv r' k = kv r k \<Longrightarrow> live r' now k = live r now k"
  by (simp add: live_def)

lemma redis_Set_kv:
  assumes "redis_Set now k v ttl r = (e, r')"
  shows "kv r' = kv r \<or>
         kv r' = (kv r)(k \<mapsto> \<lparr>val = v, expire_at = (if ttl = 0 then None else Some (now + ttl))\<rparr>)"
  using assms redis_Set_None[of now k v ttl r r'] redis_Set_Some[of now k v ttl r _ r']
  by (cases e) auto

lemma redis_Del_kv:
  assumes "redis_Del now k r = (e, r')"
  shows "kv r' = kv r \<or> kv r' = (kv r)(k := None)"
  using assms
  by (auto simp: redis_Del_def split: prod.splits bool.splits dest: roundtrip_kv)

lemma redis_Exists_zero:
  assumes "redis_Exists now k r = (Inr n, r')" and "\<not> n > 0"
  shows "live r now k = None"
proof -
  obtain f r1 where rt: "roundtrip r = (f, r1)" by (cases "roundtrip r") auto
  from roundtrip_kv[OF rt] have "live r1 now k = live r now k" by (simp add: live_def)
  with rt assms show ?thesis
    by (cases f) (auto simp: redis_Exists_def split: option.splits)
qed

lemma grows_same: "kv r' = kv r \<Longrightarrow> grows env r r'"
  by (simp add: grows_def)

lemma grows_trans:
  assumes "grows env r r1" and "grows env r1 r2"
  shows "grows env r r2"
  unfolding grows_def
proof (intro conjI allI)
  fix k
  from assms(1) have a: "kv r1 (''user:'' @ k) = kv r (''user:'' @ k) \<or>
      (\<exists>u userJSON. Marshal env u = Inr userJSON \<and> ID u = k \<and>
         kv r1 (''user:'' @ k) = Some \<lparr>val = userJSON, expire_at = None\<rparr>)"
    unfolding grows_def by blast
  from assms(2) have b: "kv r2 (''user:'' @ k) = kv r1 (''user:'' @ k) \<or>
      (\<exists>u userJSON. Marshal env u = Inr userJSON \<and> ID u = k \<and>
         kv r2 (''user:'' @ k) = Some \<lparr>val = userJSON, expire_at = None\<rparr>)"
    unfolding grows_def by blast
  from a b show "kv r2 (''user:'' @ k) = kv r (''user:'' @ k) \<or>
      (\<exists>u userJSON. Marshal env u = Inr userJSON \<and> ID u = k \<and>
         kv r2 (''user:'' @ k) = Some \<lparr>val = userJSON, expire_at = None\<rparr>)"
    by metis
next
  fix x
  from assms(1) have a: "kv r1 (''openid:'' @ x) = kv r (''openid:'' @ x) \<or>
      ((\<exists>now. live r now (''openid:'' @ x) = None) \<and>
       (\<exists>v. kv r1 (''openid:'' @ x) = Some \<lparr>val = v, expire_at = None\<rparr>))"
    unfolding grows_def by blast
  from assms(2) have b: "kv r2 (''openid:'' @ x) = kv r1 (''openid:'' @ x) \<or>
      ((\<exists>now. live r1 now (''openid:'' @ x) = None) \<and>
       (\<exists>v. kv r2 (''openid:'' @ x) = Some \<lparr>val = v, expire_at = None\<rparr>))"
    unfolding grows_def by blast
  show "kv r2 (''openid:'' @ x) = kv r (''openid:'' @ x) \<or>
      ((\<exists>now. live r now (''openid:'' @ x) = None) \<and>
       (\<exists>v. kv r2 (''openid:'' @ x) = Some \<lparr>val = v, expire_at = None\<rparr>))"
  proof (cases "kv r1 (''openid:'' @ x) = kv r (''openid:'' @ x)")
    case True
    then have "live r1 now (''openid:'' @ x) = live r now (''openid:'' @ x)" for now
      by (rule live_cong)
    with b True show ?thesis by metis
  next
    case False
    with a obtain v where l: "\<exists>now. live r now (''openid:'' @ x) = None"
      and v: "kv r1 (''openid:'' @ x) = Some \<lparr>val = v, expire_at = None\<rparr>" by blast
    from v have "live r1 now (''openid:'' @ x) = Some v" for now by (simp add: live_def)
    with b have "kv r2 (''openid:'' @ x) = kv r1 (''openid:'' @ x)" by auto
    with l v show ?thesis by auto
  qed
qed

lemma grows_Set_user:
  assumes "Marshal env u = Inr userJSON"
    and "redis_Set now (''user:'' @ ID u) userJSON 0 r = (e, r')"
  shows "grows env r r'"
proof -
  from redis_Set_kv[OF assms(2)]
  consider "kv r' = kv r"
    | "kv r' = (kv r)(''user:'' @ ID u \<mapsto> \<lparr>val = userJSON, expire_at = None\<rparr>)"
    by auto
  then show ?thesis
  proof cases
    case 1
    then show ?thesis by (rule grows_same)
  next
    case 2
    show ?thesis
      unfolding grows_def
    proof (intro conjI allI)
      fix k
      show "kv r' (''user:'' @ k) = kv r (''user:'' @ k) \<or>
        (\<exists>u userJSON. Marshal env u = Inr userJSON \<and> ID u = k \<and>
           kv r' (''user:'' @ k) = Some \<lparr>val = userJSON, expire_at = None\<rparr>)"
      proof (cases "k = ID u")
        case True
        with 2 assms(1) show ?thesis by auto
      next
        case False
        with 2 show ?thesis by simp
      qed
    next
      fix x
      from 2 show "kv r' (''openid:'' @ x) = kv r (''openid:'' @ x) \<or>
        ((\<exists>now. live r now (''openid:'' @ x) = None) \<and>
         (\<exists>v. kv r' (''openid:'' @ x) = Some \<lparr>val = v, expire_at = None\<rparr>))"
        by simp
    qed
  qed
qed

lemma grows_Set_username:
  assumes "redis_Set now (''username:'' @ n) v ttl r = (e, r')"
  shows "grows env r r'"
  using redis_Set_kv[OF assms]
  by (auto simp: grows_def)

lemma grows_Set_refresh:
  assumes "redis_Set now (''refresh_token:'' @ n) v ttl r = (e, r')"
  shows "grows env r r'"
  using redis_Set_kv[OF assms]
  by (auto simp: grows_def)

lemma grows_Del_refresh:
  assumes "redis_Del now (''refresh_token:'' @ n) r = (e, r')"
  shows "grows env r r'"
  using redis_Del_kv[OF assms]
  by (auto simp: grows_def)

lemma grows_Set_openid:
  assumes "live r now (''openid:'' @ x) = None"
    and "redis_Set now (''openid:'' @ x) v 0 r = (e, r')"
  shows "grows env r r'"
proof -
  from redis_Set_kv[OF assms(2)]
  consider "kv r' = kv r"
    | "kv r' = (kv r)(''openid:'' @ x \<mapsto> \<lparr>val = v, expire_at = None\<rparr>)"
    by auto
  then show ?thesis
  proof cases
    case 1
    then show ?thesis by (rule grows_same)
  next
    case 2
    show ?thesis
      unfolding grows_def
    proof (intro conjI allI)
      fix k
      from 2 show "kv r' (''user:'' @ k) = kv r (''user:'' @ k) \<or>
        (\<exists>u userJSON. Marshal env u = Inr userJSON \<and> ID u = k \<and>
           kv r' (''user:'' @ k) = Some \<lparr>val = userJSON, expire_at = None\<rparr>)"
        by simp
    next
      fix y
      show "kv r' (''openid:'' @ y) = kv r (''openid:'' @ y) \<or>
        ((\<exists>now. live r now (''openid:'' @ y) = None) \<and>
         (\<exists>v. kv r' (''openid:'' @ y) = Some \<lparr>val = v, expire_at = None\<rparr>))"
      proof (cases "y = x")
        case True
        with 2 assms(1) show ?thesis by auto
      next
        case False
        with 2 show ?thesis by simp
      qed
    qed
  qed
qed


lemma Create_grows:
  assumes "Create env now u r = (x, r')"
  shows "grows env r r'"
proof (cases "ID u = []")
  case True
  with assms show ?thesis by (simp add: Create_def grows_same)
next
  case False
  let ?u = "u\<lparr>CreatedAt := now, UpdatedAt := now\<rparr>"
  show ?thesis
  proof (cases "Marshal env ?u")
    case (Inl err)
    with assms False show ?thesis by (simp add: Create_def grows_same)
  next
    case (Inr js)
    obtain e1 r1 where s1: "redis_Set now (''user:'' @ ID ?u) js 0 r = (e1, r1)"
      by (cases "redis_Set now (''user:'' @ ID ?u) js 0 r") auto
    obtain e2 r2 where s2: "redis_Set now (''username:'' @ Username u) (ID u) 0 r1 = (e2, r2)"
      by (cases "redis_Set now (''username:'' @ Username u) (ID u) 0 r1") auto
    have g1: "grows env r r1" by (rule grows_Set_user[OF Inr s1])
    have g2: "grows env r1 r2" by (rule grows_Set_username[OF s2])
    from assms False Inr s1 s2 have "r' = r1 \<or> r' = r2"
      by (auto simp: Create_def Let_def split: option.splits)
    with g1 grows_trans[OF g1 g2] show ?thesis by auto
  qed
qed

lemma issueTokens_grows:
  assumes "issueTokens env cfg now user r = (resp, r')"
  shows "grows env r r'"
proof (cases "GenerateRefreshToken env cfg now (ID user)")
  case (Inl err)
  with assms show ?thesis by (auto simp: issueTokens_def grows_same split: sum.splits)
next
  case (Inr t)
  obtain e r1 where s: "redis_Set now (''refresh_token:'' @ t) (ID user) (7 * 24 * Hour) r = (e, r1)"
    by (cases "redis_Set now (''refresh_token:'' @ t) (ID user) (7 * 24 * Hour) r") auto
  from assms Inr s have "r' = r \<or> r' = r1"
    by (auto simp: issueTokens_def Let_def split: sum.splits option.splits)
  with grows_Set_refresh[OF s] show ?thesis by (auto simp: grows_same)
qed

lemma redis_Exists_Inr:
  assumes "redis_Exists now k r = (Inr n, r')"
  shows "n = (case live r now k of None \<Rightarrow> 0 | Some v \<Rightarrow> 1) \<and> kv r' = kv r"
proof -
  obtain f r1 where rt: "roundtrip r = (f, r1)" by (cases "roundtrip r") auto
  from roundtrip_kv[OF rt] have "live r1 now k = live r now k" by (simp add: live_def)
  with rt assms roundtrip_kv[OF rt] show ?thesis
    by (cases f) (auto simp: redis_Exists_def)
qed

lemma redis_Get_Inr_live:
  assumes "redis_Get now k r = (Inr v, r')"
  shows "live r now k = Some v \<and> kv r' = kv r"
  using assms redis_Get_Inr[of now k r v] redis_Get_kv[OF assms] by simp

lemma live_Some: "live r now k = Some v \<Longrightarrow> \<exists>e. kv r k = Some e \<and> val e = v"
  by (auto simp: live_def split: option.splits if_splits)

lemma GetByID_Inr:
  assumes "GetByID env now i r = (Inr u, r')"
  shows "\<exists>e. kv r (''user:'' @ i) = Some e \<and> Unmarshal env (val e) = Inr u \<and> kv r' = kv r"
proof -
  obtain g r1 where g: "redis_Get now (''user:'' @ i) r = (g, r1)"
    by (cases "redis_Get now (''user:'' @ i) r") auto
  from assms g obtain js where js: "g = Inr js" and u: "Unmarshal env js = Inr u" and r: "r' = r1"
    by (cases g) (auto simp: GetByID_def split: if_splits sum.splits)
  from redis_Get_Inr_live[OF g[unfolded js]] live_Some[of r now "''user:'' @ i" js] u r
  show ?thesis by auto
qed


lemma CreateWeChatUser_new:
  assumes "x \<noteq> []" and "redis_Exists now (''openid:'' @ x) r = (Inr n, r1)" and "\<not> n > 0"
    and "Marshal env \<lparr>ID = ''wx_'' @ x, Username = ''wx_'' @ x, Password = [], Email = [],
                       OpenID = x, CreatedAt = now, UpdatedAt = now\<rparr> = Inr js"
    and "redis_Set now (''user:'' @ ''wx_'' @ x) js 0 r1 = (e2, r2)"
    and "redis_Set now (''username:'' @ ''wx_'' @ x) (''wx_'' @ x) 0 r2 = (e3, r3)"
    and "redis_Set now (''openid:'' @ x) (''wx_'' @ x) 0 r3 = (e4, r4)"
  shows "CreateWeChatUser env now x r =
     (case e2 of Some err \<Rightarrow> (Inl (Wrap ''failed to store user'' err), r2)
      | None \<Rightarrow>
          (case e3 of Some err \<Rightarrow> (Inl (Wrap ''failed to create username index'' err), r3)
           | None \<Rightarrow>
               (case e4 of Some err \<Rightarrow> (Inl (Wrap ''failed to create OpenID index'' err), r4)
                | None \<Rightarrow>
                    (Inr \<lparr>ID = ''wx_'' @ x, Username = ''wx_'' @ x, Password = [], Email = [],
                          OpenID = x, CreatedAt = now, UpdatedAt = now\<rparr>, r4))))"
  using assms by (simp add: CreateWeChatUser_def Let_def split: option.splits)

lemma CreateWeChatUser_grows:
  assumes "CreateWeChatUser env now x r = (res, r')"
  shows "grows env r r'"
proof (cases "x = []")
  case True
  with assms show ?thesis by (simp add: CreateWeChatUser_def grows_same)
next
  case False
  obtain ex r1 where ex: "redis_Exists now (''openid:'' @ x) r = (ex, r1)"
    by (cases "redis_Exists now (''openid:'' @ x) r") auto
  from redis_Exists_kv[OF ex] have k1: "kv r1 = kv r" .
  show ?thesis
  proof (cases ex)
    case (Inl err)
    with assms False ex have "r' = r1" by (simp add: CreateWeChatUser_def)
    with k1 show ?thesis by (simp add: grows_same)
  next
    case (Inr n)
    show ?thesis
    proof (cases "n > 0")
      case True
      obtain g r2 where g: "redis_Get now (''openid:'' @ x) r1 = (g, r2)"
        by (cases "redis_Get now (''openid:'' @ x) r1") auto
      from redis_Get_kv[OF g] k1 have k2: "kv r2 = kv r" by simp
      show ?thesis
      proof (cases g)
        case (Inl err)
        with assms False ex Inr True g have "r' = r2" by (simp add: CreateWeChatUser_def)
        with k2 show ?thesis by (simp add: grows_same)
      next
        case i: (Inr i)
        with assms False ex Inr True g have "GetByID env now i r2 = (res, r')"
          by (simp add: CreateWeChatUser_def)
        from GetByID_kv[OF this] k2 show ?thesis by (simp add: grows_same)
      qed
    next
      case n0: False
      let ?u = "\<lparr>ID = ''wx_'' @ x, Username = ''wx_'' @ x, Password = [], Email = [],
                 OpenID = x, CreatedAt = now, UpdatedAt = now\<rparr>"
      show ?thesis
      proof (cases "Marshal env ?u")
        case (Inl err)
        with assms False ex Inr n0 have "r' = r1"
          by (simp add: CreateWeChatUser_def Let_def)
        with k1 show ?thesis by (simp add: grows_same)
      next
        case js: (Inr js)
        obtain e2 r2 where s2: "redis_Set now (''user:'' @ ''wx_'' @ x) js 0 r1 = (e2, r2)"
          by (cases "redis_Set now (''user:'' @ ''wx_'' @ x) js 0 r1") auto
        obtain e3 r3 where s3: "redis_Set now (''username:'' @ ''wx_'' @ x) (''wx_'' @ x) 0 r2 = (e3, r3)"
          by (cases "redis_Set now (''username:'' @ ''wx_'' @ x) (''wx_'' @ x) 0 r2") auto
        obtain e4 r4 where s4: "redis_Set now (''openid:'' @ x) (''wx_'' @ x) 0 r3 = (e4, r4)"
          by (cases "redis_Set now (''openid:'' @ x) (''wx_'' @ x) 0 r3") auto
        have g0: "grows env r r1" using k1 by (rule grows_same)
        have "ID ?u = ''wx_'' @ x" by simp
        with s2 have "redis_Set now (''user:'' @ ID ?u) js 0 r1 = (e2, r2)" by simp
        from grows_Set_user[OF js this] have g2: "grows env r1 r2" .
        have g3: "grows env r2 r3" by (rule grows_Set_username[OF s3])
        from redis_Exists_zero[OF ex[unfolded Inr] n0] have l0: "live r now (''openid:'' @ x) = None" .
        from redis_Set_kv[OF s2] redis_Set_kv[OF s3] k1
        have "kv r3 (''openid:'' @ x) = kv r (''openid:'' @ x)" by auto
        from live_cong[OF this] l0 have "live r3 now (''openid:'' @ x) = None" by simp
        from grows_Set_openid[OF this s4] have g4: "grows env r3 r4" .
        from CreateWeChatUser_new[OF False ex[unfolded Inr] n0 js s2 s3 s4] assms
        have "r' = r2 \<or> r' = r3 \<or> r' = r4"
          by (auto split: option.splits)
        with g0 g2 g3 g4 show ?thesis by (metis grows_trans)
      qed
    qed
  qed
qed

lemma CreateWeChatUser_Inr:
  assumes "store_inv env r" and "CreateWeChatUser env now x r = (Inr u, r')"
  shows "kv r' (''openid:'' @ x) = Some \<lparr>val = ID u, expire_at = None\<rparr>"
proof -
  from assms(2) have x: "x \<noteq> []" by (auto simp: CreateWeChatUser_def split: if_splits)
  obtain ex r1 where ex: "redis_Exists now (''openid:'' @ x) r = (ex, r1)"
    by (cases "redis_Exists now (''openid:'' @ x) r") auto
  from redis_Exists_kv[OF ex] have k1: "kv r1 = kv r" .
  from assms(2) x ex obtain n where n: "ex = Inr n"
    by (cases ex) (auto simp: CreateWeChatUser_def)
  show ?thesis
  proof (cases "n > 0")
    case True
    obtain g r2 where g: "redis_Get now (''openid:'' @ x) r1 = (g, r2)"
      by (cases "redis_Get now (''openid:'' @ x) r1") auto
    from assms(2) x ex n True g obtain i where i: "g = Inr i"
      and gi: "GetByID env now i r2 = (Inr u, r')"
      by (cases g) (auto simp: CreateWeChatUser_def)
    from redis_Get_Inr_live[OF g[unfolded i]] k1
    have l: "live r1 now (''openid:'' @ x) = Some i" and k2: "kv r2 = kv r" by simp_all
    from live_Some[OF l] k1 obtain e where e: "kv r (''openid:'' @ x) = Some e" "val e = i" by auto
    with assms(1) have "expire_at e = None" by (auto simp: store_inv_def)
    with e have e': "kv r (''openid:'' @ x) = Some \<lparr>val = i, expire_at = None\<rparr>" by simp
    from GetByID_Inr[OF gi] k2 obtain e2 where "kv r (''user:'' @ i) = Some e2"
      "Unmarshal env (val e2) = Inr u" "kv r' = kv r" by auto
    with assms(1) e' show ?thesis by (auto simp: store_inv_def)
  next
    case False
    let ?u = "\<lparr>ID = ''wx_'' @ x, Username = ''wx_'' @ x, Password = [], Email = [],
               OpenID = x, CreatedAt = now, UpdatedAt = now\<rparr>"
    from assms(2) x ex n False obtain js where js: "Marshal env ?u = Inr js"
      by (cases "Marshal env ?u") (auto simp: CreateWeChatUser_def Let_def)
    obtain e2 r2 where s2: "redis_Set now (''user:'' @ ''wx_'' @ x) js 0 r1 = (e2, r2)"
      by (cases "redis_Set now (''user:'' @ ''wx_'' @ x) js 0 r1") auto
    obtain e3 r3 where s3: "redis_Set now (''username:'' @ ''wx_'' @ x) (''wx_'' @ x) 0 r2 = (e3, r3)"
      by (cases "redis_Set now (''username:'' @ ''wx_'' @ x) (''wx_'' @ x) 0 r2") auto
    obtain e4 r4 where s4: "redis_Set now (''openid:'' @ x) (''wx_'' @ x) 0 r3 = (e4, r4)"
      by (cases "redis_Set now (''openid:'' @ x) (''wx_'' @ x) 0 r3") auto
    from CreateWeChatUser_new[OF x ex[unfolded n] False js s2 s3 s4] assms(2)
    have "e4 = None" "u = ?u" "r' = r4" by (auto split: option.splits)
    with redis_Set_None[of now "''openid:'' @ x" "''wx_'' @ x" 0 r3 r4] s4 show ?thesis by simp
  qed
qed

lemma CreateWeChatUser_existing:
  assumes "store_inv env r" and "kv r (''openid:'' @ x) = Some \<lparr>val = i, expire_at = None\<rparr>"
    and "CreateWeChatUser env now x r = (Inr u, r')"
  shows "ID u = i \<and> kv r' = kv r"
proof -
  from assms(3) have x: "x \<noteq> []" by (auto simp: CreateWeChatUser_def split: if_splits)
  obtain ex r1 where ex: "redis_Exists now (''openid:'' @ x) r = (ex, r1)"
    by (cases "redis_Exists now (''openid:'' @ x) r") auto
  from redis_Exists_kv[OF ex] have k1: "kv r1 = kv r" .
  from assms(3) x ex obtain n where n: "ex = Inr n"
    by (cases ex) (auto simp: CreateWeChatUser_def)
  from assms(2) have l: "live r now (''openid:'' @ x) = Some i" by (simp add: live_def)
  with redis_Exists_Inr[OF ex[unfolded n]] have pos: "n > 0" by simp
  obtain g r2 where g: "redis_Get now (''openid:'' @ x) r1 = (g, r2)"
    by (cases "redis_Get now (''openid:'' @ x) r1") auto
  from assms(3) x ex n pos g obtain j where j: "g = Inr j"
    and gi: "GetByID env now j r2 = (Inr u, r')"
    by (cases g) (auto simp: CreateWeChatUser_def)
  from redis_Get_Inr_live[OF g[unfolded j]] live_cong[of r1 "''openid:'' @ x" r now] k1 l
  have ji: "j = i" and k2: "kv r2 = kv r" by simp_all
  from GetByID_Inr[OF gi] k2 obtain e2 where "kv r (''user:'' @ j) = Some e2"
    "Unmarshal env (val e2) = Inr u" "kv r' = kv r" by auto
  with assms(1) ji show ?thesis by (auto simp: store_inv_def)
qed


lemma Register_grows: "grows env r (snd (Register env now decoded r))"
proof (cases "ShouldBindJSON (validate_RegisterRequest env) decoded")
  case (Inl err)
  then show ?thesis by (simp add: Register_def grows_same)
next
  case (Inr req)
  obtain g r1 where g: "GetByUsername env now (RegUsername req) r = (g, r1)"
    by (cases "GetByUsername env now (RegUsername req) r") auto
  from GetByUsername_kv[OF g] have g1: "grows env r r1" by (rule grows_same)
  show ?thesis
  proof (cases "GenerateFromPassword env (RegPassword req)")
    case (Inl err)
    with Inr g have "snd (Register env now decoded r) = r1"
      by (cases g) (simp_all add: Register_def)
    with g1 show ?thesis by simp
  next
    case h: (Inr h)
    let ?u = "\<lparr>ID = RegUsername req, Username = RegUsername req, Password = h,
               Email = RegEmail req, OpenID = [], CreatedAt = ZeroTime, UpdatedAt = ZeroTime\<rparr>"
    obtain c r2 where c: "Create env now ?u r1 = (c, r2)"
      by (cases "Create env now ?u r1") auto
    from Inr g h c have "snd (Register env now decoded r) = r1 \<or>
        snd (Register env now decoded r) = r2"
      by (cases g; cases c) (simp_all add: Register_def Let_def)
    with g1 grows_trans[OF g1 Create_grows[OF c]] show ?thesis by auto
  qed
qed

lemma Login_grows: "grows env r (snd (Login env cfg now decoded r))"
proof (cases "ShouldBindJSON validate_LoginRequest decoded")
  case (Inl err)
  then show ?thesis by (simp add: Login_def grows_same)
next
  case (Inr req)
  obtain g r1 where g: "GetByUsername env now (LoginUsername req) r = (g, r1)"
    by (cases "GetByUsername env now (LoginUsername req) r") auto
  from GetByUsername_kv[OF g] have g1: "grows env r r1" by (rule grows_same)
  show ?thesis
  proof (cases g)
    case (Inl err)
    with Inr g g1 show ?thesis by (simp add: Login_def)
  next
    case u: (Inr user)
    obtain resp r2 where i: "issueTokens env cfg now user r1 = (resp, r2)"
      by (cases "issueTokens env cfg now user r1") auto
    from Inr g u i have "snd (Login env cfg now decoded r) = r1 \<or>
        snd (Login env cfg now decoded r) = r2"
      by (simp add: Login_def split: option.splits)
    with g1 grows_trans[OF g1 issueTokens_grows[OF i]] show ?thesis by auto
  qed
qed

lemma WeChatLogin_grows: "grows env r (snd (WeChatLogin env cfg now decoded r))"
proof (cases "ShouldBindJSON validate_WeChatLoginRequest decoded")
  case (Inl err)
  then show ?thesis by (simp add: WeChatLogin_def grows_same)
next
  case (Inr req)
  show ?thesis
  proof (cases "Code2Session env (Code req)")
    case (Inl err)
    with Inr show ?thesis by (simp add: WeChatLogin_def grows_same)
  next
    case si: (Inr si)
    obtain g r1 where g: "CreateWeChatUser env now (SessionOpenID si) r = (g, r1)"
      by (cases "CreateWeChatUser env now (SessionOpenID si) r") auto
    note g1 = CreateWeChatUser_grows[OF g]
    show ?thesis
    proof (cases g)
      case (Inl err)
      with Inr si g g1 show ?thesis by (simp add: WeChatLogin_def)
    next
      case u: (Inr user)
      obtain resp r2 where i: "issueTokens env cfg now user r1 = (resp, r2)"
        by (cases "issueTokens env cfg now user r1") auto
      from Inr si g u i have "snd (WeChatLogin env cfg now decoded r) = r2"
        by (simp add: WeChatLogin_def)
      with grows_trans[OF g1 issueTokens_grows[OF i]] show ?thesis by simp
    qed
  qed
qed

lemma Logout_grows: "grows env r (snd (Logout now decoded r))"
proof (cases "ShouldBindJSON validate_RefreshRequest decoded")
  case (Inl err)
  then show ?thesis by (simp add: Logout_def grows_same)
next
  case (Inr req)
  obtain e r1 where d: "redis_Del now (''refresh_token:'' @ ReqRefreshToken req) r = (e, r1)"
    by (cases "redis_Del now (''refresh_token:'' @ ReqRefreshToken req) r") auto
  from Inr d have "snd (Logout now decoded r) = r1"
    by (simp add: Logout_def Let_def split: option.splits)
  with grows_Del_refresh[OF d] show ?thesis by simp
qed

lemma Me_kv: "kv (snd (Me env now c r)) = kv r"
  by (auto simp: Me_def split: option.splits prod.splits sum.splits dest: GetByID_kv)

lemma protected_kv:
  assumes "\<And>c r. kv (snd (handler c r)) = kv r"
  shows "kv (snd (protected env cfg now h handler r)) = kv r"
  using assms by (simp add: protected_def split: sum.splits)

lemma serve_grows: "grows env r (snd (serve env cfg now req r))"
proof (cases req)
  case GetHealth
  then show ?thesis by (simp add: serve_def grows_same)
next
  case (PostRegister d)
  then show ?thesis by (simp add: serve_def Register_grows)
next
  case (PostLogin d)
  then show ?thesis by (simp add: serve_def Login_grows)
next
  case (PostRefresh d)
  then show ?thesis by (simp add: serve_def grows_same Refresh_kv)
next
  case (PostLogout d)
  then show ?thesis by (simp add: serve_def Logout_grows)
next
  case (PostWeChatLogin d)
  then show ?thesis by (simp add: serve_def WeChatLogin_grows)
next
  case (GetMe h)
  then show ?thesis by (simp add: serve_def grows_same protected_kv Me_kv)
next
  case (GetApiProtected h)
  then show ?thesis by (simp add: serve_def grows_same protected_kv apiProtected_def)
next
  case (GetProxied p h)
  then show ?thesis by (simp add: serve_def grows_same protected_kv)
qed

lemma run_grows: "grows env r (run env cfg reqs r)"
proof (induction reqs arbitrary: r)
  case Nil
  show ?case by (simp add: grows_same)
next
  case (Cons a reqs)
  obtain now req where a: "a = (now, req)" by (cases a) auto
  from serve_grows[of env r cfg now req] Cons.IH[of "snd (serve env cfg now req r)"]
  show ?case unfolding a by (simp add: grows_trans)
qed

lemma grows_store_inv:
  assumes "json_roundtrip env" and "store_inv env r" and "grows env r r'"
  shows "store_inv env r'"
  unfolding store_inv_def
proof (intro conjI allI impI)
  fix k e u
  assume a: "kv r' (''user:'' @ k) = Some e \<and> Unmarshal env (val e) = Inr u"
  from assms(3) consider "kv r' (''user:'' @ k) = kv r (''user:'' @ k)"
    | u' js where "Marshal env u' = Inr js" "ID u' = k"
        "kv r' (''user:'' @ k) = Some \<lparr>val = js, expire_at = None\<rparr>"
    unfolding grows_def by blast
  then show "ID u = k"
  proof cases
    case 1
    with a assms(2) show ?thesis unfolding store_inv_def by metis
  next
    case 2
    with a have "Unmarshal env js = Inr u" by auto
    moreover from 2 assms(1) have "Unmarshal env js = Inr u'" by (auto simp: json_roundtrip_def)
    ultimately show ?thesis using 2 by simp
  qed
next
  fix x e
  assume a: "kv r' (''openid:'' @ x) = Some e"
  from assms(3) have "kv r' (''openid:'' @ x) = kv r (''openid:'' @ x) \<or>
      (\<exists>v. kv r' (''openid:'' @ x) = Some \<lparr>val = v, expire_at = None\<rparr>)"
    unfolding grows_def by blast
  with a assms(2) show "expire_at e = None"
    unfolding store_inv_def by (metis entry.select_convs(2) option.inject)
qed

lemma grows_openid:
  assumes "kv r (''openid:'' @ x) = Some \<lparr>val = i, expire_at = None\<rparr>" and "grows env r r'"
  shows "kv r' (''openid:'' @ x) = Some \<lparr>val = i, expire_at = None\<rparr>"
proof -
  from assms(1) have "live r now (''openid:'' @ x) = Some i" for now by (simp add: live_def)
  with assms(2) have "kv r' (''openid:'' @ x) = kv r (''openid:'' @ x)"
    unfolding grows_def by (metis option.distinct(1))
  with assms(1) show ?thesis by simp
qed

lemma store_inv_empty: "store_inv env \<lparr>kv = Map.empty, faults = fs\<rparr>"
  by (simp add: store_inv_def)

lemma store_inv_serve:
  "json_roundtrip env \<Longrightarrow> store_inv env r \<Longrightarrow> store_inv env (snd (serve env cfg now req r))"
  by (rule grows_store_inv[OF _ _ serve_grows])

lemma store_inv_run:
  "json_roundtrip env \<Longrightarrow> store_inv env r \<Longrightarrow> store_inv env (run env cfg reqs r)"
  by (rule grows_store_inv[OF _ _ run_grows])


lemma demo_json_roundtrip: "json_roundtrip demo_env"
  unfolding json_roundtrip_def demo_env_def
  by (auto simp: demo_Marshal_def demo_Unmarshal_def demo_users_def split: if_splits)

lemma demo_run:
  "run demo_env demo_cfg
     [(1, GetHealth), (2, PostLogout (Inr \<lparr>ReqRefreshToken = ''R.wx_o1''\<rparr>))] demo_wx_store_in =
   demo_wx_store"
  by (simp add: serve_def Logout_def ShouldBindJSON_def validate_RefreshRequest_def redis_defs
      demo_wx_store_in_def demo_wx_store_def)

lemma demo_issue_wx_3:
  "issueTokens demo_env demo_cfg 3 demo_wx demo_wx_store =
     (JSON StatusOK (TokenResponse ''A.wx_o1'' ''R.wx_o1'' 900),
      demo_wx_store\<lparr>kv := (kv demo_wx_store)(''refresh_token:R.wx_o1'' \<mapsto>
        \<lparr>val = ''wx_o1'', expire_at = Some 604800000000003\<rparr>)\<rparr>)"
  by (simp add: issueTokens_def demo_jwt_defs redis_defs demo_wx_def demo_wx_store_def)

lemma demo_Create_wx_again:
  "CreateWeChatUser demo_env 3 ''o1'' demo_wx_store = (Inr demo_wx, demo_wx_store)"
  by (simp add: CreateWeChatUser_def GetByID_def Let_def redis_defs demo_env_def
      demo_wx_store_def demo_Unmarshal_def demo_users_def)

lemma demo_WeChatLogin_second:
  "WeChatLogin demo_env demo_cfg 3 (Inr \<lparr>Code = ''c2''\<rparr>) demo_wx_store =
     (JSON StatusOK (TokenResponse ''A.wx_o1'' ''R.wx_o1'' 900),
      demo_wx_store\<lparr>kv := (kv demo_wx_store)(''refresh_token:R.wx_o1'' \<mapsto>
        \<lparr>val = ''wx_o1'', expire_at = Some 604800000000003\<rparr>)\<rparr>)"
  using demo_Create_wx_again demo_issue_wx_3
  by (simp add: WeChatLogin_def ShouldBindJSON_def validate_WeChatLoginRequest_def demo_Code2Session)


section \<open>Third-party login\<close>

text \<open>
  Claim C8 (one identity for one OpenID). Let the store satisfy the invariant of the user
  store (as the empty store does, and as every store reached from it by requests does),
  and let the JSON codec decode what it encoded. Take a WeChat login that answers 200,
  then any list of requests of any kind, then a second WeChat login that answers 200,
  where the codes of the two logins may differ and resolve to the same OpenID. Then
  there is one primary id for which both logins issue their tokens and which both
  record in the ledger; after the first login the OpenID index maps the OpenID to that
  id; and the second login creates no record: all it changes in the store is the ledger
  entry of its refresh token.
\<close>

theorem wechat_login_idempotent:
  assumes "json_roundtrip env" and "store_inv env r0"
    and "Code2Session env code1 = Inr s1" and "Code2Session env code2 = Inr s2"
    and "SessionOpenID s1 = SessionOpenID s2"
    and "WeChatLogin env cfg now1 (Inr \<lparr>Code = code1\<rparr>) r0 = (resp1, r1)"
    and "status resp1 = StatusOK"
    and "r2 = run env cfg reqs r1"
    and "WeChatLogin env cfg now2 (Inr \<lparr>Code = code2\<rparr>) r2 = (resp2, r3)"
    and "status resp2 = StatusOK"
  shows "\<exists>userID a1 t1 a2 t2.
           resp1 = JSON StatusOK (TokenResponse a1 t1 (15 * 60)) \<and>
           GenerateAccessToken env cfg now1 userID = Inr a1 \<and>
           GenerateRefreshToken env cfg now1 userID = Inr t1 \<and>
           kv r1 (''refresh_token:'' @ t1) =
             Some \<lparr>val = userID, expire_at = Some (now1 + 7 * 24 * Hour)\<rparr> \<and>
           kv r1 (''openid:'' @ SessionOpenID s1) = Some \<lparr>val = userID, expire_at = None\<rparr> \<and>
           resp2 = JSON StatusOK (TokenResponse a2 t2 (15 * 60)) \<and>
           GenerateAccessToken env cfg now2 userID = Inr a2 \<and>
           GenerateRefreshToken env cfg now2 userID = Inr t2 \<and>
           kv r3 = (kv r2)(''refresh_token:'' @ t2 \<mapsto>
                     \<lparr>val = userID, expire_at = Some (now2 + 7 * 24 * Hour)\<rparr>)"
proof -
  let ?x = "SessionOpenID s1"
  from WeChatLogin_OK[OF assms(6,7)] assms(3) obtain u1 ra where
    c1: "CreateWeChatUser env now1 ?x r0 = (Inr u1, ra)"
    and i1: "issueTokens env cfg now1 u1 ra = (resp1, r1)"
    by auto
  from WeChatLogin_OK[OF assms(9,10)] assms(4,5) obtain u2 rb where
    c2: "CreateWeChatUser env now2 ?x r2 = (Inr u2, rb)"
    and i2: "issueTokens env cfg now2 u2 rb = (resp2, r3)"
    by auto
  have ga: "grows env r0 ra" by (rule CreateWeChatUser_grows[OF c1])
  have g1: "grows env ra r1" by (rule issueTokens_grows[OF i1])
  have g2: "grows env r1 r2" unfolding assms(8) by (rule run_grows)
  from CreateWeChatUser_Inr[OF assms(2) c1]
  have oa: "kv ra (''openid:'' @ ?x) = Some \<lparr>val = ID u1, expire_at = None\<rparr>" .
  from grows_openid[OF oa g1]
  have o1: "kv r1 (''openid:'' @ ?x) = Some \<lparr>val = ID u1, expire_at = None\<rparr>" .
  from grows_openid[OF o1 g2]
  have o2: "kv r2 (''openid:'' @ ?x) = Some \<lparr>val = ID u1, expire_at = None\<rparr>" .
  have "store_inv env r2"
    using grows_store_inv[OF assms(1)] assms(2) ga g1 g2 by blast
  from CreateWeChatUser_existing[OF this o2 c2] have same: "ID u2 = ID u1" and kb: "kv rb = kv r2"
    by simp_all
  from issueTokens_OK[OF i1 assms(7)] obtain a1 t1 where f1:
    "GenerateAccessToken env cfg now1 (ID u1) = Inr a1"
    "GenerateRefreshToken env cfg now1 (ID u1) = Inr t1"
    "resp1 = JSON StatusOK (TokenResponse a1 t1 (15 * 60))"
    "kv r1 = (kv ra)(''refresh_token:'' @ t1 \<mapsto>
               \<lparr>val = ID u1, expire_at = Some (now1 + 7 * 24 * Hour)\<rparr>)"
    by blast
  from issueTokens_OK[OF i2 assms(10)] same kb obtain a2 t2 where f2:
    "GenerateAccessToken env cfg now2 (ID u1) = Inr a2"
    "GenerateRefreshToken env cfg now2 (ID u1) = Inr t2"
    "resp2 = JSON StatusOK (TokenResponse a2 t2 (15 * 60))"
    "kv r3 = (kv r2)(''refresh_token:'' @ t2 \<mapsto>
               \<lparr>val = ID u1, expire_at = Some (now2 + 7 * 24 * Hour)\<rparr>)"
    by auto
  from f1(4) have l1: "kv r1 (''refresh_token:'' @ t1) =
      Some \<lparr>val = ID u1, expire_at = Some (now1 + 7 * 24 * Hour)\<rparr>"
    by simp
  show ?thesis
    by (rule exI[of _ "ID u1"], rule exI[of _ a1], rule exI[of _ t1], rule exI[of _ a2],
        rule exI[of _ t2])
      (intro conjI f1(1-3) f2 l1 o1)
qed

theorem wechat_login_idempotent_witness:
  "json_roundtrip demo_env \<and> store_inv demo_env demo_empty \<and>
   Code2Session demo_env ''c1'' =
     Inr \<lparr>SessionOpenID = ''o1'', SessionKey = ''sk'', UnionID = [], ErrCode = 0, ErrMsg = []\<rparr> \<and>
   Code2Session demo_env ''c2'' =
     Inr \<lparr>SessionOpenID = ''o1'', SessionKey = ''sk'', UnionID = [], ErrCode = 0, ErrMsg = []\<rparr> \<and>
   WeChatLogin demo_env demo_cfg 0 (Inr \<lparr>Code = ''c1''\<rparr>) demo_empty =
     (JSON StatusOK (TokenResponse ''A.wx_o1'' ''R.wx_o1'' 900), demo_wx_store_in) \<and>
   status (JSON StatusOK (TokenResponse ''A.wx_o1'' ''R.wx_o1'' 900)) = StatusOK \<and>
   demo_wx_store = run demo_env demo_cfg
     [(1, GetHealth), (2, PostLogout (Inr \<lparr>ReqRefreshToken = ''R.wx_o1''\<rparr>))] demo_wx_store_in \<and>
   WeChatLogin demo_env demo_cfg 3 (Inr \<lparr>Code = ''c2''\<rparr>) demo_wx_store =
     (JSON StatusOK (TokenResponse ''A.wx_o1'' ''R.wx_o1'' 900),
      demo_wx_store\<lparr>kv := (kv demo_wx_store)(''refresh_token:R.wx_o1'' \<mapsto>
        \<lparr>val = ''wx_o1'', expire_at = Some 604800000000003\<rparr>)\<rparr>) \<and>
   (\<exists>userID a1 t1 a2 t2.
      GenerateAccessToken demo_env demo_cfg 0 userID = Inr a1 \<and>
      GenerateRefreshToken demo_env demo_cfg 0 userID = Inr t1 \<and>
      kv demo_wx_store_in (''refresh_token:'' @ t1) =
        Some \<lparr>val = userID, expire_at = Some (0 + 7 * 24 * Hour)\<rparr> \<and>
      kv demo_wx_store_in (''openid:'' @ ''o1'') = Some \<lparr>val = userID, expire_at = None\<rparr> \<and>
      GenerateAccessToken demo_env demo_cfg 3 userID = Inr a2 \<and>
      GenerateRefreshToken demo_env demo_cfg 3 userID = Inr t2 \<and>
      kv (demo_wx_store\<lparr>kv := (kv demo_wx_store)(''refresh_token:R.wx_o1'' \<mapsto>
            \<lparr>val = ''wx_o1'', expire_at = Some 604800000000003\<rparr>)\<rparr>) =
        (kv demo_wx_store)(''refresh_token:'' @ t2 \<mapsto>
            \<lparr>val = userID, expire_at = Some (3 + 7 * 24 * Hour)\<rparr>))"
proof -
  have e: "store_inv demo_env demo_empty"
    unfolding demo_empty_def by (rule store_inv_empty)
  have s: "status (JSON StatusOK (TokenResponse ''A.wx_o1'' ''R.wx_o1'' 900)) = StatusOK"
    by (simp add: JSON_def)
  have o: "SessionOpenID \<lparr>SessionOpenID = ''o1'', SessionKey = ''sk'', UnionID = [],
             ErrCode = 0, ErrMsg = []\<rparr> =
           SessionOpenID \<lparr>SessionOpenID = ''o1'', SessionKey = ''sk'', UnionID = [],
             ErrCode = 0, ErrMsg = []\<rparr>"
    by simp
  from wechat_login_idempotent[OF demo_json_roundtrip e demo_Code2Session(1) demo_Code2Session(2) o
      demo_WeChatLogin_first s demo_run[symmetric] demo_WeChatLogin_second s]
  have c: "\<exists>userID a1 t1 a2 t2.
      GenerateAccessToken demo_env demo_cfg 0 userID = Inr a1 \<and>
      GenerateRefreshToken demo_env demo_cfg 0 userID = Inr t1 \<and>
      kv demo_wx_store_in (''refresh_token:'' @ t1) =
        Some \<lparr>val = userID, expire_at = Some (0 + 7 * 24 * Hour)\<rparr> \<and>
      kv demo_wx_store_in (''openid:'' @ ''o1'') = Some \<lparr>val = userID, expire_at = None\<rparr> \<and>
      GenerateAccessToken demo_env demo_cfg 3 userID = Inr a2 \<and>
      GenerateRefreshToken demo_env demo_cfg 3 userID = Inr t2 \<and>
      kv (demo_wx_store\<lparr>kv := (kv demo_wx_store)(''refresh_token:R.wx_o1'' \<mapsto>
            \<lparr>val = ''wx_o1'', expire_at = Some 604800000000003\<rparr>)\<rparr>) =
        (kv demo_wx_store)(''refresh_token:'' @ t2 \<mapsto>
            \<lparr>val = userID, expire_at = Some (3 + 7 * 24 * Hour)\<rparr>)"
    by (elim exE conjE) (intro exI conjI; simp)
  from demo_json_roundtrip e demo_Code2Session demo_WeChatLogin_first s demo_run[symmetric]
    demo_WeChatLogin_second c
  show ?thesis by (intro conjI) assumption+
qed

end
